theory Spec2Isabelle
  imports Main "HOL-Library.AList"
begin

section \<open>Data model\<close>

text \<open>
  The statement parser of \<^verbatim>\<open>pkg/parser/statement/statement_parser.go\<close> walks the body
  of a function, keeps a stack of symbol tables and appends contracts to a contract table.
  Its collaborators (expression parser, type parser, symbols accessor) are interfaces of
  the configuration; they are parameters of the model.

  A Go \<^verbatim>\<open>error\<close> result is \<open>Err\<close>; a \<^verbatim>\<open>panic\<close> is \<open>Panic\<close>. Both abort the
  code that follows, but only \<open>Err\<close> is a value the caller can test and drop.
\<close>

datatype error = Err string | Panic string

fun isPanic :: "error + 'a \<Rightarrow> bool" where
  "isPanic (Inl (Panic m)) = True"
| "isPanic r = False"

fun isErr :: "error + 'a \<Rightarrow> bool" where
  "isErr (Inl (Err m)) = True"
| "isErr r = False"

fun isOk :: "error + 'a \<Rightarrow> bool" where
  "isOk (Inr v) = True"
| "isOk r = False"

subsection \<open>The syntax tree (the part of go/ast and go/token the parser inspects)\<close>

datatype token = DEFINE | ASSIGN | ARROW | OtherToken string

text \<open>
  \<open>NilExpr\<close> and \<open>NilStmt\<close> are the nil interface values of \<^verbatim>\<open>ast.Expr\<close> and
  \<^verbatim>\<open>ast.Stmt\<close>: the code tests for them (\<^verbatim>\<open>statement.Init != nil\<close>) and a type switch
  sends them to its default branch. \<open>OtherExpr\<close> stands for every expression form the
  statement parser hands to the expression parser without looking inside.
  Positions (\<^verbatim>\<open>token.Pos\<close>) are kept where the parser reads them.
\<close>

datatype expr =
    NilExpr
  | Ident string nat
  | ParenExpr expr
  | SelectorExpr expr string
  | StarExpr expr
  | IndexExpr expr expr
  | CallExpr expr "expr list"
  | TypeAssertExpr expr expr
  | UnaryExpr token expr
  | OtherExpr string

datatype spec =
    ValueSpec "(string \<times> nat) list" expr "expr list"
  | TypeSpec string expr
  | ImportSpec

datatype decl = GenDecl "spec list" | OtherDecl

text \<open>
  Statement bodies (\<^verbatim>\<open>*ast.BlockStmt\<close> fields) are given by their statement lists; a
  nil slice and an empty slice are both \<open>[]\<close>.
\<close>

datatype stmt =
    NilStmt
  | DeclStmt decl
  | LabeledStmt string stmt
  | ExprStmt expr
  | SendStmt expr expr
  | IncDecStmt expr
  | AssignStmt "expr list" token "expr list"
  | GoStmt expr
  | ReturnStmt "expr list"
  | BranchStmt
  | BlockStmt "stmt list"
  | IfStmt stmt expr "stmt list" stmt
  | SwitchStmt stmt expr "stmt list"
  | TypeSwitchStmt stmt stmt "stmt list"
  | SelectStmt "stmt list"
  | ForStmt stmt expr stmt "stmt list"
  | RangeStmt expr expr token expr "stmt list"
  | DeferStmt expr
  | EmptyStmt
  | CaseClause "expr list" "stmt list" nat
  | CommClause stmt "stmt list"
  | BadStmt

record Field =
  Names :: "(string \<times> nat) list"
  Type :: expr

record FuncDecl =
  FuncName :: "string option"
  Recv :: "Field list option"
  Params :: "Field list option"
  Results :: "Field list option"
  Body :: "stmt list option"

subsection \<open>Data types, symbols, type variables, contracts\<close>

datatype dataType =
    Builtin string bool
  | Identifier string string
  | Pointer dataType
  | Array dataType
  | Slice dataType
  | Map_t dataType dataType
  | Channel string "dataType option"
  | Ellipsis dataType
  | Function "dataType list" "dataType list" bool
  | Method dataType dataType
  | Interface "(string \<times> dataType) list"
  | Struct "(string \<times> dataType) list"
  | Packagequalifier string string

record SymbolDef =
  Name :: string
  Package :: string
  Def :: "dataType option"
  Posn :: string

datatype typevar =
    Variable string string string
  | Constant string dataType
  | VirtualVar nat
  | CGO
  | RangeKey typevar
  | RangeValue typevar
  | ListKey typevar
  | MapKey typevar
  | Argument typevar nat
  | ReturnType typevar nat
  | Field_tv typevar string nat

text \<open>The contracts of \<^verbatim>\<open>package contracts\<close>, fields in the order of the structs.\<close>

datatype contract =
    BinaryOp token typevar typevar typevar "dataType option"
  | UnaryOp token typevar typevar "dataType option"
  | PropagatesTo typevar typevar "dataType option"
  | IsCompatibleWith typevar typevar "dataType option" bool
  | IsInvocable typevar int
  | HasField typevar string int
  | IsReferenceable typevar
  | ReferenceOf typevar typevar
  | IsDereferenceable typevar
  | DereferenceOf typevar typevar
  | IsIndexable typevar typevar bool
  | IsSendableTo typevar typevar
  | IsReceiveableFrom typevar typevar "dataType option"
  | IsIncDecable typevar
  | IsRangeable typevar



text \<open>
  Modelled from the spec: \<^verbatim>\<open>typevars.VariableFromSymbolDef\<close> and \<^verbatim>\<open>typevars.MakeConstant\<close>
  (package typevars is not among the sources). A variable is identified by the package,
  name and position of its symbol definition.
\<close>

definition VariableFromSymbolDef :: "SymbolDef \<Rightarrow> typevar" where
  "VariableFromSymbolDef d = Variable (Package d) (Name d) (Posn d)"

definition MakeConstant :: "string \<Rightarrow> dataType \<Rightarrow> typevar" where
  "MakeConstant pkg t = Constant pkg t"

text \<open>The attribute record an expression parse returns.\<close>

record attribute =
  DataTypeList :: "dataType list"
  TypeVarList :: "typevar list"

subsection \<open>Symbol tables\<close>

text \<open>
  Modelled from the spec: the per-scope \<^verbatim>\<open>symboltable.Table\<close> (not among the sources).
  A table maps (name, kind) to a symbol definition, the kinds being variable, data type
  and function. Adding a symbol of a kind under a name the table already holds for that
  kind is an error, except that a data type whose stored definition is still null is
  completed by the second insertion.
\<close>

record Table =
  Variables :: "(string \<times> SymbolDef) list"
  DataTypes :: "(string \<times> SymbolDef) list"
  Functions :: "(string \<times> SymbolDef) list"

datatype SymbolType = VariableSymbol | DataTypeSymbol | FunctionSymbol | NoSymbol

definition NewTable :: Table where
  "NewTable = \<lparr>Variables = [], DataTypes = [], Functions = []\<rparr>"

definition Table_AddVariable :: "Table \<Rightarrow> SymbolDef \<Rightarrow> error + Table" where
  "Table_AddVariable t sd =
     (case map_of (Variables t) (Name sd) of
        Some d \<Rightarrow> Inl (Err (''Symbol '' @ Name sd @ '' already exists''))
      | None \<Rightarrow> Inr (t\<lparr>Variables := Variables t @ [(Name sd, sd)]\<rparr>))"

definition Table_AddDataType :: "Table \<Rightarrow> SymbolDef \<Rightarrow> error + Table" where
  "Table_AddDataType t sd =
     (case map_of (DataTypes t) (Name sd) of
        Some d \<Rightarrow>
          (if Def d = None
           then Inr (t\<lparr>DataTypes := AList.update (Name sd) sd (DataTypes t)\<rparr>)
           else Inl (Err (''Symbol '' @ Name sd @ '' already exists'')))
      | None \<Rightarrow> Inr (t\<lparr>DataTypes := DataTypes t @ [(Name sd, sd)]\<rparr>))"

definition Table_AddFunction :: "Table \<Rightarrow> SymbolDef \<Rightarrow> error + Table" where
  "Table_AddFunction t sd =
     (case map_of (Functions t) (Name sd) of
        Some d \<Rightarrow> Inl (Err (''Symbol '' @ Name sd @ '' already exists''))
      | None \<Rightarrow> Inr (t\<lparr>Functions := Functions t @ [(Name sd, sd)]\<rparr>))"

definition Table_LookupVariable :: "Table \<Rightarrow> string \<Rightarrow> error + SymbolDef" where
  "Table_LookupVariable t name =
     (case map_of (Variables t) name of
        Some d \<Rightarrow> Inr d
      | None \<Rightarrow> Inl (Err (''Symbol '' @ name @ '' not found'')))"

definition Table_Lookup :: "Table \<Rightarrow> string \<Rightarrow> error + (SymbolDef \<times> SymbolType)" where
  "Table_Lookup t name =
     (case map_of (Variables t) name of
        Some d \<Rightarrow> Inr (d, VariableSymbol)
      | None \<Rightarrow>
          (case map_of (DataTypes t) name of
             Some d \<Rightarrow> Inr (d, DataTypeSymbol)
           | None \<Rightarrow>
               (case map_of (Functions t) name of
                  Some d \<Rightarrow> Inr (d, FunctionSymbol)
                | None \<Rightarrow> Inl (Err (''Symbol '' @ name @ '' not found'')))))"

subsection \<open>The stack of symbol tables (package stack)\<close>

text \<open>
  A \<^verbatim>\<open>Stack\<close> is the list of its tables, the innermost scope last. Its \<^verbatim>\<open>Size\<close>
  field equals \<^verbatim>\<open>len(Tables)\<close> in every stack built by \<^verbatim>\<open>New\<close>, \<^verbatim>\<open>Push\<close>,
  \<^verbatim>\<open>Pop\<close> and \<^verbatim>\<open>Reset\<close>, so it is the length of the list.
\<close>

type_synonym Stack = "Table list"

definition New :: Stack where
  "New = []"

definition Push :: "Stack \<Rightarrow> Stack" where
  "Push ts = ts @ [NewTable]"

definition Pop :: "Stack \<Rightarrow> error + Stack" where
  "Pop ts =
     (if length ts > 0 then Inr (take (length ts - 1) ts)
      else Inl (Panic ''Popping over an empty stack of symbol tables''))"

definition AddVariable :: "Stack \<Rightarrow> SymbolDef \<Rightarrow> error + Stack" where
  "AddVariable ts sd =
     (if length ts > 0
      then (case Table_AddVariable (ts ! (length ts - 1)) sd of
              Inl e \<Rightarrow> Inl e
            | Inr t \<Rightarrow> Inr (ts[length ts - 1 := t]))
      else Inl (Err ''Symbol table stack is empty''))"

definition AddDataType :: "Stack \<Rightarrow> SymbolDef \<Rightarrow> error + Stack" where
  "AddDataType ts sd =
     (if length ts > 0
      then (case Table_AddDataType (ts ! (length ts - 1)) sd of
              Inl e \<Rightarrow> Inl e
            | Inr t \<Rightarrow> Inr (ts[length ts - 1 := t]))
      else Inl (Err ''Symbol table stack is empty''))"

definition AddFunction :: "Stack \<Rightarrow> SymbolDef \<Rightarrow> error + Stack" where
  "AddFunction ts sd =
     (if length ts > 0
      then (case Table_AddFunction (ts ! (length ts - 1)) sd of
              Inl e \<Rightarrow> Inl e
            | Inr t \<Rightarrow> Inr (ts[length ts - 1 := t]))
      else Inl (Err ''Symbol table stack is empty''))"

text \<open>The lookups run from index \<open>Size - 1\<close> down to 0: \<open>n\<close> is the number of tables left.\<close>

fun LookupVariable_loop :: "Stack \<Rightarrow> nat \<Rightarrow> string \<Rightarrow> error + SymbolDef" where
  "LookupVariable_loop ts 0 name = Inl (Err (''Symbol '' @ name @ '' not found''))"
| "LookupVariable_loop ts (Suc i) name =
     (case Table_LookupVariable (ts ! i) name of
        Inr d \<Rightarrow> Inr d
      | Inl e \<Rightarrow> LookupVariable_loop ts i name)"

definition LookupVariable :: "Stack \<Rightarrow> string \<Rightarrow> error + SymbolDef" where
  "LookupVariable ts name = LookupVariable_loop ts (length ts) name"

fun Lookup_loop :: "Stack \<Rightarrow> nat \<Rightarrow> string \<Rightarrow> error + (SymbolDef \<times> SymbolType)" where
  "Lookup_loop ts 0 name = Inl (Err (''Symbol '' @ name @ '' not found''))"
| "Lookup_loop ts (Suc i) name =
     (case Table_Lookup (ts ! i) name of
        Inr d \<Rightarrow> Inr d
      | Inl e \<Rightarrow> Lookup_loop ts i name)"

definition Lookup :: "Stack \<Rightarrow> string \<Rightarrow> error + (SymbolDef \<times> SymbolType)" where
  "Lookup ts name = Lookup_loop ts (length ts) name"

definition Reset :: "Stack \<Rightarrow> int \<Rightarrow> error + Stack" where
  "Reset ts level =
     (if level < 0 \<or> int (length ts) - 1 < level then Inl (Err ''Level out of range'')
      else if level = 0 then Inr (take 1 ts)
      else Inr (take (nat level + 1) ts))"

definition Table_at :: "Stack \<Rightarrow> int \<Rightarrow> error + Table" where
  "Table_at ts level =
     (if level < 0 \<or> int (length ts) - 1 < level then Inl (Err ''No symbol table found for level'')
      else Inr (ts ! nat level))"

text \<open>
  Modelled from the spec: \<^verbatim>\<open>Stack.CurrentLevel\<close> (the stack among the sources does not
  have it). Level 0 is the file level, so the current level is the index of the innermost
  table.
\<close>

definition CurrentLevel :: "Stack \<Rightarrow> int" where
  "CurrentLevel ts = int (length ts) - 1"

section \<open>The parser state and its collaborators\<close>

text \<open>
  The state the statement parser shares with its collaborators: the stack of symbol
  tables, the contract table (modelled from the spec: an append-only list and the counter
  of virtual variables; package contracts holds only the contract types), the
  parser's own \<^verbatim>\<open>lastConstType\<close>, and the data types recorded in the allocation table
  (package, name, position; its \<^verbatim>\<open>Lock\<close> and \<^verbatim>\<open>Unlock\<close> are not modelled).
\<close>

record pstate =
  Tables :: Stack
  Contracts :: "contract list"
  VirtualVars :: nat
  lastConstType :: "dataType option"
  Allocated :: "(string \<times> string \<times> string) list"

definition AddContract :: "contract \<Rightarrow> pstate \<Rightarrow> pstate" where
  "AddContract k s = s\<lparr>Contracts := Contracts s @ [k]\<rparr>"

definition NewVirtualVar :: "pstate \<Rightarrow> typevar \<times> pstate" where
  "NewVirtualVar s = (VirtualVar (VirtualVars s), s\<lparr>VirtualVars := VirtualVars s + 1\<rparr>)"

text \<open>
  The configuration: names, and the collaborators as functions. The parsers may change the
  state (the expression parser emits contracts of its own); the symbols accessor only
  reads it.
\<close>

record config =
  PackageName :: string
  FileName :: string
  ExprParser :: "expr \<Rightarrow> pstate \<Rightarrow> (error + attribute) \<times> pstate"
  TypeParser :: "expr \<Rightarrow> pstate \<Rightarrow> (error + dataType) \<times> pstate"
  FindFirstNonidDataType :: "dataType \<Rightarrow> pstate \<Rightarrow> error + dataType"

text \<open>\<^verbatim>\<open>fmt.Sprintf("%v:%v", FileName, pos)\<close>: the position in decimal.\<close>

function showPos :: "nat \<Rightarrow> string" where
  "showPos n =
     (if n < 10 then [''0123456789'' ! n]
      else showPos (n div 10) @ [''0123456789'' ! (n mod 10)])"
  by pat_completeness auto
termination
  by (relation "measure id") auto

declare showPos.simps [simp del]

definition SymbolPos :: "config \<Rightarrow> nat \<Rightarrow> string" where
  "SymbolPos c p = FileName c @ '':'' @ showPos p"

text \<open>Stack operations on the state. A deferred \<^verbatim>\<open>Pop\<close> runs on every exit, also on a
  panic; when the pop itself panics, that panic is the outcome.\<close>

definition sPush :: "pstate \<Rightarrow> pstate" where
  "sPush s = s\<lparr>Tables := Push (Tables s)\<rparr>"

definition sPop :: "(error + unit) \<times> pstate \<Rightarrow> (error + unit) \<times> pstate" where
  "sPop rs =
     (case Pop (Tables (snd rs)) of
        Inl e \<Rightarrow> (Inl e, snd rs)
      | Inr ts \<Rightarrow> (fst rs, (snd rs)\<lparr>Tables := ts\<rparr>))"

text \<open>\<^verbatim>\<open>sp.SymbolTable.AddVariable(sDef)\<close>: the stack changes only when the call succeeds.\<close>

definition sAddVariable :: "SymbolDef \<Rightarrow> pstate \<Rightarrow> (error + unit) \<times> pstate" where
  "sAddVariable sd s =
     (case AddVariable (Tables s) sd of
        Inl e \<Rightarrow> (Inl e, s)
      | Inr ts \<Rightarrow> (Inr (), s\<lparr>Tables := ts\<rparr>))"

definition sAddDataType :: "SymbolDef \<Rightarrow> pstate \<Rightarrow> (error + unit) \<times> pstate" where
  "sAddDataType sd s =
     (case AddDataType (Tables s) sd of
        Inl e \<Rightarrow> (Inl e, s)
      | Inr ts \<Rightarrow> (Inr (), s\<lparr>Tables := ts\<rparr>))"

text \<open>Indexing a slice: out of range is a run-time panic.\<close>

definition idx :: "'a list \<Rightarrow> nat \<Rightarrow> error + 'a" where
  "idx xs i = (if i < length xs then Inr (xs ! i) else Inl (Panic ''index out of range''))"

definition tv0 :: "attribute \<Rightarrow> error + typevar" where
  "tv0 a = idx (TypeVarList a) 0"

definition dt0 :: "attribute \<Rightarrow> error + dataType" where
  "dt0 a = idx (DataTypeList a) 0"

text \<open>\<^verbatim>\<open>fmt.Errorf("...: %v", err)\<close> around a returned error; it does not catch a panic.\<close>

fun wrapErr :: "string \<Rightarrow> error \<Rightarrow> error" where
  "wrapErr pre (Err m) = Err (pre @ m)"
| "wrapErr pre (Panic m) = Panic m"

section \<open>Statements without nested statements\<close>

definition parseExprStmt :: "config \<Rightarrow> expr \<Rightarrow> pstate \<Rightarrow> (error + unit) \<times> pstate" where
  "parseExprStmt c x s =
     (case ExprParser c x s of
        (Inl e, s1) \<Rightarrow> (Inl e, s1)
      | (Inr a, s1) \<Rightarrow> (Inr (), s1))"

definition parseSendStmt :: "config \<Rightarrow> expr \<Rightarrow> expr \<Rightarrow> pstate \<Rightarrow> (error + unit) \<times> pstate" where
  "parseSendStmt c ch v s =
     (case ExprParser c ch s of
        (Inl e, s1) \<Rightarrow> (Inl e, s1)
      | (Inr chanAttr, s1) \<Rightarrow>
     (case ExprParser c v s1 of
        (Inl e, s2) \<Rightarrow> (Inl e, s2)
      | (Inr valueAttr, s2) \<Rightarrow>
     (case tv0 valueAttr of Inl e \<Rightarrow> (Inl e, s2) | Inr x \<Rightarrow>
     (case tv0 chanAttr of Inl e \<Rightarrow> (Inl e, s2) | Inr y \<Rightarrow>
        (Inr (), AddContract (IsSendableTo x y) s2)))))"

definition parseIncDecStmt :: "config \<Rightarrow> expr \<Rightarrow> pstate \<Rightarrow> (error + unit) \<times> pstate" where
  "parseIncDecStmt c x s =
     (case ExprParser c x s of
        (Inl e, s1) \<Rightarrow> (Inl e, s1)
      | (Inr a, s1) \<Rightarrow>
     (case tv0 a of Inl e \<Rightarrow> (Inl e, s1) | Inr tv \<Rightarrow>
        (Inr (), AddContract (IsIncDecable tv) s1)))"

definition parseGoStmt :: "config \<Rightarrow> expr \<Rightarrow> pstate \<Rightarrow> (error + unit) \<times> pstate" where
  "parseGoStmt c call s =
     (case ExprParser c call s of
        (Inl e, s1) \<Rightarrow> (Inl e, s1)
      | (Inr a, s1) \<Rightarrow> (Inr (), s1))"

definition parseDeferStmt :: "config \<Rightarrow> expr \<Rightarrow> pstate \<Rightarrow> (error + unit) \<times> pstate" where
  "parseDeferStmt c call s =
     (case ExprParser c call s of
        (Inl e, s1) \<Rightarrow> (Inl e, s1)
      | (Inr a, s1) \<Rightarrow> (Inr (), s1))"

definition parseBranchStmt :: "config \<Rightarrow> pstate \<Rightarrow> (error + unit) \<times> pstate" where
  "parseBranchStmt c s = (Inr (), s)"

text \<open>The \<^verbatim>\<open>*ast.ReturnStmt\<close> case of \<^verbatim>\<open>Parse\<close>.\<close>

fun parseReturnStmt :: "config \<Rightarrow> expr list \<Rightarrow> pstate \<Rightarrow> (error + unit) \<times> pstate" where
  "parseReturnStmt c [] s = (Inr (), s)"
| "parseReturnStmt c (r # rs) s =
     (case ExprParser c r s of
        (Inl e, s1) \<Rightarrow> (Inl e, s1)
      | (Inr a, s1) \<Rightarrow> parseReturnStmt c rs s1)"

section \<open>Value specs and declarations\<close>

fun isIota :: "dataType \<Rightarrow> bool" where
  "isIota (Builtin d u) = (d = ''iota'')"
| "isIota t = False"

text \<open>
  The branch of \<^verbatim>\<open>ParseValueSpec\<close> for a single value that is not \<open>iota\<close>: one symbol per
  name from the tuple of the value. \<open>i\<close> is the index of the first name of the list.
\<close>

fun valueSpecTuple ::
  "config \<Rightarrow> dataType option \<Rightarrow> attribute \<Rightarrow> (string \<times> nat) list \<Rightarrow> nat \<Rightarrow> SymbolDef list
    \<Rightarrow> pstate \<Rightarrow> (error + SymbolDef list) \<times> pstate" where
  "valueSpecTuple c typeDef a [] i symbolsDef s = (Inr symbolsDef, s)"
| "valueSpecTuple c typeDef a (name # rest) i symbolsDef s =
     (if fst name = ''_'' then valueSpecTuple c typeDef a rest (Suc i) symbolsDef s
      else
       (case typeDef of
          None \<Rightarrow>
            (case idx (DataTypeList a) i of Inl e \<Rightarrow> (Inl e, s) | Inr d \<Rightarrow>
               (let sDef0 = \<lparr>Name = fst name, Package = PackageName c, Def = Some d,
                              Posn = SymbolPos c (snd name)\<rparr>;
                    sDef = (if CurrentLevel (Tables s) > 0 then sDef0\<lparr>Package := []\<rparr> else sDef0)
                in (case idx (TypeVarList a) i of Inl e \<Rightarrow> (Inl e, s) | Inr x \<Rightarrow>
                      valueSpecTuple c typeDef a rest (Suc i) (symbolsDef @ [sDef])
                        (AddContract (PropagatesTo x (VariableFromSymbolDef sDef) (Def sDef)) s))))
        | Some td \<Rightarrow>
            (let sDef0 = \<lparr>Name = fst name, Package = PackageName c, Def = Some td,
                           Posn = SymbolPos c (snd name)\<rparr>;
                 sDef = (if CurrentLevel (Tables s) > 0 then sDef0\<lparr>Package := []\<rparr> else sDef0)
             in (case idx (TypeVarList a) i of Inl e \<Rightarrow> (Inl e, s) | Inr x \<Rightarrow>
                   valueSpecTuple c typeDef a rest (Suc i) (symbolsDef @ [sDef])
                     (AddContract (IsCompatibleWith x (VariableFromSymbolDef sDef) (Def sDef) False) s)))))"

text \<open>
  The loop \<^verbatim>\<open>for i := 0; i < vLen; i++\<close>: one value per name. The list is what is left of
  \<^verbatim>\<open>spec.Values\<close> from index \<open>i\<close> on. An untyped \<open>iota\<close> is rewritten in place to
  \<open>int\<close>, so the symbol and \<^verbatim>\<open>lastConstType\<close> hold the rewritten type.
\<close>

fun valueSpecValues ::
  "config \<Rightarrow> (string \<times> nat) list \<Rightarrow> dataType option \<Rightarrow> expr list \<Rightarrow> nat \<Rightarrow> SymbolDef list
    \<Rightarrow> pstate \<Rightarrow> (error + SymbolDef list) \<times> pstate" where
  "valueSpecValues c names typeDef [] i symbolsDef s = (Inr symbolsDef, s)"
| "valueSpecValues c names typeDef (v # vs) i symbolsDef s =
     (if typeDef = None \<and> v = NilExpr
      then (Inl (Err ''No type nor value in ValueSpec declaration''), s)
      else
       (case ExprParser c v s of
          (Inl e, s1) \<Rightarrow> (Inl e, s1)
        | (Inr a, s1) \<Rightarrow>
           (if length (DataTypeList a) \<noteq> 1
            then (Inl (Err ''Expecting a single expression. Got a list instead''), s1)
            else
             (case idx names i of Inl e \<Rightarrow> (Inl e, s1) | Inr name \<Rightarrow>
               (if fst name = ''_''
                then valueSpecValues c names typeDef vs (Suc i) symbolsDef s1
                else
                 (case typeDef of
                    Some td \<Rightarrow>
                      (let sDef = \<lparr>Name = fst name, Package = PackageName c, Def = Some td,
                                    Posn = SymbolPos c (snd name)\<rparr>
                       in (case tv0 a of Inl e \<Rightarrow> (Inl e, s1) | Inr x \<Rightarrow>
                            (let s2 = AddContract
                                        (IsCompatibleWith x (VariableFromSymbolDef sDef) (Def sDef) False) s1;
                                 s3 = (if isIota (DataTypeList a ! 0)
                                       then s2\<lparr>lastConstType := Some td\<rparr> else s2)
                             in valueSpecValues c names typeDef vs (Suc i) (symbolsDef @ [sDef]) s3)))
                  | None \<Rightarrow>
                      (let d0 = DataTypeList a ! 0;
                           d1 = (if isIota d0 then Builtin ''int'' True else d0);
                           s2 = (case d0 of
                                   Builtin d u \<Rightarrow> s1\<lparr>lastConstType := Some d1\<rparr>
                                 | _ \<Rightarrow> s1);
                           sDef = \<lparr>Name = fst name, Package = PackageName c, Def = Some d1,
                                    Posn = SymbolPos c (snd name)\<rparr>
                       in (case tv0 a of Inl e \<Rightarrow> (Inl e, s2) | Inr x \<Rightarrow>
                             valueSpecValues c names typeDef vs (Suc i) (symbolsDef @ [sDef])
                               (AddContract (PropagatesTo x (VariableFromSymbolDef sDef) (Def sDef))
                                  s2)))))))))"

text \<open>
  The loop \<^verbatim>\<open>for i := vLen; i < nLen; i++\<close> over the names that have no value. The
  list is what is left of \<^verbatim>\<open>spec.Names\<close> from index \<open>i\<close> on.
\<close>

fun valueSpecTrailing ::
  "config \<Rightarrow> dataType option \<Rightarrow> (string \<times> nat) list \<Rightarrow> nat \<Rightarrow> SymbolDef list
    \<Rightarrow> pstate \<Rightarrow> (error + SymbolDef list) \<times> pstate" where
  "valueSpecTrailing c typeDef [] i symbolsDef s = (Inr symbolsDef, s)"
| "valueSpecTrailing c typeDef (name # rest) i symbolsDef s =
     (case (case typeDef of None \<Rightarrow> lastConstType s | Some td \<Rightarrow> Some td) of
        None \<Rightarrow>
          (Inl (Err (''No type in ValueSpec declaration for identifier at pos ''
                       @ showPos (i + 1) @ '' (starting index from 1)'')), s)
      | Some td \<Rightarrow>
          (if fst name = ''_'' then valueSpecTrailing c (Some td) rest (Suc i) symbolsDef s
           else valueSpecTrailing c (Some td) rest (Suc i)
                  (symbolsDef @ [\<lparr>Name = fst name, Package = PackageName c, Def = Some td,
                                   Posn = SymbolPos c (snd name)\<rparr>]) s))"

text \<open>The part of \<^verbatim>\<open>ParseValueSpec\<close> from \<^verbatim>\<open>if nLen < vLen\<close> on.\<close>

definition valueSpecElementwise ::
  "config \<Rightarrow> (string \<times> nat) list \<Rightarrow> dataType option \<Rightarrow> expr list
    \<Rightarrow> pstate \<Rightarrow> (error + SymbolDef list) \<times> pstate" where
  "valueSpecElementwise c names typeDef vals s =
     (if length names < length vals
      then (Inl (Err ''ValueSpec has less number of identifieries on LHS than a number of expressions on RHS''), s)
      else
       (case valueSpecValues c names typeDef vals 0 [] s of
          (Inl e, s1) \<Rightarrow> (Inl e, s1)
        | (Inr symbolsDef, s1) \<Rightarrow>
            valueSpecTrailing c typeDef (drop (length vals) names) (length vals) symbolsDef s1))"

definition ParseValueSpec ::
  "config \<Rightarrow> (string \<times> nat) list \<Rightarrow> expr \<Rightarrow> expr list
    \<Rightarrow> pstate \<Rightarrow> (error + SymbolDef list) \<times> pstate" where
  "ParseValueSpec c names typ vals s =
     (case (if typ \<noteq> NilExpr
            then (case TypeParser c typ s of
                    (Inl e, s0) \<Rightarrow> (Inl e, s0)
                  | (Inr d, s0) \<Rightarrow> (Inr (Some d), s0))
            else (Inr None, s)) of
        (Inl e, s0) \<Rightarrow> (Inl e, s0)
      | (Inr typeDef, s0) \<Rightarrow>
          (if length vals = 1
           then
            (case ExprParser c (vals ! 0) s0 of
               (Inl e, s1) \<Rightarrow> (Inl e, s1)
             | (Inr a, s1) \<Rightarrow>
                 (case dt0 a of Inl e \<Rightarrow> (Inl e, s1) | Inr d \<Rightarrow>
                    (if \<not> isIota d
                     then
                       (if length names \<noteq> length (DataTypeList a)
                        then (Inl (Err ''ValueSpec has different number of identifiers on LHS than a number of results of invocation on RHS''), s1)
                        else valueSpecTuple c typeDef a names 0 [] s1)
                     else valueSpecElementwise c names typeDef vals s1)))
           else valueSpecElementwise c names typeDef vals s0))"

text \<open>
  The loop of \<^verbatim>\<open>parseDeclStmt\<close> that stores the symbols of a value spec. \<open>False\<close>: a
  call of \<^verbatim>\<open>AddVariable\<close> returned an error and \<^verbatim>\<open>parseDeclStmt\<close> returned nil there.
\<close>

fun declAddVariables :: "SymbolDef list \<Rightarrow> pstate \<Rightarrow> bool \<times> pstate" where
  "declAddVariables [] s = (True, s)"
| "declAddVariables (d # ds) s =
     (case sAddVariable d s of
        (Inl e, s1) \<Rightarrow> (False, s1)
      | (Inr u, s1) \<Rightarrow> declAddVariables ds s1)"

definition declTypeSpec :: "config \<Rightarrow> string \<Rightarrow> expr \<Rightarrow> pstate \<Rightarrow> (error + unit) \<times> pstate" where
  "declTypeSpec c name typ s =
     (case sAddDataType \<lparr>Name = name, Package = PackageName c, Def = None, Posn = []\<rparr> s of
        (Inl e, s1) \<Rightarrow> (Inl e, s1)
      | (Inr u, s1) \<Rightarrow>
     (case TypeParser c typ s1 of
        (Inl e, s2) \<Rightarrow> (Inl e, s2)
      | (Inr typeDef, s2) \<Rightarrow>
          sAddDataType \<lparr>Name = name, Package = PackageName c, Def = Some typeDef, Posn = []\<rparr> s2))"

fun declSpecs :: "config \<Rightarrow> spec list \<Rightarrow> pstate \<Rightarrow> (error + unit) \<times> pstate" where
  "declSpecs c [] s = (Inr (), s)"
| "declSpecs c (ValueSpec names typ vals # rest) s =
     (case ParseValueSpec c names typ vals s of
        (Inl e, s1) \<Rightarrow> (Inl e, s1)
      | (Inr defs, s1) \<Rightarrow>
          (case declAddVariables defs s1 of
             (False, s2) \<Rightarrow> (Inr (), s2)
           | (True, s2) \<Rightarrow> declSpecs c rest s2))"
| "declSpecs c (TypeSpec name typ # rest) s =
     (case declTypeSpec c name typ s of
        (Inl e, s1) \<Rightarrow> (Inl e, s1)
      | (Inr u, s1) \<Rightarrow> declSpecs c rest s1)"
| "declSpecs c (ImportSpec # rest) s = (Inl (Panic ''Unrecognized Gen declaration''), s)"

fun parseDeclStmt :: "config \<Rightarrow> decl \<Rightarrow> pstate \<Rightarrow> (error + unit) \<times> pstate" where
  "parseDeclStmt c (GenDecl specs) s = declSpecs c specs s"
| "parseDeclStmt c OtherDecl s = (Inl (Panic ''Unrecognized declaration''), s)"

section \<open>Assignment\<close>

text \<open>
  \<^verbatim>\<open>rhsIndexer\<close> is a local function variable of \<^verbatim>\<open>parseAssignStmt\<close>; the four
  closures it can hold are the four constructors, with the variables each closure captures.
\<close>

datatype rhsIndexer =
    GeneralIndexer
  | CallIndexer attribute bool
  | IndexExprIndexer
  | TypeAssertIndexer attribute dataType

definition parseSingleRhs ::
  "config \<Rightarrow> expr list \<Rightarrow> nat \<Rightarrow> pstate \<Rightarrow> (error + dataType \<times> typevar) \<times> pstate" where
  "parseSingleRhs c rhs i s =
     (case idx rhs i of Inl e \<Rightarrow> (Inl e, s) | Inr r \<Rightarrow>
     (case ExprParser c r s of
        (Inl e, s1) \<Rightarrow> (Inl (wrapErr ''Error when parsing Rhs expression: '' e), s1)
      | (Inr defAttr, s1) \<Rightarrow>
          (if length (DataTypeList defAttr) \<noteq> 1
           then (Inl (Err ''Assignment element does not return a single result''), s1)
           else (case tv0 defAttr of Inl e \<Rightarrow> (Inl e, s1) | Inr tv \<Rightarrow>
                   (Inr (DataTypeList defAttr ! 0, tv), s1)))))"

fun runRhsIndexer ::
  "config \<Rightarrow> expr list \<Rightarrow> rhsIndexer \<Rightarrow> nat \<Rightarrow> pstate \<Rightarrow> (error + dataType \<times> typevar) \<times> pstate" where
  "runRhsIndexer c rhs GeneralIndexer i s = parseSingleRhs c rhs i s"
| "runRhsIndexer c rhs (CallIndexer callExprDefAttr isCgo) i s =
     (if i < length (DataTypeList callExprDefAttr)
      then (case idx (TypeVarList callExprDefAttr) i of Inl e \<Rightarrow> (Inl e, s) | Inr tv \<Rightarrow>
              (Inr (DataTypeList callExprDefAttr ! i, tv), s))
      else if i = length (DataTypeList callExprDefAttr) \<and> isCgo
      then (Inr (Builtin ''error'' False, CGO), s)
      else (Inl (Panic ''rhsIndexer: out of range''), s))"
| "runRhsIndexer c rhs IndexExprIndexer i s =
     (if i = 0 then
        (case idx rhs i of Inl e \<Rightarrow> (Inl e, s) | Inr r \<Rightarrow>
        (case ExprParser c r s of
           (Inl e, s1) \<Rightarrow> (Inl (wrapErr ''Error when parsing Rhs expression: '' e), s1)
         | (Inr defAttr, s1) \<Rightarrow>
             (case dt0 defAttr of Inl e \<Rightarrow> (Inl e, s1) | Inr d \<Rightarrow>
                (if length (DataTypeList defAttr) \<noteq> 1
                 then (Inl (Err ''Assignment element does not return a single result''), s1)
                 else (case tv0 defAttr of Inl e \<Rightarrow> (Inl e, s1) | Inr tv \<Rightarrow>
                         (Inr (d, tv), s1))))))
      else if i = 1
      then (Inr (Builtin ''bool'' False, MakeConstant (PackageName c) (Builtin ''bool'' False)), s)
      else (Inl (Err ''Rhs index out of range''), s))"
| "runRhsIndexer c rhs (TypeAssertIndexer xDefAttr typeDef) i s =
     (if i = 0 then
        (case tv0 xDefAttr of Inl e \<Rightarrow> (Inl e, s) | Inr x \<Rightarrow>
           (Inr (typeDef, MakeConstant (PackageName c) typeDef),
            AddContract
              (IsCompatibleWith x (MakeConstant (PackageName c) typeDef) (Some typeDef) False) s))
      else if i = 1
      then (Inr (Builtin ''bool'' False, MakeConstant (PackageName c) (Builtin ''bool'' False)), s)
      else (Inl (Err ''Rhs index out of range''), s))"

fun isCgoCall :: "expr \<Rightarrow> bool" where
  "isCgoCall (CallExpr (SelectorExpr (Ident name p) sel) args) = (name = ''C'')"
| "isCgoCall e = False"

text \<open>
  The first part of \<^verbatim>\<open>parseAssignStmt\<close>: which \<^verbatim>\<open>rhsIndexer\<close> the statement gets, or
  the error or panic for the shape of its right-hand side.
\<close>

definition assignRhsShape ::
  "config \<Rightarrow> expr list \<Rightarrow> expr list \<Rightarrow> pstate \<Rightarrow> (error + rhsIndexer) \<times> pstate" where
  "assignRhsShape c lhs rhs s =
     (if length lhs \<noteq> length rhs then
        (if length rhs \<noteq> 1
         then (Inl (Err ''Number of expressions on the left-hand side differs from ones on the right-hand side''), s)
         else
          (case rhs ! 0 of
             CallExpr f args \<Rightarrow>
               (case ExprParser c (rhs ! 0) s of
                  (Inl e, s1) \<Rightarrow> (Inl e, s1)
                | (Inr callExprDefAttr, s1) \<Rightarrow>
                    (if length lhs \<noteq> length (DataTypeList callExprDefAttr)
                     then
                       (if isCgoCall (rhs ! 0)
                        then
                          (if length lhs \<noteq> length (DataTypeList callExprDefAttr) + 1
                           then (Inl (Err ''CGO: Number of expressions on the left-hand side differs from number of results of invocation on the right-hand side''), s1)
                           else (Inr (CallIndexer callExprDefAttr (isCgoCall (rhs ! 0))), s1))
                        else (Inl (Err ''Number of expressions on the left-hand side differs from number of results of invocation on the right-hand side''), s1))
                     else (Inr (CallIndexer callExprDefAttr (isCgoCall (rhs ! 0))), s1)))
           | IndexExpr x k \<Rightarrow>
               (if length lhs \<noteq> 2
                then (Inl (Err ''Expecting two expression on the RHS when accessing an index expression''), s)
                else (Inr IndexExprIndexer, s))
           | TypeAssertExpr x t \<Rightarrow>
               (if length lhs \<noteq> 2
                then (Inl (Err ''Expecting two expression on the RHS when type-asserting an expression''), s)
                else
                 (case ExprParser c x s of
                    (Inl e, s1) \<Rightarrow> (Inl e, s1)
                  | (Inr xDefAttr, s1) \<Rightarrow>
                      (if length (DataTypeList xDefAttr) \<noteq> 1
                       then (Inl (Err ''Index expression is not a single expression''), s1)
                       else
                        (case TypeParser c t s1 of
                           (Inl e, s2) \<Rightarrow> (Inl e, s2)
                         | (Inr typeDef, s2) \<Rightarrow> (Inr (TypeAssertIndexer xDefAttr typeDef), s2)))))
           | _ \<Rightarrow> (Inl (Panic ''Expecting *ast.CallExpr or *ast.IndexExpr''), s)))
      else (Inr GeneralIndexer, s))"

fun stripParens :: "expr \<Rightarrow> expr" where
  "stripParens (ParenExpr x) = stripParens x"
| "stripParens e = e"

text \<open>
  A returned error that the code answers with \<^verbatim>\<open>return nil\<close>. The result \<open>Inr False\<close>
  says that the enclosing function has returned nil, \<open>Inr True\<close> that it goes on.
\<close>

fun dropErr :: "error \<Rightarrow> error + bool" where
  "dropErr (Err m) = Inr False"
| "dropErr (Panic m) = Inl (Panic m)"

definition assignToExpr ::
  "config \<Rightarrow> expr \<Rightarrow> typevar \<Rightarrow> pstate \<Rightarrow> (error + bool) \<times> pstate" where
  "assignToExpr c lhsExpr rhsTypeVar s =
     (case ExprParser c lhsExpr s of
        (Inl e, s1) \<Rightarrow> (dropErr e, s1)
      | (Inr a, s1) \<Rightarrow>
          (case tv0 a of Inl e \<Rightarrow> (Inl e, s1) | Inr y \<Rightarrow>
          (case dt0 a of Inl e \<Rightarrow> (Inl e, s1) | Inr d \<Rightarrow>
             (Inr True, AddContract (IsCompatibleWith rhsTypeVar y (Some d) False) s1))))"

text \<open>The body of the loop over the left-hand sides, for the expression at index \<open>i\<close>.\<close>

definition assignLhs ::
  "config \<Rightarrow> token \<Rightarrow> rhsIndexer \<Rightarrow> expr list \<Rightarrow> expr \<Rightarrow> nat
    \<Rightarrow> pstate \<Rightarrow> (error + bool) \<times> pstate" where
  "assignLhs c tok ix rhs lhsExpr i s =
     (case runRhsIndexer c rhs ix i s of
        (Inl e, s1) \<Rightarrow> (Inl e, s1)
      | (Inr (rhsExpr, rhsTypeVar), s1) \<Rightarrow>
          (case stripParens lhsExpr of
             Ident name p \<Rightarrow>
               (if name = ''_'' then (Inr True, s1)
                else if tok = DEFINE then
                  (let sDef = \<lparr>Name = name, Package = PackageName c, Def = Some rhsExpr,
                                Posn = SymbolPos c p\<rparr>
                   in (Inr True,
                       AddContract (PropagatesTo rhsTypeVar (VariableFromSymbolDef sDef) (Def sDef))
                         (snd (sAddVariable sDef s1))))
                else
                  (case LookupVariable (Tables s1) name of
                     Inl e \<Rightarrow> (Inl e, s1)
                   | Inr sDef \<Rightarrow>
                       (Inr True,
                        AddContract
                          (IsCompatibleWith rhsTypeVar (VariableFromSymbolDef sDef) (Def sDef) False)
                          s1)))
           | SelectorExpr x sel \<Rightarrow> assignToExpr c (stripParens lhsExpr) rhsTypeVar s1
           | StarExpr x \<Rightarrow> assignToExpr c (stripParens lhsExpr) rhsTypeVar s1
           | IndexExpr x k \<Rightarrow> assignToExpr c (stripParens lhsExpr) rhsTypeVar s1
           | _ \<Rightarrow> (Inl (Err ''Lhs of an assignment type is not recognized''), s1)))"

fun assignLoop ::
  "config \<Rightarrow> token \<Rightarrow> rhsIndexer \<Rightarrow> expr list \<Rightarrow> expr list \<Rightarrow> nat
    \<Rightarrow> pstate \<Rightarrow> (error + unit) \<times> pstate" where
  "assignLoop c tok ix rhs [] i s = (Inr (), s)"
| "assignLoop c tok ix rhs (l # ls) i s =
     (case assignLhs c tok ix rhs l i s of
        (Inl e, s1) \<Rightarrow> (Inl e, s1)
      | (Inr False, s1) \<Rightarrow> (Inr (), s1)
      | (Inr True, s1) \<Rightarrow> assignLoop c tok ix rhs ls (Suc i) s1)"

definition parseAssignStmt ::
  "config \<Rightarrow> expr list \<Rightarrow> token \<Rightarrow> expr list \<Rightarrow> pstate \<Rightarrow> (error + unit) \<times> pstate" where
  "parseAssignStmt c lhs tok rhs s =
     (case assignRhsShape c lhs rhs s of
        (Inl e, s1) \<Rightarrow> (Inl e, s1)
      | (Inr ix, s1) \<Rightarrow> assignLoop c tok ix rhs lhs 0 s1)"

section \<open>The heads of the compound statements\<close>

subsection \<open>Value switch\<close>

definition switchTag :: "config \<Rightarrow> expr \<Rightarrow> pstate \<Rightarrow> (error + typevar) \<times> pstate" where
  "switchTag c tag s =
     (if tag = NilExpr then (Inr (MakeConstant ''builtin'' (Builtin ''bool'' False)), s)
      else
       (case ExprParser c tag s of
          (Inl e, s1) \<Rightarrow> (Inl e, s1)
        | (Inr a, s1) \<Rightarrow> (case tv0 a of Inl e \<Rightarrow> (Inl e, s1) | Inr tv \<Rightarrow> (Inr tv, s1))))"

text \<open>The loop over the expressions of one case clause.\<close>

fun switchCaseExprs :: "config \<Rightarrow> typevar \<Rightarrow> expr list \<Rightarrow> pstate \<Rightarrow> (error + bool) \<times> pstate" where
  "switchCaseExprs c stmtTagTypeVar [] s = (Inr True, s)"
| "switchCaseExprs c stmtTagTypeVar (caseExpr # rest) s =
     (case ExprParser c caseExpr s of
        (Inl e, s1) \<Rightarrow> (dropErr e, s1)
      | (Inr caseAttr, s1) \<Rightarrow>
          (case tv0 caseAttr of Inl e \<Rightarrow> (Inl e, s1) | Inr x \<Rightarrow>
             switchCaseExprs c stmtTagTypeVar rest
               (AddContract (IsCompatibleWith x stmtTagTypeVar None False) s1)))"

subsection \<open>Type switch\<close>

text \<open>
  The guard \<^verbatim>\<open>x.(type)\<close> of a type switch, common to both forms of
  \<^verbatim>\<open>statement.Assign\<close>. \<open>Inr None\<close>: the error of the expression parser was answered
  with \<^verbatim>\<open>return nil\<close>.
\<close>

definition typeSwitchAssert :: "config \<Rightarrow> expr \<Rightarrow> pstate \<Rightarrow> (error + typevar option) \<times> pstate" where
  "typeSwitchAssert c e s =
     (case e of
        TypeAssertExpr x t \<Rightarrow>
          (case ExprParser c x s of
             (Inl (Err m), s1) \<Rightarrow> (Inr None, s1)
           | (Inl (Panic m), s1) \<Rightarrow> (Inl (Panic m), s1)
           | (Inr typeAttr, s1) \<Rightarrow>
               (case tv0 typeAttr of Inl e \<Rightarrow> (Inl e, s1) | Inr tv \<Rightarrow> (Inr (Some tv), s1)))
      | _ \<Rightarrow> (Inl (Err ''Expecting type assert in type switch''), s))"

text \<open>The \<^verbatim>\<open>*ast.AssignStmt\<close> case of the guard, after its \<^verbatim>\<open>Push\<close>.\<close>

definition typeSwitchAssign ::
  "config \<Rightarrow> expr list \<Rightarrow> expr list \<Rightarrow> pstate
    \<Rightarrow> (error + (dataType option \<times> typevar) option) \<times> pstate" where
  "typeSwitchAssign c lhs rhs s =
     (if length lhs \<noteq> 1
      then (Inl (Err ''LHS of the type assert assignment must be a single assignable expression''), s)
      else if length rhs \<noteq> 1
      then (Inl (Err ''RHS of the type assert assignment must be a single expression''), s)
      else
       (case typeSwitchAssert c (rhs ! 0) s of
          (Inl e, s1) \<Rightarrow> (Inl e, s1)
        | (Inr None, s1) \<Rightarrow> (Inr None, s1)
        | (Inr (Some typeTypeVar), s1) \<Rightarrow>
            (case lhs ! 0 of
               Ident name p \<Rightarrow>
                 (if name \<noteq> ''_''
                  then (Inr (Some (Some (Identifier name (PackageName c)), typeTypeVar)), s1)
                  else (Inr (Some (None, typeTypeVar)), s1))
             | _ \<Rightarrow>
                 (Inl (Err ''Expecting identifier on the RHS of the type switch assigment''), s1))))"

fun typeSwitchCaseTypes :: "config \<Rightarrow> typevar \<Rightarrow> expr list \<Rightarrow> pstate \<Rightarrow> (error + unit) \<times> pstate" where
  "typeSwitchCaseTypes c typeTypeVar [] s = (Inr (), s)"
| "typeSwitchCaseTypes c typeTypeVar (caseExpr # rest) s =
     (case TypeParser c caseExpr s of
        (Inl e, s1) \<Rightarrow> (Inl e, s1)
      | (Inr rhsType, s1) \<Rightarrow>
          typeSwitchCaseTypes c typeTypeVar rest
            (AddContract
               (IsCompatibleWith (MakeConstant (PackageName c) rhsType) typeTypeVar None True) s1))"

definition typeSwitchBind ::
  "config \<Rightarrow> dataType option \<Rightarrow> dataType \<Rightarrow> nat \<Rightarrow> pstate \<Rightarrow> pstate" where
  "typeSwitchBind c rhsIdentifier t p s =
     (case rhsIdentifier of
        Some (Identifier name pkg) \<Rightarrow>
          (let sDef = \<lparr>Name = name, Package = PackageName c, Def = Some t, Posn = SymbolPos c p\<rparr>
           in AddContract (PropagatesTo (MakeConstant (PackageName c) t) (VariableFromSymbolDef sDef) None)
                (snd (sAddVariable sDef s)))
      | _ \<Rightarrow> s)"

text \<open>One case clause of a type switch, after its \<^verbatim>\<open>Push\<close> and up to its body.\<close>

definition typeSwitchClauseHead ::
  "config \<Rightarrow> dataType option \<Rightarrow> typevar \<Rightarrow> expr list \<Rightarrow> nat \<Rightarrow> pstate
    \<Rightarrow> (error + unit) \<times> pstate" where
  "typeSwitchClauseHead c rhsIdentifier typeTypeVar caseList p s =
     (if length caseList \<noteq> 1 then
        (case typeSwitchCaseTypes c typeTypeVar caseList s of
           (Inl e, s1) \<Rightarrow> (Inl e, s1)
         | (Inr u, s1) \<Rightarrow> (Inr (), typeSwitchBind c rhsIdentifier (Interface []) p s1))
      else
        (case TypeParser c (caseList ! 0) s of
           (Inl e, s1) \<Rightarrow> (Inl e, s1)
         | (Inr rhsType, s1) \<Rightarrow>
             (Inr (),
              typeSwitchBind c rhsIdentifier rhsType p
                (AddContract
                   (IsCompatibleWith (MakeConstant (PackageName c) rhsType) typeTypeVar None True)
                   s1))))"

subsection \<open>Select\<close>

text \<open>The \<^verbatim>\<open>*ast.AssignStmt\<close> case of a communication clause: a receive.\<close>

definition selectRecvBind :: "config \<Rightarrow> string \<Rightarrow> nat \<Rightarrow> dataType option \<Rightarrow> typevar \<Rightarrow> pstate \<Rightarrow> pstate" where
  "selectRecvBind c name p def x s =
     (let sDef = \<lparr>Name = name, Package = PackageName c, Def = def, Posn = SymbolPos c p\<rparr>
      in AddContract (PropagatesTo x (VariableFromSymbolDef sDef) None) (snd (sAddVariable sDef s)))"

definition selectRecvAssign :: "config \<Rightarrow> expr \<Rightarrow> typevar \<Rightarrow> pstate \<Rightarrow> (error + unit) \<times> pstate" where
  "selectRecvAssign c lhsExpr x s =
     (case ExprParser c lhsExpr s of
        (Inl e, s1) \<Rightarrow> (Inl e, s1)
      | (Inr assignAttr, s1) \<Rightarrow>
          (case tv0 assignAttr of Inl e \<Rightarrow> (Inl e, s1) | Inr tv \<Rightarrow>
             (Inr (), AddContract (IsCompatibleWith x tv None False) s1)))"

definition selectRecvLhs ::
  "config \<Rightarrow> expr list \<Rightarrow> token \<Rightarrow> attribute \<Rightarrow> dataType option \<Rightarrow> pstate
    \<Rightarrow> (error + unit) \<times> pstate" where
  "selectRecvLhs c lhs tok rhsExprAttr chanValue s =
     (if length lhs = 0
      then (Inl (Err ''Expecting at least one expression on the LHS of a clause assigment''), s)
      else if length lhs = 1 then
        (case NewVirtualVar s of (y, s1) \<Rightarrow>
        (case tv0 rhsExprAttr of Inl e \<Rightarrow> (Inl e, s1) | Inr x \<Rightarrow>
        (let s2 = AddContract (IsReceiveableFrom x y None) s1 in
           (if tok = DEFINE then
              (case lhs ! 0 of
                 Ident name p \<Rightarrow> (Inr (), selectRecvBind c name p chanValue y s2)
               | _ \<Rightarrow> (Inl (Err ''Expecting an identifier in select clause due to := assignment''), s2))
            else selectRecvAssign c (lhs ! 0) y s2))))
      else if length lhs = 2 then
        (case NewVirtualVar s of (y, s1) \<Rightarrow>
        (case tv0 rhsExprAttr of Inl e \<Rightarrow> (Inl e, s1) | Inr x \<Rightarrow>
        (let s2 = AddContract (IsReceiveableFrom x y None) s1 in
           (if tok = DEFINE then
              (case lhs ! 0 of
                 Ident name1 p1 \<Rightarrow>
                   (case lhs ! 1 of
                      Ident name2 p2 \<Rightarrow>
                        (Inr (),
                         selectRecvBind c name2 p2 (Some (Builtin ''bool'' False))
                           (MakeConstant ''builtin'' (Builtin ''bool'' False))
                           (selectRecvBind c name1 p1 chanValue y s2))
                    | _ \<Rightarrow> (Inl (Err ''Expecting an identifier in select clause due to := assignment''), s2))
               | _ \<Rightarrow> (Inl (Err ''Expecting an identifier in select clause due to := assignment''), s2))
            else
              (case selectRecvAssign c (lhs ! 0) y s2 of
                 (Inl e, s3) \<Rightarrow> (Inl e, s3)
               | (Inr u, s3) \<Rightarrow>
                   selectRecvAssign c (lhs ! 1) (MakeConstant ''builtin'' (Builtin ''bool'' False)) s3)))))
      else (Inl (Err ''Expecting at most two expression on the LHS of a clause assigment''), s))"

definition selectRecv ::
  "config \<Rightarrow> expr list \<Rightarrow> token \<Rightarrow> expr list \<Rightarrow> pstate \<Rightarrow> (error + unit) \<times> pstate" where
  "selectRecv c lhs tok rhs s =
     (if length rhs \<noteq> 1
      then (Inl (Err ''Expecting a single expression on the RHS of a clause assigment''), s)
      else
       (case rhs ! 0 of
          UnaryExpr op x \<Rightarrow>
            (if op \<noteq> ARROW
             then (Inl (Err ''Expecting unary expression in a form of <-chan''), s)
             else
              (case ExprParser c x s of
                 (Inl e, s1) \<Rightarrow> (Inl e, s1)
               | (Inr rhsExprAttr, s1) \<Rightarrow>
                   (if length (DataTypeList rhsExprAttr) \<noteq> 1
                    then (Inl (Err ''Expecting unary expression in a form of <-chan''), s1)
                    else
                     (case DataTypeList rhsExprAttr ! 0 of
                        Channel dir v \<Rightarrow> selectRecvLhs c lhs tok rhsExprAttr v s1
                      | _ \<Rightarrow> (Inl (Err ''Expecting unary expression in a form of <-chan''), s1)))))
        | _ \<Rightarrow> (Inl (Err ''Expecting unary expression in a form of <-chan''), s)))"

text \<open>\<^verbatim>\<open>commClause.Comm\<close> of a communication clause, when it is not nil.\<close>

definition selectComm :: "config \<Rightarrow> stmt \<Rightarrow> pstate \<Rightarrow> (error + unit) \<times> pstate" where
  "selectComm c comm s =
     (case comm of
        ExprStmt x \<Rightarrow>
          (case ExprParser c x s of
             (Inl e, s1) \<Rightarrow> (Inl e, s1)
           | (Inr a, s1) \<Rightarrow> (Inr (), s1))
      | SendStmt ch v \<Rightarrow> parseSendStmt c ch v s
      | AssignStmt lhs tok rhs \<Rightarrow> selectRecv c lhs tok rhs s
      | _ \<Rightarrow> (Inl (Err ''Unable to recognize selector CommClause CommCase''), s))"

subsection \<open>Range\<close>

text \<open>
  Modelled from the spec: \<^verbatim>\<open>typevars.MakeRangeKey\<close> and \<^verbatim>\<open>typevars.MakeRangeValue\<close>
  wrap the type variable of the iteration expression.
\<close>

definition MakeRangeKey :: "typevar \<Rightarrow> typevar" where
  "MakeRangeKey x = RangeKey x"

definition MakeRangeValue :: "typevar \<Rightarrow> typevar" where
  "MakeRangeValue x = RangeValue x"

fun stripPointer :: "dataType \<Rightarrow> dataType" where
  "stripPointer (Pointer d) = d"
| "stripPointer t = t"

text \<open>
  The type switch over the resolved range expression: key and value type, the value
  type of a channel being nil. The two \<^verbatim>\<open>fmt.Errorf\<close> calls for a builtin or identifier
  other than \<open>string\<close> only build a value; nothing is returned there.
\<close>

fun rangeKeyValue :: "dataType \<Rightarrow> error + (dataType option \<times> dataType option)" where
  "rangeKeyValue (Array elmtype) = Inr (Some (Builtin ''int'' False), Some elmtype)"
| "rangeKeyValue (Slice elmtype) = Inr (Some (Builtin ''int'' False), Some elmtype)"
| "rangeKeyValue (Builtin d u) = Inr (Some (Builtin ''int'' False), Some (Builtin ''rune'' False))"
| "rangeKeyValue (Identifier d pkg) = Inr (Some (Builtin ''int'' False), Some (Builtin ''rune'' False))"
| "rangeKeyValue (Map_t keytype valuetype) = Inr (Some keytype, Some valuetype)"
| "rangeKeyValue (Channel dir v) = Inr (v, None)"
| "rangeKeyValue (Ellipsis d) = Inr (Some (Builtin ''int'' False), Some d)"
| "rangeKeyValue t = Inl (Panic ''Unknown type of range expression'')"

text \<open>
  From \<^verbatim>\<open>IsRangeable\<close> to the key and value types: the part of \<^verbatim>\<open>parseRangeStmt\<close>
  between its \<^verbatim>\<open>Push\<close> and \<^verbatim>\<open>if statement.Key != nil\<close>.
\<close>

definition rangeResolve ::
  "config \<Rightarrow> attribute \<Rightarrow> pstate
    \<Rightarrow> (error + (typevar \<times> dataType option \<times> dataType option)) \<times> pstate" where
  "rangeResolve c xExprAttr s =
     (case tv0 xExprAttr of Inl e \<Rightarrow> (Inl e, s) | Inr xtv \<Rightarrow>
     (let s1 = AddContract (IsRangeable xtv) s in
     (case dt0 xExprAttr of Inl e \<Rightarrow> (Inl e, s1) | Inr d \<Rightarrow>
     (case FindFirstNonidDataType c (stripPointer d) s1 of Inl e \<Rightarrow> (Inl e, s1) | Inr rangeExpr \<Rightarrow>
     (case rangeKeyValue rangeExpr of Inl e \<Rightarrow> (Inl e, s1) | Inr (k, v) \<Rightarrow>
        (Inr (xtv, k, v), s1))))))"

text \<open>
  The key of a range statement, when it is not nil. \<open>Inr False\<close>: the error of the
  expression parser was answered with \<^verbatim>\<open>return nil\<close>.
\<close>

definition rangeKey ::
  "config \<Rightarrow> token \<Rightarrow> expr \<Rightarrow> typevar \<Rightarrow> dataType option \<Rightarrow> pstate \<Rightarrow> (error + bool) \<times> pstate" where
  "rangeKey c tok keyExpr xtv k s =
     (if tok = DEFINE then
        (case keyExpr of
           Ident name p \<Rightarrow>
             (if name \<noteq> ''_'' then
                (let sDef = \<lparr>Name = name, Package = PackageName c, Def = k, Posn = SymbolPos c p\<rparr>
                 in (case sAddVariable sDef s of
                       (Inl e, s1) \<Rightarrow> (Inl e, s1)
                     | (Inr u, s1) \<Rightarrow>
                         (Inr True,
                          AddContract
                            (PropagatesTo (MakeRangeKey xtv) (VariableFromSymbolDef sDef) k) s1)))
              else (Inr True, s))
         | _ \<Rightarrow> (Inl (Err ''Expected key as an identifier in the for range statement''), s))
      else
        (case stripParens keyExpr of
           Ident name p \<Rightarrow>
             (if name \<noteq> ''_'' then
                (case ExprParser c (stripParens keyExpr) s of
                   (Inl e, s1) \<Rightarrow> (dropErr e, s1)
                 | (Inr keyAttr, s1) \<Rightarrow>
                     (case tv0 keyAttr of Inl e \<Rightarrow> (Inl e, s1) | Inr y \<Rightarrow>
                     (case dt0 keyAttr of Inl e \<Rightarrow> (Inl e, s1) | Inr d \<Rightarrow>
                        (Inr True,
                         AddContract (IsCompatibleWith (MakeRangeKey xtv) y (Some d) False) s1))))
              else (Inr True, s))
         | _ \<Rightarrow> (Inl (Err ''Expected key as an identifier in the for range statement''), s)))"

text \<open>
  The value of a range statement, when it is not nil. With a token other than \<open>:=\<close> the
  code strips the parentheses into \<^verbatim>\<open>valueExpr\<close> but goes on with
  \<^verbatim>\<open>statement.Value\<close>.
\<close>

definition rangeValue ::
  "config \<Rightarrow> token \<Rightarrow> expr \<Rightarrow> typevar \<Rightarrow> dataType option \<Rightarrow> pstate \<Rightarrow> (error + bool) \<times> pstate" where
  "rangeValue c tok valueExpr xtv v s =
     (if tok = DEFINE then
        (case valueExpr of
           Ident name p \<Rightarrow>
             (if name \<noteq> ''_'' \<and> v \<noteq> None then
                (let sDef = \<lparr>Name = name, Package = PackageName c, Def = v, Posn = SymbolPos c p\<rparr>
                 in (case sAddVariable sDef s of
                       (Inl e, s1) \<Rightarrow> (Inl e, s1)
                     | (Inr u, s1) \<Rightarrow>
                         (Inr True,
                          AddContract
                            (PropagatesTo (MakeRangeValue xtv) (VariableFromSymbolDef sDef) v) s1)))
              else (Inr True, s))
         | _ \<Rightarrow> (Inl (Err ''Expected value as an identifier in the for range statement''), s))
      else
        (case valueExpr of
           Ident name p \<Rightarrow>
             (if name \<noteq> ''_'' \<and> v \<noteq> None then
                (case ExprParser c valueExpr s of
                   (Inl e, s1) \<Rightarrow> (dropErr e, s1)
                 | (Inr valueAttr, s1) \<Rightarrow>
                     (case tv0 valueAttr of Inl e \<Rightarrow> (Inl e, s1) | Inr y \<Rightarrow>
                     (case dt0 valueAttr of Inl e \<Rightarrow> (Inl e, s1) | Inr d \<Rightarrow>
                        (Inr True,
                         AddContract (IsCompatibleWith (MakeRangeValue xtv) y (Some d) False) s1))))
              else (Inr True, s))
         | _ \<Rightarrow> (Inl (Err ''Expected value as an identifier in the for range statement''), s)))"

text \<open>
  \<^verbatim>\<open>parseRangeStmt\<close> from its \<^verbatim>\<open>Push\<close> (already done in \<open>s\<close>) up to the parse of the
  body. \<open>Inr False\<close>: the function returned nil before the body.
\<close>

definition rangeHead ::
  "config \<Rightarrow> attribute \<Rightarrow> expr \<Rightarrow> expr \<Rightarrow> token \<Rightarrow> pstate \<Rightarrow> (error + bool) \<times> pstate" where
  "rangeHead c xExprAttr keyExpr valueExpr tok s =
     (case rangeResolve c xExprAttr s of
        (Inl e, s1) \<Rightarrow> (Inl e, s1)
      | (Inr (xtv, k, v), s1) \<Rightarrow>
          (case (if keyExpr \<noteq> NilExpr then rangeKey c tok keyExpr xtv k s1 else (Inr True, s1)) of
             (Inl e, s2) \<Rightarrow> (Inl e, s2)
           | (Inr False, s2) \<Rightarrow> (Inr False, s2)
           | (Inr True, s2) \<Rightarrow>
               (if valueExpr \<noteq> NilExpr then rangeValue c tok valueExpr xtv v s2
                else (Inr True, s2))))"

section \<open>The statement parser\<close>

text \<open>
  \<^verbatim>\<open>Parse\<close> and the loops over statements and clauses. \<^verbatim>\<open>sp.StmtParser\<close> is the parser
  itself. Every \<^verbatim>\<open>Push\<close> is followed by \<^verbatim>\<open>defer Pop\<close>, so the pop (\<open>sPop\<close>) is applied
  to the outcome of what follows the push. Where the code parses a block
  (\<^verbatim>\<open>parseBlockStmt\<close>, or \<^verbatim>\<open>Parse\<close> of a \<^verbatim>\<open>BlockStmt\<close> it has just built) the model has
  the body of \<^verbatim>\<open>parseBlockStmt\<close>: push, statements in order, pop.
\<close>

text \<open>A call whose returned error the code ignores (\<^verbatim>\<open>sp.StmtParser.Parse(statement.Init)\<close>
  in \<^verbatim>\<open>parseForStmt\<close>).\<close>

fun ignoreErr :: "(error + unit) \<times> pstate \<Rightarrow> (error + unit) \<times> pstate" where
  "ignoreErr (Inl (Err m), s) = (Inr (), s)"
| "ignoreErr rs = rs"

text \<open>The answer \<^verbatim>\<open>return nil\<close> of \<^verbatim>\<open>parseTypeSwitchStmt\<close> to an error of a clause.\<close>

fun clauseErr :: "(error + unit) \<times> pstate \<Rightarrow> (error + bool) \<times> pstate" where
  "clauseErr (Inl (Err m), s) = (Inr False, s)"
| "clauseErr (Inl (Panic m), s) = (Inl (Panic m), s)"
| "clauseErr (Inr u, s) = (Inr True, s)"

fun Parse :: "config \<Rightarrow> stmt \<Rightarrow> pstate \<Rightarrow> (error + unit) \<times> pstate"
  and parseStmts :: "config \<Rightarrow> stmt list \<Rightarrow> pstate \<Rightarrow> (error + unit) \<times> pstate"
  and switchClauses :: "config \<Rightarrow> typevar \<Rightarrow> stmt list \<Rightarrow> pstate \<Rightarrow> (error + unit) \<times> pstate"
  and typeSwitchClauses ::
    "config \<Rightarrow> dataType option \<Rightarrow> typevar \<Rightarrow> stmt list \<Rightarrow> pstate \<Rightarrow> (error + unit) \<times> pstate"
  and selectClauses :: "config \<Rightarrow> stmt list \<Rightarrow> pstate \<Rightarrow> (error + unit) \<times> pstate"
where
  "Parse c (DeclStmt d) s = parseDeclStmt c d s"
| "Parse c (LabeledStmt l st) s = Parse c st s"
| "Parse c (ExprStmt x) s = parseExprStmt c x s"
| "Parse c (SendStmt ch v) s = parseSendStmt c ch v s"
| "Parse c (IncDecStmt x) s = parseIncDecStmt c x s"
| "Parse c (AssignStmt lhs tok rhs) s = parseAssignStmt c lhs tok rhs s"
| "Parse c (GoStmt call) s = parseGoStmt c call s"
| "Parse c (ReturnStmt results) s = parseReturnStmt c results s"
| "Parse c BranchStmt s = parseBranchStmt c s"
| "Parse c (BlockStmt l) s = sPop (parseStmts c l (sPush s))"
| "Parse c (IfStmt init cond body els) s =
     (let r0 = (if init \<noteq> NilStmt then Parse c init (sPush s) else (Inr (), s));
          res =
            (case r0 of
               (Inl e, s0) \<Rightarrow> (Inl e, s0)
             | (Inr u, s0) \<Rightarrow>
                 (case ExprParser c cond s0 of
                    (Inl e, s1) \<Rightarrow> (Inl e, s1)
                  | (Inr a, s1) \<Rightarrow>
                      (case sPop (parseStmts c body (sPush s1)) of
                         (Inl e, s2) \<Rightarrow> (Inl e, s2)
                       | (Inr u, s2) \<Rightarrow>
                           (if els \<noteq> NilStmt then Parse c els s2 else (Inr (), s2)))))
      in if init \<noteq> NilStmt then sPop res else res)"
| "Parse c (SwitchStmt init tag body) s =
     (let r0 = (if init \<noteq> NilStmt then Parse c init (sPush s) else (Inr (), s));
          res =
            (case r0 of
               (Inl e, s0) \<Rightarrow> (Inl e, s0)
             | (Inr u, s0) \<Rightarrow>
                 (case switchTag c tag s0 of
                    (Inl e, s1) \<Rightarrow> (Inl e, s1)
                  | (Inr stmtTagTypeVar, s1) \<Rightarrow> switchClauses c stmtTagTypeVar body s1))
      in if init \<noteq> NilStmt then sPop res else res)"
| "Parse c (TypeSwitchStmt init assign body) s =
     (let r0 = (if init \<noteq> NilStmt then Parse c init (sPush s) else (Inr (), s));
          res =
            (case r0 of
               (Inl e, s0) \<Rightarrow> (Inl e, s0)
             | (Inr u, s0) \<Rightarrow>
                 sPop
                  (case assign of
                     AssignStmt lhs tok rhs \<Rightarrow>
                       sPop
                        (case typeSwitchAssign c lhs rhs (sPush (sPush s0)) of
                           (Inl e, s1) \<Rightarrow> (Inl e, s1)
                         | (Inr None, s1) \<Rightarrow> (Inr (), s1)
                         | (Inr (Some (rhsIdentifier, typeTypeVar)), s1) \<Rightarrow>
                             typeSwitchClauses c rhsIdentifier typeTypeVar body s1)
                   | ExprStmt x \<Rightarrow>
                       (case typeSwitchAssert c x (sPush s0) of
                          (Inl e, s1) \<Rightarrow> (Inl e, s1)
                        | (Inr None, s1) \<Rightarrow> (Inr (), s1)
                        | (Inr (Some typeTypeVar), s1) \<Rightarrow>
                            typeSwitchClauses c None typeTypeVar body s1)
                   | _ \<Rightarrow> (Inl (Err ''Unsupported statement in type switch''), sPush s0)))
      in if init \<noteq> NilStmt then sPop res else res)"
| "Parse c (SelectStmt body) s = selectClauses c body s"
| "Parse c (ForStmt init cond post body) s =
     sPop
      (case (if init \<noteq> NilStmt then ignoreErr (Parse c init (sPush s)) else (Inr (), sPush s)) of
         (Inl e, s0) \<Rightarrow> (Inl e, s0)
       | (Inr u, s0) \<Rightarrow>
           (case (if cond \<noteq> NilExpr then ExprParser c cond s0
                  else (Inr \<lparr>DataTypeList = [], TypeVarList = []\<rparr>, s0)) of
              (Inl e, s1) \<Rightarrow> (Inl e, s1)
            | (Inr a, s1) \<Rightarrow>
                (case (if post \<noteq> NilStmt then ignoreErr (Parse c post s1) else (Inr (), s1)) of
                   (Inl e, s2) \<Rightarrow> (Inl e, s2)
                 | (Inr u, s2) \<Rightarrow> sPop (parseStmts c body (sPush s2)))))"
| "Parse c (RangeStmt keyExpr valueExpr tok x body) s =
     (case ExprParser c x s of
        (Inl e, s0) \<Rightarrow> (Inl e, s0)
      | (Inr xExprAttr, s0) \<Rightarrow>
          sPop
           (case rangeHead c xExprAttr keyExpr valueExpr tok (sPush s0) of
              (Inl e, s1) \<Rightarrow> (Inl e, s1)
            | (Inr False, s1) \<Rightarrow> (Inr (), s1)
            | (Inr True, s1) \<Rightarrow> sPop (parseStmts c body (sPush s1))))"
| "Parse c (DeferStmt call) s = parseDeferStmt c call s"
| "Parse c EmptyStmt s = (Inr (), s)"
| "Parse c NilStmt s = (Inl (Panic ''Unknown statement''), s)"
| "Parse c (CaseClause l b p) s = (Inl (Panic ''Unknown statement''), s)"
| "Parse c (CommClause comm b) s = (Inl (Panic ''Unknown statement''), s)"
| "Parse c BadStmt s = (Inl (Panic ''Unknown statement''), s)"
| "parseStmts c [] s = (Inr (), s)"
| "parseStmts c (st # rest) s =
     (case Parse c st s of
        (Inl e, s1) \<Rightarrow> (Inl e, s1)
      | (Inr u, s1) \<Rightarrow> parseStmts c rest s1)"
| "switchClauses c stmtTagTypeVar [] s = (Inr (), s)"
| "switchClauses c stmtTagTypeVar (st # rest) s =
     (case st of
        CaseClause l b p \<Rightarrow>
          (case switchCaseExprs c stmtTagTypeVar l s of
             (Inl e, s1) \<Rightarrow> (Inl e, s1)
           | (Inr False, s1) \<Rightarrow> (Inr (), s1)
           | (Inr True, s1) \<Rightarrow>
               (case (if b \<noteq> [] then sPop (parseStmts c b (sPush s1)) else (Inr (), s1)) of
                  (Inl e, s2) \<Rightarrow> (Inl e, s2)
                | (Inr u, s2) \<Rightarrow> switchClauses c stmtTagTypeVar rest s2))
      | _ \<Rightarrow> (Inl (Err ''Expected *ast.CaseClause in switch body''), s))"
| "typeSwitchClauses c rhsIdentifier typeTypeVar [] s = (Inr (), s)"
| "typeSwitchClauses c rhsIdentifier typeTypeVar (st # rest) s =
     (case st of
        CaseClause l b p \<Rightarrow>
          (case clauseErr
                  (sPop
                    (case typeSwitchClauseHead c rhsIdentifier typeTypeVar l p (sPush s) of
                       (Inl e, s1) \<Rightarrow> (Inl e, s1)
                     | (Inr u, s1) \<Rightarrow>
                         (if b \<noteq> [] then sPop (parseStmts c b (sPush s1)) else (Inr (), s1)))) of
             (Inl e, s2) \<Rightarrow> (Inl e, s2)
           | (Inr False, s2) \<Rightarrow> (Inr (), s2)
           | (Inr True, s2) \<Rightarrow> typeSwitchClauses c rhsIdentifier typeTypeVar rest s2)
      | _ \<Rightarrow> (Inl (Err ''Expected *ast.CaseClause in switch body''), s))"
| "selectClauses c [] s = (Inr (), s)"
| "selectClauses c (st # rest) s =
     (case sPop
             (case st of
                CommClause comm b \<Rightarrow>
                  (case (if comm \<noteq> NilStmt then selectComm c comm (sPush s)
                         else (Inr (), sPush s)) of
                     (Inl e, s1) \<Rightarrow> (Inl e, s1)
                   | (Inr u, s1) \<Rightarrow>
                       (if b \<noteq> [] then sPop (parseStmts c b (sPush s1)) else (Inr (), s1)))
              | _ \<Rightarrow> (Inl (Err ''Select must be a list of commClause statements''), sPush s)) of
        (Inl e, s2) \<Rightarrow> (Inl e, s2)
      | (Inr u, s2) \<Rightarrow> selectClauses c rest s2)"

section \<open>Function bodies\<close>

text \<open>
  \<^verbatim>\<open>parseReceiver\<close>: the receiver type is \<open>T\<close> or \<open>*T\<close> for an identifier \<open>T\<close> found in
  the symbol table. Unless \<open>skip_allocated\<close>, the use of \<open>T\<close> is recorded in the allocation
  table.
\<close>

definition receiverIdent ::
  "config \<Rightarrow> string \<Rightarrow> nat \<Rightarrow> bool \<Rightarrow> pstate \<Rightarrow> (error + dataType) \<times> pstate" where
  "receiverIdent c name p skip_allocated s =
     (case Lookup (Tables s) name of
        Inl e \<Rightarrow> (Inl e, s)
      | Inr (def, st) \<Rightarrow>
          (Inr (Identifier name (PackageName c)),
           if \<not> skip_allocated
           then s\<lparr>Allocated := Allocated s @ [(Package def, name, SymbolPos c p)]\<rparr>
           else s))"

definition parseReceiver ::
  "config \<Rightarrow> expr \<Rightarrow> bool \<Rightarrow> pstate \<Rightarrow> (error + dataType) \<times> pstate" where
  "parseReceiver c receiver skip_allocated s =
     (case receiver of
        Ident name p \<Rightarrow> receiverIdent c name p skip_allocated s
      | StarExpr x \<Rightarrow>
          (case x of
             Ident name p \<Rightarrow>
               (case receiverIdent c name p skip_allocated s of
                  (Inl e, s1) \<Rightarrow> (Inl e, s1)
                | (Inr d, s1) \<Rightarrow> (Inr (Pointer d), s1))
           | _ \<Rightarrow> (Inl (Err ''Method receiver is not a pointer to an identifier''), s))
      | _ \<Rightarrow> (Inl (Err ''Method receiver is not a pointer to an identifier not an identifier''), s))"

text \<open>The names of one parameter or result field: a contract each, the symbols collected.\<close>

fun headNames ::
  "config \<Rightarrow> dataType \<Rightarrow> (string \<times> nat) list \<Rightarrow> SymbolDef list \<Rightarrow> pstate
    \<Rightarrow> SymbolDef list \<times> pstate" where
  "headNames c def [] sDefs s = (sDefs, s)"
| "headNames c def (name # rest) sDefs s =
     (let sDef = \<lparr>Name = fst name, Package = [], Def = Some def, Posn = SymbolPos c (snd name)\<rparr>
      in headNames c def rest (sDefs @ [sDef])
           (AddContract
              (PropagatesTo (MakeConstant (PackageName c) def) (VariableFromSymbolDef sDef) (Def sDef))
              s))"

fun headFields ::
  "config \<Rightarrow> string \<Rightarrow> Field list \<Rightarrow> SymbolDef list \<Rightarrow> pstate
    \<Rightarrow> (error + SymbolDef list) \<times> pstate" where
  "headFields c pre [] sDefs s = (Inr sDefs, s)"
| "headFields c pre (field # rest) sDefs s =
     (case TypeParser c (Type field) s of
        (Inl e, s1) \<Rightarrow> (Inl (wrapErr pre e), s1)
      | (Inr def, s1) \<Rightarrow>
          (case headNames c def (Names field) sDefs s1 of
             (sDefs', s2) \<Rightarrow> headFields c pre rest sDefs' s2))"

text \<open>The last loop of the header binder: the results of \<^verbatim>\<open>AddVariable\<close> are not read.\<close>

fun headAddVariables :: "SymbolDef list \<Rightarrow> pstate \<Rightarrow> pstate" where
  "headAddVariables [] s = s"
| "headAddVariables (d # ds) s = headAddVariables ds (snd (sAddVariable d s))"

text \<open>
  The receiver part of \<^verbatim>\<open>parseFuncHeadVariables\<close>. The first error message reads
  \<^verbatim>\<open>funcDecl.Name.Name\<close>: for a declaration without a name that is a nil dereference.
\<close>

definition headReceiver :: "config \<Rightarrow> FuncDecl \<Rightarrow> pstate \<Rightarrow> (error + unit) \<times> pstate" where
  "headReceiver c funcDecl s =
     (case Recv funcDecl of
        None \<Rightarrow> (Inr (), s)
      | Some l \<Rightarrow>
          (if length l \<noteq> 1
           then (case FuncName funcDecl of
                   None \<Rightarrow> (Inl (Panic ''invalid memory address or nil pointer dereference''), s)
                 | Some name \<Rightarrow>
                     (Inl (Err (''Method '' @ CHR 0x22 # name @ CHR 0x22 # '' has no receiver'')), s))
           else if length (Names (l ! 0)) > 2
           then (Inl (Err ''Receiver is not a single parameter''), s)
           else
            (case parseReceiver c (Type (l ! 0)) True s of
               (Inl e, s1) \<Rightarrow> (Inl (wrapErr ''sp.parseReceiver: '' e), s1)
             | (Inr def, s1) \<Rightarrow>
                 (case Names (l ! 0) of
                    [] \<Rightarrow> (Inr (), s1)
                  | name # names \<Rightarrow>
                      (let sDef = \<lparr>Name = fst name, Package = [], Def = Some def,
                                    Posn = SymbolPos c (snd name)\<rparr>
                       in (Inr (),
                           snd (sAddVariable sDef
                                 (AddContract
                                    (PropagatesTo (MakeConstant (PackageName c) def)
                                       (VariableFromSymbolDef sDef) (Def sDef))
                                    s1))))))))"

definition parseFuncHeadVariables :: "config \<Rightarrow> FuncDecl \<Rightarrow> pstate \<Rightarrow> (error + unit) \<times> pstate" where
  "parseFuncHeadVariables c funcDecl s =
     (case headReceiver c funcDecl s of
        (Inl e, s1) \<Rightarrow> (Inl e, s1)
      | (Inr u, s1) \<Rightarrow>
          (case (case Params funcDecl of
                   None \<Rightarrow> (Inr [], s1)
                 | Some l \<Rightarrow> headFields c ''sp.TypeParser.Parse Params: '' l [] s1) of
             (Inl e, s2) \<Rightarrow> (Inl e, s2)
           | (Inr sDefs, s2) \<Rightarrow>
               (case (case Results funcDecl of
                        None \<Rightarrow> (Inr sDefs, s2)
                      | Some l \<Rightarrow> headFields c ''sp.TypeParser.Parse Results: '' l sDefs s2) of
                  (Inl e, s3) \<Rightarrow> (Inl e, s3)
                | (Inr sDefs', s3) \<Rightarrow> (Inr (), headAddVariables sDefs' s3))))"

text \<open>
  \<^verbatim>\<open>ParseFuncBody\<close>. After a returned error of the header binder the header scope is
  popped by a plain call; the two pops of the deferred function run on every exit after
  the second push.
\<close>

definition ParseFuncBody :: "config \<Rightarrow> FuncDecl \<Rightarrow> pstate \<Rightarrow> (error + unit) \<times> pstate" where
  "ParseFuncBody c funcDecl s =
     (case parseFuncHeadVariables c funcDecl (sPush s) of
        (Inl (Err m), s1) \<Rightarrow> sPop (Inl (Err (''sp.ParseFuncBody: '' @ m)), s1)
      | (Inl (Panic m), s1) \<Rightarrow> (Inl (Panic m), s1)
      | (Inr u, s1) \<Rightarrow>
          sPop (sPop
            (case Body funcDecl of
               None \<Rightarrow> (Inr (), sPush s1)
             | Some l \<Rightarrow> parseStmts c l (sPush s1))))"

section \<open>Collaborators and states for concrete runs\<close>

text \<open>
  A small expression parser and type parser, enough to run the statement parser on
  concrete statements: identifiers have type \<open>int\<close> (\<open>iota\<close>, \<open>ch\<close>, \<open>str\<close> and \<open>ps\<close> apart), a
  call returns two values, a literal is an untyped \<open>int\<close>, and every other expression is
  an error.
\<close>

fun exAttr :: "expr \<Rightarrow> error + attribute" where
  "exAttr (Ident name p) =
     (if name = ''iota''
      then Inr \<lparr>DataTypeList = [Builtin ''iota'' False],
                TypeVarList = [Constant ''builtin'' (Builtin ''iota'' False)]\<rparr>
      else if name = ''ch''
      then Inr \<lparr>DataTypeList = [Channel ''both'' (Some (Builtin ''string'' False))],
                TypeVarList = [Variable [] ''ch'' ''f.go:1'']\<rparr>
      else if name = ''str''
      then Inr \<lparr>DataTypeList = [Builtin ''string'' False],
                TypeVarList = [Variable [] ''str'' ''f.go:2'']\<rparr>
      else if name = ''ps''
      then Inr \<lparr>DataTypeList = [Pointer (Identifier ''MyStr'' ''p'')],
                TypeVarList = [Variable [] ''ps'' ''f.go:6'']\<rparr>
      else Inr \<lparr>DataTypeList = [Builtin ''int'' False],
                TypeVarList = [Variable [] name ''f.go:3'']\<rparr>)"
| "exAttr (CallExpr f args) =
     Inr \<lparr>DataTypeList = [Builtin ''int'' False, Builtin ''error'' False],
          TypeVarList = [ReturnType (VirtualVar 0) 0, ReturnType (VirtualVar 0) 1]\<rparr>"
| "exAttr (OtherExpr lit) =
     Inr \<lparr>DataTypeList = [Builtin ''int'' True],
          TypeVarList = [Constant ''builtin'' (Builtin ''int'' True)]\<rparr>"
| "exAttr e = Inl (Err ''expression not supported'')"

fun exType :: "expr \<Rightarrow> error + dataType" where
  "exType (Ident name p) = Inr (Identifier name ''p'')"
| "exType e = Inl (Err ''type not supported'')"

definition exConfig :: config where
  "exConfig =
     \<lparr>PackageName = ''p'', FileName = ''f.go'',
      ExprParser = (\<lambda>e s. (exAttr e, s)),
      TypeParser = (\<lambda>e s. (exType e, s)),
      FindFirstNonidDataType = (\<lambda>d s. Inr d)\<rparr>"

text \<open>A stack of the file level and one scope below it, both empty.\<close>

definition exState :: pstate where
  "exState =
     \<lparr>Tables = [NewTable, NewTable], Contracts = [], VirtualVars = 0, lastConstType = None,
      Allocated = []\<rparr>"

text \<open>The same with a variable \<open>x\<close> already in the innermost scope.\<close>

definition exSymbolX :: SymbolDef where
  "exSymbolX = \<lparr>Name = ''x'', Package = ''p'', Def = Some (Builtin ''string'' False), Posn = ''f.go:4''\<rparr>"

definition exStateX :: pstate where
  "exStateX =
     \<lparr>Tables = [NewTable, NewTable\<lparr>Variables := [(''x'', exSymbolX)]\<rparr>], Contracts = [],
      VirtualVars = 0, lastConstType = None, Allocated = []\<rparr>"

text \<open>
  Modelled from the spec: \<^verbatim>\<open>FindFirstNonidDataType\<close> of the symbols accessor (not among
  the sources) follows identifier chains to the first non-identifier. Here an identifier
  is resolved by the data type of its name in the stack, for at most \<open>fuel\<close> steps; a
  longer chain is an error.
\<close>

fun exFindFirstNonid :: "nat \<Rightarrow> dataType \<Rightarrow> pstate \<Rightarrow> error + dataType" where
  "exFindFirstNonid fuel (Identifier name pkg) s =
     (case fuel of
        0 \<Rightarrow> Inl (Err ''identifier chain too long'')
      | Suc n \<Rightarrow>
          (case Lookup (Tables s) name of
             Inl e \<Rightarrow> Inl e
           | Inr (def, st) \<Rightarrow>
               (case Def def of
                  None \<Rightarrow> Inl (Err (''Symbol '' @ name @ '' has no definition''))
                | Some d \<Rightarrow> exFindFirstNonid n d s)))"
| "exFindFirstNonid fuel d s = Inr d"

definition exConfigT :: config where
  "exConfigT = exConfig\<lparr>FindFirstNonidDataType := exFindFirstNonid 8\<rparr>"

text \<open>
  A stack whose file level holds \<open>type MyStr Str\<close> and \<open>type Str string\<close>, with one empty
  scope below it.
\<close>

definition exStateT :: pstate where
  "exStateT =
     \<lparr>Tables =
        [NewTable\<lparr>DataTypes :=
           [(''MyStr'', \<lparr>Name = ''MyStr'', Package = ''p'', Def = Some (Identifier ''Str'' ''p''),
                        Posn = ''f.go:1''\<rparr>),
            (''Str'', \<lparr>Name = ''Str'', Package = ''p'', Def = Some (Builtin ''string'' False),
                      Posn = ''f.go:2''\<rparr>)]\<rparr>,
         NewTable],
      Contracts = [], VirtualVars = 0, lastConstType = None, Allocated = []\<rparr>"

text \<open>A method \<open>func (r T) m()\<close> without a body, for a type \<open>T\<close> that no table holds.\<close>

definition exMethod :: FuncDecl where
  "exMethod =
     \<lparr>FuncName = Some ''m'', Recv = Some [\<lparr>Names = [(''r'', 2)], Type = Ident ''T'' 4\<rparr>],
      Params = None, Results = None, Body = None\<rparr>"

section \<open>Scope discipline: definitions\<close>

text \<open>
  The collaborators leave the stack of symbol tables as they found it (an expression
  parser that opens a scope for a function literal closes it again).
\<close>

definition keepsTables :: "config \<Rightarrow> bool" where
  "keepsTables c \<longleftrightarrow>
     (\<forall>e s. Tables (snd (ExprParser c e s)) = Tables s) \<and>
     (\<forall>e s. Tables (snd (TypeParser c e s)) = Tables s)"

text \<open>
  The frame of a state: the size of its stack and the tables below the innermost scope.
  A statement changes neither; it may add symbols to the innermost scope.
\<close>

definition frame :: "pstate \<Rightarrow> nat \<times> Table list" where
  "frame s = (length (Tables s), butlast (Tables s))"

text \<open>The frame is kept by the parse of every statement and statement list smaller than \<open>n\<close>.\<close>

definition frameOK :: "config \<Rightarrow> nat \<Rightarrow> bool" where
  "frameOK c n \<longleftrightarrow>
     (\<forall>st s. size st < n \<longrightarrow> frame (snd (Parse c st s)) = frame s) \<and>
     (\<forall>sts s. size_list size sts < n \<longrightarrow> frame (snd (parseStmts c sts s)) = frame s) \<and>
     (\<forall>tv sts s. size_list size sts < n \<longrightarrow> frame (snd (switchClauses c tv sts s)) = frame s) \<and>
     (\<forall>rid tv sts s. size_list size sts < n \<longrightarrow>
         frame (snd (typeSwitchClauses c rid tv sts s)) = frame s) \<and>
     (\<forall>sts s. size_list size sts < n \<longrightarrow> frame (snd (selectClauses c sts s)) = frame s)"

text \<open>
  A function \<open>func f(n int) { a := 1; if a { a++ }; a.f = n }\<close> for concrete runs.
\<close>

definition exFunc :: FuncDecl where
  "exFunc =
     \<lparr>FuncName = Some ''f'', Recv = None,
      Params = Some [\<lparr>Names = [(''n'', 3)], Type = Ident ''int'' 4\<rparr>],
      Results = None,
      Body = Some [AssignStmt [Ident ''a'' 10] DEFINE [OtherExpr ''1''],
                   IfStmt NilStmt (Ident ''a'' 12) [IncDecStmt (Ident ''a'' 14)] NilStmt,
                   AssignStmt [SelectorExpr (Ident ''a'' 16) ''f''] ASSIGN [Ident ''n'' 18]]\<rparr>"

section \<open>Contract table discipline: definitions\<close>

text \<open>
  The contract table is an append-only log. \<open>begins P s\<close>: the contract table of the state
  \<open>s\<close> begins with the contracts \<open>P\<close>.
\<close>

definition begins :: "contract list \<Rightarrow> pstate \<Rightarrow> bool" where
  "begins P s \<longleftrightarrow> take (length P) (Contracts s) = P"

text \<open>The collaborators only append to the contract table.\<close>

definition keepsContracts :: "config \<Rightarrow> bool" where
  "keepsContracts c \<longleftrightarrow>
     (\<forall>e s. begins (Contracts s) (snd (ExprParser c e s))) \<and>
     (\<forall>e s. begins (Contracts s) (snd (TypeParser c e s)))"

section \<open>Theorems\<close>

lemmas run_simps =
  exConfig_def exState_def exStateX_def exSymbolX_def NewTable_def
  ParseValueSpec_def valueSpecElementwise_def idx_def tv0_def dt0_def
  AddContract_def VariableFromSymbolDef_def MakeConstant_def SymbolPos_def Let_def showPos.simps
  CurrentLevel_def parseAssignStmt_def assignRhsShape_def assignLhs_def assignToExpr_def
  parseSingleRhs_def switchTag_def sAddVariable_def AddVariable_def Table_AddVariable_def
  sPush_def sPop_def Push_def Pop_def

subsection \<open>Errors of the collaborators and of the stack\<close>

text \<open>
  C1: every error of a sub-parser or of the stack is propagated to the caller of
  \<^verbatim>\<open>Parse\<close>. The code answers three such errors with \<^verbatim>\<open>return nil\<close>. With the
  expression parser failing on the selector \<open>x.f\<close>: the assignment \<open>x.f = 1\<close> and the
  switch \<open>switch { case x.f: }\<close> are parsed with success; and with \<open>x\<close> already in the
  innermost scope, where \<^verbatim>\<open>AddVariable\<close> returns an error, the declaration \<open>var x = 1\<close>
  is parsed with success.
\<close>

theorem C1_errors_dropped:
  "fst (ExprParser exConfig (SelectorExpr (Ident ''x'' 7) ''f'') exState)
     = Inl (Err ''expression not supported'')
   \<and> fst (Parse exConfig (AssignStmt [SelectorExpr (Ident ''x'' 7) ''f''] ASSIGN [OtherExpr ''1''])
           exState) = Inr ()
   \<and> fst (Parse exConfig
           (SwitchStmt NilStmt NilExpr [CaseClause [SelectorExpr (Ident ''x'' 7) ''f''] [] 0])
           exState) = Inr ()
   \<and> fst (sAddVariable
           \<lparr>Name = ''x'', Package = [], Def = Some (Builtin ''int'' True), Posn = ''f.go:9''\<rparr>
           exStateX) = Inl (Err ''Symbol x already exists'')
   \<and> fst (Parse exConfig (DeclStmt (GenDecl [ValueSpec [(''x'', 9)] NilExpr [OtherExpr ''1'']]))
           exStateX) = Inr ()"
  by (simp add: run_simps)

subsection \<open>The package of a symbol below file level\<close>

text \<open>
  C5: every symbol that \<^verbatim>\<open>ParseValueSpec\<close> produces while the current level of the stack
  is greater than 0 has an empty package. The code clears the package only in the branch
  for a single value that is not \<open>iota\<close> (the last conjunct). At level 1, with package
  \<open>p\<close>: the symbols of \<open>var a, b = 1, 2\<close> and the symbol of a name without a value after
  an \<open>iota\<close> line keep the package \<open>p\<close>.
\<close>

theorem C5_package_not_cleared:
  "CurrentLevel (Tables exState) > 0
   \<and> fst (ParseValueSpec exConfig [(''a'', 10), (''b'', 13)] NilExpr
           [OtherExpr ''1'', OtherExpr ''2''] exState)
     = Inr [\<lparr>Name = ''a'', Package = ''p'', Def = Some (Builtin ''int'' True), Posn = ''f.go:10''\<rparr>,
            \<lparr>Name = ''b'', Package = ''p'', Def = Some (Builtin ''int'' True), Posn = ''f.go:13''\<rparr>]
   \<and> fst (ParseValueSpec exConfig [(''B'', 20)] NilExpr []
           (exState\<lparr>lastConstType := Some (Builtin ''int'' True)\<rparr>))
     = Inr [\<lparr>Name = ''B'', Package = ''p'', Def = Some (Builtin ''int'' True), Posn = ''f.go:20''\<rparr>]
   \<and> fst (ParseValueSpec exConfig [(''v'', 30)] NilExpr [OtherExpr ''1''] exState)
     = Inr [\<lparr>Name = ''v'', Package = [], Def = Some (Builtin ''int'' True), Posn = ''f.go:30''\<rparr>]"
  by (simp add: run_simps)

subsection \<open>Scope discipline\<close>

text \<open>
  Every statement keeps the frame of the state, provided the collaborators keep the stack:
  each \<^verbatim>\<open>Push\<close> of the parser is undone by its deferred \<^verbatim>\<open>Pop\<close>, and symbols are
  added to the innermost scope only. The lemmas follow the functions of the parser.
\<close>

lemma sPop_sPush [simp]: "sPop (r, sPush s) = (r, s)"
  by (simp add: sPop_def sPush_def Pop_def Push_def)

lemma sPop_pushed: "Tables s' = Tables s @ [t] \<Longrightarrow> sPop (r, s') = (r, s'\<lparr>Tables := Tables s\<rparr>)"
  by (simp add: sPop_def Pop_def)


lemma frame_AddContract [simp]: "frame (AddContract k s) = frame s"
  by (simp add: frame_def AddContract_def)

lemma frame_lastConstType [simp]: "frame (s\<lparr>lastConstType := x\<rparr>) = frame s"
  by (simp add: frame_def)

lemma frame_Allocated [simp]: "frame (s\<lparr>Allocated := x\<rparr>) = frame s"
  by (simp add: frame_def)

lemma frame_NewVirtualVar: "NewVirtualVar s = (y, s1) \<Longrightarrow> frame s1 = frame s"
  by (auto simp: frame_def NewVirtualVar_def)

lemma butlast_update_last [simp]: "butlast (ts[length ts - Suc 0 := t]) = butlast ts"
  by (induction ts rule: rev_induct) auto

lemma frame_sAddVariable [simp]: "frame (snd (sAddVariable d s)) = frame s"
  by (auto simp: frame_def sAddVariable_def AddVariable_def split: sum.splits)

lemma frame_sAddVariable': "sAddVariable d s = (r, s1) \<Longrightarrow> frame s1 = frame s"
  using frame_sAddVariable [of d s] by simp

lemma frame_sAddDataType: "sAddDataType d s = (r, s1) \<Longrightarrow> frame s1 = frame s"
  by (auto simp: frame_def sAddDataType_def AddDataType_def split: sum.splits if_splits)

lemma frame_ExprParser: "ExprParser c e s = (r, s1) \<Longrightarrow> keepsTables c \<Longrightarrow> frame s1 = frame s"
  by (auto simp: keepsTables_def frame_def)
   (metis snd_conv)+

lemma frame_TypeParser: "TypeParser c e s = (r, s1) \<Longrightarrow> keepsTables c \<Longrightarrow> frame s1 = frame s"
  by (auto simp: keepsTables_def frame_def)
   (metis snd_conv)+

lemma sPop_frame:
  assumes "frame s1 = frame (sPush s)"
  shows "sPop (r, s1) = (r, s1\<lparr>Tables := Tables s\<rparr>)"
proof -
  from assms have l: "length (Tables s1) = Suc (length (Tables s))" and b: "butlast (Tables s1) = Tables s"
    by (simp_all add: frame_def sPush_def Push_def)
  have "take (length (Tables s1) - 1) (Tables s1) = butlast (Tables s1)"
    by (simp add: butlast_conv_take)
  with l b show ?thesis by (simp add: sPop_def Pop_def)
qed

lemma frame_sPop:
  assumes "frame s1 = frame (sPush s)"
  shows "frame (snd (sPop (r, s1))) = frame s" and "fst (sPop (r, s1)) = r"
  using sPop_frame [OF assms, of r] by (simp_all add: frame_def)

lemma frame_sPop':
  assumes "frame (snd rs) = frame (sPush s)"
  shows "frame (snd (sPop rs)) = frame s"
  using frame_sPop(1) [of "snd rs" s "fst rs"] assms by simp

(* simple statements *)
lemma frame_parseExprStmt: "keepsTables c \<Longrightarrow> frame (snd (parseExprStmt c x s)) = frame s"
  by (auto simp: parseExprStmt_def split: prod.splits sum.splits dest!: frame_ExprParser)

lemma frame_parseSendStmt: "keepsTables c \<Longrightarrow> frame (snd (parseSendStmt c ch v s)) = frame s"
  by (auto simp: parseSendStmt_def split: prod.splits sum.splits dest!: frame_ExprParser)

lemma frame_parseIncDecStmt: "keepsTables c \<Longrightarrow> frame (snd (parseIncDecStmt c x s)) = frame s"
  by (auto simp: parseIncDecStmt_def split: prod.splits sum.splits dest!: frame_ExprParser)

lemma frame_parseGoStmt: "keepsTables c \<Longrightarrow> frame (snd (parseGoStmt c x s)) = frame s"
  by (auto simp: parseGoStmt_def split: prod.splits sum.splits dest!: frame_ExprParser)

lemma frame_parseDeferStmt: "keepsTables c \<Longrightarrow> frame (snd (parseDeferStmt c x s)) = frame s"
  by (auto simp: parseDeferStmt_def split: prod.splits sum.splits dest!: frame_ExprParser)

lemma frame_parseReturnStmt: "keepsTables c \<Longrightarrow> frame (snd (parseReturnStmt c rs s)) = frame s"
  by (induction rs arbitrary: s) (auto split: prod.splits sum.splits dest!: frame_ExprParser)


lemmas frame_dests = frame_ExprParser frame_TypeParser frame_sAddVariable' frame_sAddDataType frame_NewVirtualVar

lemma frame_valueSpecTuple:
  "keepsTables c \<Longrightarrow> frame (snd (valueSpecTuple c typeDef a names i acc s)) = frame s"
  by (induction names arbitrary: i acc s typeDef)
     (auto simp: Let_def split: option.splits sum.splits)

lemma frame_case_Builtin [simp]:
  "frame (case d of Builtin n u \<Rightarrow> s\<lparr>lastConstType := x\<rparr> | _ \<Rightarrow> s) = frame s"
  by (cases d) simp_all

lemma frame_valueSpecValues:
  "keepsTables c \<Longrightarrow> frame (snd (valueSpecValues c names typeDef vals i acc s)) = frame s"
proof (induction vals arbitrary: i acc s typeDef)
  case Nil
  then show ?case by simp
next
  case (Cons v vs)
  show ?case
    using Cons.prems
    by (auto simp: Let_def Cons.IH [OF Cons.prems] split: prod.splits sum.splits option.splits
          dest!: frame_dests)
qed

lemma frame_valueSpecTrailing:
  "frame (snd (valueSpecTrailing c typeDef names i acc s)) = frame s"
  by (induction names arbitrary: typeDef i acc s) (auto split: option.splits)

lemma frame_valueSpecElementwise:
  "keepsTables c \<Longrightarrow> frame (snd (valueSpecElementwise c names typeDef vals s)) = frame s"
  using frame_valueSpecValues [of c names typeDef vals 0 "[]" s]
  by (auto simp: valueSpecElementwise_def frame_valueSpecTrailing split: prod.splits sum.splits)

lemma frame_ParseValueSpec:
  "keepsTables c \<Longrightarrow> frame (snd (ParseValueSpec c names typ vals s)) = frame s"
  by (auto simp: ParseValueSpec_def frame_valueSpecElementwise frame_valueSpecTuple
        split: prod.splits sum.splits if_splits dest!: frame_dests)

lemma frame_declAddVariables: "frame (snd (declAddVariables ds s)) = frame s"
  by (induction ds arbitrary: s) (auto split: prod.splits sum.splits dest!: frame_dests)

lemma frame_declTypeSpec: "keepsTables c \<Longrightarrow> frame (snd (declTypeSpec c name typ s)) = frame s"
  by (auto simp: declTypeSpec_def split: prod.splits sum.splits dest!: frame_dests)
     (metis frame_sAddDataType prod.collapse)

lemma frame_declSpecs: "keepsTables c \<Longrightarrow> frame (snd (declSpecs c specs s)) = frame s"
proof (induction specs arbitrary: s)
  case Nil
  then show ?case by simp
next
  case (Cons sp rest)
  show ?case
  proof (cases sp)
    case (ValueSpec names ty vals)
    show ?thesis
      using frame_ParseValueSpec [OF Cons.prems, of names ty vals s]
        frame_declAddVariables
      by (auto simp: ValueSpec Cons.IH [OF Cons.prems] split: prod.splits sum.splits bool.splits)
         (metis snd_conv)+
  next
    case (TypeSpec name ty)
    show ?thesis
      using frame_declTypeSpec [OF Cons.prems, of name ty s]
      by (auto simp: TypeSpec Cons.IH [OF Cons.prems] split: prod.splits sum.splits)
  next
    case ImportSpec
    then show ?thesis by simp
  qed
qed

lemma frame_parseDeclStmt: "keepsTables c \<Longrightarrow> frame (snd (parseDeclStmt c d s)) = frame s"
  by (cases d) (auto simp: frame_declSpecs)


lemma frame_parseSingleRhs:
  "keepsTables c \<Longrightarrow> frame (snd (parseSingleRhs c rhs i s)) = frame s"
  by (auto simp: parseSingleRhs_def split: prod.splits sum.splits dest!: frame_dests)

lemma frame_runRhsIndexer:
  "keepsTables c \<Longrightarrow> frame (snd (runRhsIndexer c rhs ix i s)) = frame s"
  by (cases ix)
     (auto simp: frame_parseSingleRhs split: prod.splits sum.splits dest!: frame_dests)

lemma frame_assignRhsShape:
  "keepsTables c \<Longrightarrow> frame (snd (assignRhsShape c lhs rhs s)) = frame s"
  by (auto simp: assignRhsShape_def split: prod.splits sum.splits expr.splits dest!: frame_dests)

lemma frame_assignToExpr:
  "keepsTables c \<Longrightarrow> frame (snd (assignToExpr c l tv s)) = frame s"
  by (auto simp: assignToExpr_def split: prod.splits sum.splits dest!: frame_dests)

lemma frame_assignLhs:
  "keepsTables c \<Longrightarrow> frame (snd (assignLhs c tok ix rhs l i s)) = frame s"
  using frame_runRhsIndexer [of c rhs ix i s]
  by (auto simp: assignLhs_def frame_assignToExpr Let_def
        split: prod.splits sum.splits expr.splits)

lemma frame_assignLoop:
  "keepsTables c \<Longrightarrow> frame (snd (assignLoop c tok ix rhs lhs i s)) = frame s"
proof (induction lhs arbitrary: i s)
  case Nil
  then show ?case by simp
next
  case (Cons l ls)
  show ?case
    using frame_assignLhs [OF Cons.prems, of tok ix rhs l i s]
    by (auto simp: Cons.IH [OF Cons.prems] split: prod.splits sum.splits bool.splits)
qed

lemma frame_parseAssignStmt:
  "keepsTables c \<Longrightarrow> frame (snd (parseAssignStmt c lhs tok rhs s)) = frame s"
  using frame_assignRhsShape [of c lhs rhs s]
  by (auto simp: parseAssignStmt_def frame_assignLoop split: prod.splits sum.splits)


lemma frame_switchTag: "keepsTables c \<Longrightarrow> frame (snd (switchTag c tag s)) = frame s"
  by (auto simp: switchTag_def split: prod.splits sum.splits dest!: frame_dests)

lemma frame_dropErr [simp]: "snd (dropErr e, s) = s"
  by simp

lemma frame_switchCaseExprs:
  "keepsTables c \<Longrightarrow> frame (snd (switchCaseExprs c tv es s)) = frame s"
proof (induction es arbitrary: s)
  case Nil
  then show ?case by simp
next
  case (Cons e es)
  show ?case
    using Cons.prems
    by (auto simp: Cons.IH [OF Cons.prems] split: prod.splits sum.splits dest!: frame_dests)
qed

lemma frame_typeSwitchAssert:
  "keepsTables c \<Longrightarrow> frame (snd (typeSwitchAssert c e s)) = frame s"
  by (auto simp: typeSwitchAssert_def split: prod.splits sum.splits expr.splits error.splits
        dest!: frame_dests)

lemma frame_typeSwitchAssign:
  "keepsTables c \<Longrightarrow> frame (snd (typeSwitchAssign c lhs rhs s)) = frame s"
  using frame_typeSwitchAssert [of c "rhs ! 0" s]
  by (auto simp: typeSwitchAssign_def split: prod.splits sum.splits option.splits expr.splits)

lemma frame_typeSwitchCaseTypes:
  "keepsTables c \<Longrightarrow> frame (snd (typeSwitchCaseTypes c tv es s)) = frame s"
proof (induction es arbitrary: s)
  case Nil
  then show ?case by simp
next
  case (Cons e es)
  show ?case
    using Cons.prems
    by (auto simp: Cons.IH [OF Cons.prems] split: prod.splits sum.splits dest!: frame_dests)
qed

lemma frame_typeSwitchBind [simp]: "frame (typeSwitchBind c rid t p s) = frame s"
  by (auto simp: typeSwitchBind_def Let_def split: option.splits dataType.splits)

lemma frame_typeSwitchClauseHead:
  "keepsTables c \<Longrightarrow> frame (snd (typeSwitchClauseHead c rid tv l p s)) = frame s"
  using frame_typeSwitchCaseTypes [of c tv l s]
  by (auto simp: typeSwitchClauseHead_def split: prod.splits sum.splits dest!: frame_dests)


lemma frame_selectRecvBind [simp]: "frame (selectRecvBind c name p d x s) = frame s"
  by (simp add: selectRecvBind_def Let_def)

lemma frame_selectRecvAssign:
  "keepsTables c \<Longrightarrow> frame (snd (selectRecvAssign c l x s)) = frame s"
  by (auto simp: selectRecvAssign_def split: prod.splits sum.splits dest!: frame_dests)

lemma frame_selectRecvAssign':
  "selectRecvAssign c l x s = (r, s1) \<Longrightarrow> keepsTables c \<Longrightarrow> frame s1 = frame s"
  using frame_selectRecvAssign [of c l x s] by simp

lemma frame_NewVirtualVar_snd [simp]: "frame (snd (NewVirtualVar s)) = frame s"
  by (simp add: NewVirtualVar_def frame_def)

lemma frame_selectRecvLhs:
  assumes "keepsTables c"
  shows "frame (snd (selectRecvLhs c lhs tok a v s)) = frame s"
proof -
  obtain y s1 where n: "NewVirtualVar s = (y, s1)" by (cases "NewVirtualVar s")
  have f1: "frame s1 = frame s" using n by (rule frame_NewVirtualVar)
  show ?thesis
  proof (cases "tv0 a")
    case (Inl e)
    then show ?thesis by (simp add: selectRecvLhs_def n f1)
  next
    case (Inr x)
    show ?thesis
    proof (cases "tok = DEFINE")
      case True
      then show ?thesis
        by (simp add: selectRecvLhs_def n f1 Inr Let_def split: expr.splits)
    next
      case False
      then show ?thesis
        using assms
        by (auto simp: selectRecvLhs_def n f1 Inr Let_def frame_selectRecvAssign
              split: prod.splits sum.splits dest!: frame_selectRecvAssign')
    qed
  qed
qed

lemma frame_selectRecv:
  assumes "keepsTables c"
  shows "frame (snd (selectRecv c lhs tok rhs s)) = frame s"
proof (cases "length rhs \<noteq> 1")
  case True
  then show ?thesis by (simp add: selectRecv_def)
next
  case False
  show ?thesis
  proof (cases "rhs ! 0")
    case (UnaryExpr op x)
    show ?thesis
    proof (cases "ExprParser c x s")
      case (Pair r s1)
      have f: "frame s1 = frame s" using Pair assms by (rule frame_ExprParser)
      show ?thesis
        using False f
        by (cases r; cases "DataTypeList (projr r) ! 0")
           (simp_all add: selectRecv_def UnaryExpr Pair frame_selectRecvLhs [OF assms])
    qed
  qed (use False in \<open>simp_all add: selectRecv_def\<close>)
qed

lemma frame_selectComm:
  assumes "keepsTables c"
  shows "frame (snd (selectComm c comm s)) = frame s"
proof (cases comm)
  case (ExprStmt x)
  then show ?thesis
    using assms by (auto simp: selectComm_def split: prod.splits sum.splits dest!: frame_dests)
next
  case (SendStmt ch v)
  then show ?thesis by (simp add: selectComm_def frame_parseSendStmt [OF assms])
next
  case (AssignStmt lhs tok rhs)
  then show ?thesis by (simp add: selectComm_def frame_selectRecv [OF assms])
qed (simp_all add: selectComm_def)

lemma frame_rangeResolve:
  "frame (snd (rangeResolve c a s)) = frame s"
  by (auto simp: rangeResolve_def Let_def split: prod.splits sum.splits)

lemma frame_rangeKey:
  assumes "keepsTables c"
  shows "frame (snd (rangeKey c tok k xtv kt s)) = frame s"
proof (cases "tok = DEFINE")
  case True
  then show ?thesis
    by (cases k) (auto simp: rangeKey_def Let_def split: prod.splits sum.splits dest!: frame_dests)
next
  case False
  then show ?thesis
    using assms
    by (cases "stripParens k")
       (auto simp: rangeKey_def Let_def split: prod.splits sum.splits dest!: frame_dests)
qed

lemma frame_rangeValue:
  assumes "keepsTables c"
  shows "frame (snd (rangeValue c tok k xtv kt s)) = frame s"
proof (cases "tok = DEFINE")
  case True
  then show ?thesis
    by (cases k) (auto simp: rangeValue_def Let_def split: prod.splits sum.splits dest!: frame_dests)
next
  case False
  then show ?thesis
    using assms
    by (cases k)
       (auto simp: rangeValue_def Let_def split: prod.splits sum.splits dest!: frame_dests)
qed

lemma frame_rangeHead:
  assumes "keepsTables c"
  shows "frame (snd (rangeHead c a k v tok s)) = frame s"
proof (cases "rangeResolve c a s")
  case (Pair r s1)
  have f1: "frame s1 = frame s" using frame_rangeResolve [of c a s] Pair by simp
  show ?thesis
  proof (cases r)
    case (Inl e)
    then show ?thesis by (simp add: rangeHead_def Pair f1)
  next
    case (Inr q)
    obtain xtv kt vt where q: "q = (xtv, kt, vt)" by (cases q)
    show ?thesis
    proof (cases "k \<noteq> NilExpr")
      case True
      obtain r2 s2 where k2: "rangeKey c tok k xtv kt s1 = (r2, s2)" by (cases "rangeKey c tok k xtv kt s1")
      have f2: "frame s2 = frame s" using frame_rangeKey [OF assms, of tok k xtv kt s1] k2 f1 by simp
      show ?thesis
        using True f2
        by (simp add: rangeHead_def Pair Inr q k2 frame_rangeValue [OF assms]
              split: sum.splits bool.splits)
    next
      case False
      then show ?thesis
        by (simp add: rangeHead_def Pair Inr q f1 frame_rangeValue [OF assms])
    qed
  qed
qed


lemma frame_ignoreErr [simp]: "snd (ignoreErr rs) = snd rs"
  by (cases rs rule: ignoreErr.cases) simp_all

lemma frame_clauseErr [simp]: "snd (clauseErr rs) = snd rs"
  by (cases rs rule: clauseErr.cases) simp_all

lemma frame_bind:
  assumes "frame (snd m) = F" and "\<And>x s1. frame s1 = F \<Longrightarrow> frame (snd (g x s1)) = F"
  shows "frame (snd (case m of (Inl e, s1) \<Rightarrow> (Inl e, s1) | (Inr x, s1) \<Rightarrow> g x s1)) = F"
proof (cases m)
  case (Pair r s1)
  then show ?thesis using assms by (cases r) simp_all
qed

lemma frame_block:
  assumes "\<And>s. frame (snd (parseStmts c b s)) = frame s"
  shows "frame (snd (sPop (parseStmts c b (sPush s)))) = frame s"
  by (rule frame_sPop') (rule assms)

lemma frame_IfStmt:
  assumes kt: "keepsTables c"
    and P1: "\<And>s. frame (snd (Parse c init s)) = frame s"
    and P2: "\<And>s. frame (snd (Parse c els s)) = frame s"
    and L: "\<And>s. frame (snd (parseStmts c body s)) = frame s"
  shows "frame (snd (Parse c (IfStmt init cond body els) s)) = frame s"
proof -
  let ?R = "\<lambda>u s0. (case ExprParser c cond s0 of
                    (Inl e, s1) \<Rightarrow> (Inl e, s1)
                  | (Inr a, s1) \<Rightarrow>
                      (case sPop (parseStmts c body (sPush s1)) of
                         (Inl e, s2) \<Rightarrow> (Inl e, s2)
                       | (Inr u, s2) \<Rightarrow>
                           (if els \<noteq> NilStmt then Parse c els s2 else (Inr (), s2))))"
  have R: "frame (snd (?R u s0)) = F" if "frame s0 = F" for u s0 F
  proof (rule frame_bind)
    show "frame (snd (ExprParser c cond s0)) = F"
      using frame_ExprParser [OF _ kt, of cond s0] that by (cases "ExprParser c cond s0") simp
  next
    fix a s1 assume f1: "frame s1 = F"
    show "frame (snd (case sPop (parseStmts c body (sPush s1)) of
                         (Inl e, s2) \<Rightarrow> (Inl e, s2)
                       | (Inr u, s2) \<Rightarrow>
                           (if els \<noteq> NilStmt then Parse c els s2 else (Inr (), s2)))) = F"
    proof (rule frame_bind)
      show "frame (snd (sPop (parseStmts c body (sPush s1)))) = F"
        using frame_block [of c body s1] L f1 by simp
    qed (simp add: P2)
  qed
  show ?thesis
  proof (cases "init = NilStmt")
    case True
    then show ?thesis using R [OF refl, of s] by simp
  next
    case False
    have "frame (snd (case Parse c init (sPush s) of (Inl e, s0) \<Rightarrow> (Inl e, s0) | (Inr u, s0) \<Rightarrow> ?R u s0))
            = frame (sPush s)"
      by (rule frame_bind) (simp_all add: P1 R)
    from frame_sPop' [OF this] show ?thesis using False by (simp add: Let_def)
  qed
qed


lemma frame_bind_bool:
  assumes "frame (snd m) = F" and "\<And>s1. frame s1 = F \<Longrightarrow> frame (snd (g s1)) = F"
  shows "frame (snd (case m of (Inl e, s1) \<Rightarrow> (Inl e, s1) | (Inr False, s1) \<Rightarrow> (Inr (), s1)
                      | (Inr True, s1) \<Rightarrow> g s1)) = F"
proof (cases m)
  case (Pair r s1)
  then show ?thesis using assms by (cases r) (simp_all split: bool.splits)
qed

lemma frame_bind_opt:
  assumes "frame (snd m) = F" and "\<And>x s1. frame s1 = F \<Longrightarrow> frame (snd (g x s1)) = F"
  shows "frame (snd (case m of (Inl e, s1) \<Rightarrow> (Inl e, s1) | (Inr None, s1) \<Rightarrow> (Inr (), s1)
                      | (Inr (Some x), s1) \<Rightarrow> g x s1)) = F"
proof (cases m)
  case (Pair r s1)
  then show ?thesis using assms by (cases r) (simp_all split: option.splits)
qed

lemma frame_snd_eq: "frame (snd (f s)) = frame s \<Longrightarrow> frame s = F \<Longrightarrow> frame (snd (f s)) = F"
  by simp

lemma frame_SwitchStmt:
  assumes kt: "keepsTables c"
    and P1: "\<And>s. frame (snd (Parse c init s)) = frame s"
    and S: "\<And>tv s. frame (snd (switchClauses c tv body s)) = frame s"
  shows "frame (snd (Parse c (SwitchStmt init tag body) s)) = frame s"
proof -
  let ?R = "\<lambda>u s0. (case switchTag c tag s0 of
                    (Inl e, s1) \<Rightarrow> (Inl e, s1)
                  | (Inr stmtTagTypeVar, s1) \<Rightarrow> switchClauses c stmtTagTypeVar body s1)"
  have R: "frame (snd (?R u s0)) = F" if "frame s0 = F" for s0 F
    by (rule frame_bind) (simp_all add: frame_switchTag [OF kt] S that)
  show ?thesis
  proof (cases "init = NilStmt")
    case True
    then show ?thesis using R [OF refl, of s] by simp
  next
    case False
    have "frame (snd (case Parse c init (sPush s) of (Inl e, s0) \<Rightarrow> (Inl e, s0) | (Inr u, s0) \<Rightarrow> ?R u s0))
            = frame (sPush s)"
      by (rule frame_bind) (simp_all add: P1 R)
    from frame_sPop' [OF this] show ?thesis using False by (simp add: Let_def)
  qed
qed

lemma frame_TypeSwitchStmt:
  assumes kt: "keepsTables c"
    and P1: "\<And>s. frame (snd (Parse c init s)) = frame s"
    and T: "\<And>rid tv s. frame (snd (typeSwitchClauses c rid tv body s)) = frame s"
  shows "frame (snd (Parse c (TypeSwitchStmt init assign body) s)) = frame s"
proof -
  let ?G = "\<lambda>s0. (case assign of
                     AssignStmt lhs tok rhs \<Rightarrow>
                       sPop
                        (case typeSwitchAssign c lhs rhs (sPush (sPush s0)) of
                           (Inl e, s1) \<Rightarrow> (Inl e, s1)
                         | (Inr None, s1) \<Rightarrow> (Inr (), s1)
                         | (Inr (Some (rhsIdentifier, typeTypeVar)), s1) \<Rightarrow>
                             typeSwitchClauses c rhsIdentifier typeTypeVar body s1)
                   | ExprStmt x \<Rightarrow>
                       (case typeSwitchAssert c x (sPush s0) of
                          (Inl e, s1) \<Rightarrow> (Inl e, s1)
                        | (Inr None, s1) \<Rightarrow> (Inr (), s1)
                        | (Inr (Some typeTypeVar), s1) \<Rightarrow>
                            typeSwitchClauses c None typeTypeVar body s1)
                   | _ \<Rightarrow> (Inl (Err ''Unsupported statement in type switch''), sPush s0))"
  have G: "frame (snd (?G s0)) = frame (sPush s0)" for s0
  proof (cases assign)
    case (AssignStmt lhs tok rhs)
    have "frame (snd (case typeSwitchAssign c lhs rhs (sPush (sPush s0)) of
                           (Inl e, s1) \<Rightarrow> (Inl e, s1)
                         | (Inr None, s1) \<Rightarrow> (Inr (), s1)
                         | (Inr (Some (rhsIdentifier, typeTypeVar)), s1) \<Rightarrow>
                             typeSwitchClauses c rhsIdentifier typeTypeVar body s1))
           = frame (sPush (sPush s0))"
      by (rule frame_bind_opt) (simp_all add: frame_typeSwitchAssign [OF kt] T split: prod.splits)
    from frame_sPop' [OF this] show ?thesis by (simp add: AssignStmt)
  next
    case (ExprStmt x)
    have "frame (snd (case typeSwitchAssert c x (sPush s0) of
                          (Inl e, s1) \<Rightarrow> (Inl e, s1)
                        | (Inr None, s1) \<Rightarrow> (Inr (), s1)
                        | (Inr (Some typeTypeVar), s1) \<Rightarrow>
                            typeSwitchClauses c None typeTypeVar body s1))
           = frame (sPush s0)"
      by (rule frame_bind_opt) (simp_all add: frame_typeSwitchAssert [OF kt] T)
    then show ?thesis by (simp add: ExprStmt)
  qed simp_all
  have R: "frame (snd (sPop (?G s0))) = F" if "frame s0 = F" for s0 F
    using frame_sPop' [OF G [of s0]] that by simp
  show ?thesis
  proof (cases "init = NilStmt")
    case True
    then show ?thesis using R [OF refl, of s] by simp
  next
    case False
    have "frame (snd (case Parse c init (sPush s) of (Inl e, s0) \<Rightarrow> (Inl e, s0)
                      | (Inr u, s0) \<Rightarrow> sPop (?G s0)))
            = frame (sPush s)"
      by (rule frame_bind) (simp_all add: P1 R)
    from frame_sPop' [OF this] show ?thesis using False by (simp add: Let_def)
  qed
qed

lemma frame_ForStmt:
  assumes kt: "keepsTables c"
    and P1: "\<And>s. frame (snd (Parse c init s)) = frame s"
    and P2: "\<And>s. frame (snd (Parse c post s)) = frame s"
    and L: "\<And>s. frame (snd (parseStmts c body s)) = frame s"
  shows "frame (snd (Parse c (ForStmt init cond post body) s)) = frame s"
proof -
  have "frame (snd
      (case (if init \<noteq> NilStmt then ignoreErr (Parse c init (sPush s)) else (Inr (), sPush s)) of
         (Inl e, s0) \<Rightarrow> (Inl e, s0)
       | (Inr u, s0) \<Rightarrow>
           (case (if cond \<noteq> NilExpr then ExprParser c cond s0
                  else (Inr \<lparr>DataTypeList = [], TypeVarList = []\<rparr>, s0)) of
              (Inl e, s1) \<Rightarrow> (Inl e, s1)
            | (Inr a, s1) \<Rightarrow>
                (case (if post \<noteq> NilStmt then ignoreErr (Parse c post s1) else (Inr (), s1)) of
                   (Inl e, s2) \<Rightarrow> (Inl e, s2)
                 | (Inr u, s2) \<Rightarrow> sPop (parseStmts c body (sPush s2)))))) = frame (sPush s)"
  proof (rule frame_bind)
    show "frame (snd (if init \<noteq> NilStmt then ignoreErr (Parse c init (sPush s)) else (Inr (), sPush s)))
            = frame (sPush s)"
      by (simp add: P1)
  next
    fix u s0 assume f0: "frame s0 = frame (sPush s)"
    show "frame (snd (case (if cond \<noteq> NilExpr then ExprParser c cond s0
                  else (Inr \<lparr>DataTypeList = [], TypeVarList = []\<rparr>, s0)) of
              (Inl e, s1) \<Rightarrow> (Inl e, s1)
            | (Inr a, s1) \<Rightarrow>
                (case (if post \<noteq> NilStmt then ignoreErr (Parse c post s1) else (Inr (), s1)) of
                   (Inl e, s2) \<Rightarrow> (Inl e, s2)
                 | (Inr u, s2) \<Rightarrow> sPop (parseStmts c body (sPush s2))))) = frame (sPush s)"
    proof (rule frame_bind)
      show "frame (snd (if cond \<noteq> NilExpr then ExprParser c cond s0
                  else (Inr \<lparr>DataTypeList = [], TypeVarList = []\<rparr>, s0))) = frame (sPush s)"
        using frame_ExprParser [OF _ kt, of cond s0] f0
        by (cases "ExprParser c cond s0") simp
    next
      fix a s1 assume f1: "frame s1 = frame (sPush s)"
      show "frame (snd (case (if post \<noteq> NilStmt then ignoreErr (Parse c post s1) else (Inr (), s1)) of
                   (Inl e, s2) \<Rightarrow> (Inl e, s2)
                 | (Inr u, s2) \<Rightarrow> sPop (parseStmts c body (sPush s2)))) = frame (sPush s)"
      proof (rule frame_bind)
        show "frame (snd (if post \<noteq> NilStmt then ignoreErr (Parse c post s1) else (Inr (), s1)))
                = frame (sPush s)"
          by (simp add: P2 f1)
      next
        fix u s2 assume f2: "frame s2 = frame (sPush s)"
        show "frame (snd (sPop (parseStmts c body (sPush s2)))) = frame (sPush s)"
          using frame_block [of c body s2] L f2 by simp
      qed
    qed
  qed
  from frame_sPop' [OF this] show ?thesis by simp
qed

lemma frame_RangeStmt:
  assumes kt: "keepsTables c"
    and L: "\<And>s. frame (snd (parseStmts c body s)) = frame s"
  shows "frame (snd (Parse c (RangeStmt k v tok x body) s)) = frame s"
proof -
  have G: "frame (snd (sPop
           (case rangeHead c a k v tok (sPush s0) of
              (Inl e, s1) \<Rightarrow> (Inl e, s1)
            | (Inr False, s1) \<Rightarrow> (Inr (), s1)
            | (Inr True, s1) \<Rightarrow> sPop (parseStmts c body (sPush s1))))) = F"
    if "frame s0 = F" for a s0 F
  proof -
    have "frame (snd (case rangeHead c a k v tok (sPush s0) of
              (Inl e, s1) \<Rightarrow> (Inl e, s1)
            | (Inr False, s1) \<Rightarrow> (Inr (), s1)
            | (Inr True, s1) \<Rightarrow> sPop (parseStmts c body (sPush s1)))) = frame (sPush s0)"
    proof (rule frame_bind_bool)
      show "frame (snd (rangeHead c a k v tok (sPush s0))) = frame (sPush s0)"
        by (rule frame_rangeHead [OF kt])
    next
      fix s1 assume "frame s1 = frame (sPush s0)"
      then show "frame (snd (sPop (parseStmts c body (sPush s1)))) = frame (sPush s0)"
        using frame_block [of c body s1] L by simp
    qed
    from frame_sPop' [OF this] that show ?thesis by simp
  qed
  have "frame (snd (case ExprParser c x s of
        (Inl e, s0) \<Rightarrow> (Inl e, s0)
      | (Inr xExprAttr, s0) \<Rightarrow>
          sPop
           (case rangeHead c xExprAttr k v tok (sPush s0) of
              (Inl e, s1) \<Rightarrow> (Inl e, s1)
            | (Inr False, s1) \<Rightarrow> (Inr (), s1)
            | (Inr True, s1) \<Rightarrow> sPop (parseStmts c body (sPush s1))))) = frame s"
  proof (rule frame_bind)
    show "frame (snd (ExprParser c x s)) = frame s"
      using frame_ExprParser [OF _ kt, of x s] by (cases "ExprParser c x s") simp
  qed (rule G)
  then show ?thesis by simp
qed


lemma frame_parseStmts_Cons:
  assumes "\<And>s. frame (snd (Parse c st s)) = frame s"
    and "\<And>s. frame (snd (parseStmts c rest s)) = frame s"
  shows "frame (snd (parseStmts c (st # rest) s)) = frame s"
proof -
  have "frame (snd (case Parse c st s of (Inl e, s1) \<Rightarrow> (Inl e, s1)
                    | (Inr u, s1) \<Rightarrow> parseStmts c rest s1)) = frame s"
    by (rule frame_bind) (simp_all add: assms)
  then show ?thesis by simp
qed

lemma frame_body:
  assumes "\<And>s. frame (snd (parseStmts c b s)) = frame s" and "frame s1 = F"
  shows "frame (snd (if b \<noteq> [] then sPop (parseStmts c b (sPush s1)) else (Inr (), s1))) = F"
  using frame_block [of c b s1] assms by simp

lemma frame_switchClauses_Cons:
  assumes kt: "keepsTables c"
    and L: "\<And>l b p s. st = CaseClause l b p \<Longrightarrow> frame (snd (parseStmts c b s)) = frame s"
    and S: "\<And>s. frame (snd (switchClauses c tv rest s)) = frame s"
  shows "frame (snd (switchClauses c tv (st # rest) s)) = frame s"
proof (cases st)
  case (CaseClause l b p)
  have "frame (snd (case switchCaseExprs c tv l s of
             (Inl e, s1) \<Rightarrow> (Inl e, s1)
           | (Inr False, s1) \<Rightarrow> (Inr (), s1)
           | (Inr True, s1) \<Rightarrow>
               (case (if b \<noteq> [] then sPop (parseStmts c b (sPush s1)) else (Inr (), s1)) of
                  (Inl e, s2) \<Rightarrow> (Inl e, s2)
                | (Inr u, s2) \<Rightarrow> switchClauses c tv rest s2))) = frame s"
  proof (rule frame_bind_bool)
    show "frame (snd (switchCaseExprs c tv l s)) = frame s"
      by (rule frame_switchCaseExprs [OF kt])
  next
    fix s1 assume f1: "frame s1 = frame s"
    show "frame (snd (case (if b \<noteq> [] then sPop (parseStmts c b (sPush s1)) else (Inr (), s1)) of
                  (Inl e, s2) \<Rightarrow> (Inl e, s2)
                | (Inr u, s2) \<Rightarrow> switchClauses c tv rest s2)) = frame s"
      by (rule frame_bind) (simp_all add: frame_body [OF L [OF CaseClause] f1] S)
  qed
  then show ?thesis by (simp add: CaseClause)
qed simp_all

lemma frame_typeSwitchClauses_Cons:
  assumes kt: "keepsTables c"
    and L: "\<And>l b p s. st = CaseClause l b p \<Longrightarrow> frame (snd (parseStmts c b s)) = frame s"
    and T: "\<And>s. frame (snd (typeSwitchClauses c rid tv rest s)) = frame s"
  shows "frame (snd (typeSwitchClauses c rid tv (st # rest) s)) = frame s"
proof (cases st)
  case (CaseClause l b p)
  have "frame (snd (case typeSwitchClauseHead c rid tv l p (sPush s) of
                       (Inl e, s1) \<Rightarrow> (Inl e, s1)
                     | (Inr u, s1) \<Rightarrow>
                         (if b \<noteq> [] then sPop (parseStmts c b (sPush s1)) else (Inr (), s1))))
          = frame (sPush s)"
    by (rule frame_bind)
       (simp_all add: frame_typeSwitchClauseHead [OF kt] frame_body [OF L [OF CaseClause]])
  from frame_sPop' [OF this]
  have "frame (snd (case clauseErr
                  (sPop
                    (case typeSwitchClauseHead c rid tv l p (sPush s) of
                       (Inl e, s1) \<Rightarrow> (Inl e, s1)
                     | (Inr u, s1) \<Rightarrow>
                         (if b \<noteq> [] then sPop (parseStmts c b (sPush s1)) else (Inr (), s1)))) of
             (Inl e, s2) \<Rightarrow> (Inl e, s2)
           | (Inr False, s2) \<Rightarrow> (Inr (), s2)
           | (Inr True, s2) \<Rightarrow> typeSwitchClauses c rid tv rest s2)) = frame s"
    by (intro frame_bind_bool) (simp_all add: T)
  then show ?thesis by (simp add: CaseClause)
qed simp_all

lemma frame_selectClauses_Cons:
  assumes kt: "keepsTables c"
    and L: "\<And>comm b s. st = CommClause comm b \<Longrightarrow> frame (snd (parseStmts c b s)) = frame s"
    and C: "\<And>s. frame (snd (selectClauses c rest s)) = frame s"
  shows "frame (snd (selectClauses c (st # rest) s)) = frame s"
proof -
  let ?X = "(case st of
                CommClause comm b \<Rightarrow>
                  (case (if comm \<noteq> NilStmt then selectComm c comm (sPush s)
                         else (Inr (), sPush s)) of
                     (Inl e, s1) \<Rightarrow> (Inl e, s1)
                   | (Inr u, s1) \<Rightarrow>
                       (if b \<noteq> [] then sPop (parseStmts c b (sPush s1)) else (Inr (), s1)))
              | _ \<Rightarrow> (Inl (Err ''Select must be a list of commClause statements''), sPush s))"
  have X: "frame (snd ?X) = frame (sPush s)"
  proof (cases st)
    case (CommClause comm b)
    have "frame (snd (case (if comm \<noteq> NilStmt then selectComm c comm (sPush s)
                         else (Inr (), sPush s)) of
                     (Inl e, s1) \<Rightarrow> (Inl e, s1)
                   | (Inr u, s1) \<Rightarrow>
                       (if b \<noteq> [] then sPop (parseStmts c b (sPush s1)) else (Inr (), s1))))
           = frame (sPush s)"
      by (rule frame_bind)
         (simp_all add: frame_selectComm [OF kt] frame_body [OF L [OF CommClause]])
    then show ?thesis by (simp add: CommClause)
  qed simp_all
  have "frame (snd (case sPop ?X of (Inl e, s2) \<Rightarrow> (Inl e, s2)
                    | (Inr u, s2) \<Rightarrow> selectClauses c rest s2)) = frame s"
    by (rule frame_bind) (simp_all add: frame_sPop' [OF X] C)
  then show ?thesis by simp
qed

lemma frame_step:
  assumes kt: "keepsTables c" and ih: "frameOK c n"
  shows "frameOK c (Suc n)"
proof -
  have P: "\<And>st s. size st < n \<Longrightarrow> frame (snd (Parse c st s)) = frame s"
    and L: "\<And>sts s. size_list size sts < n \<Longrightarrow> frame (snd (parseStmts c sts s)) = frame s"
    and S: "\<And>tv sts s. size_list size sts < n \<Longrightarrow> frame (snd (switchClauses c tv sts s)) = frame s"
    and T: "\<And>rid tv sts s. size_list size sts < n \<Longrightarrow>
              frame (snd (typeSwitchClauses c rid tv sts s)) = frame s"
    and C: "\<And>sts s. size_list size sts < n \<Longrightarrow> frame (snd (selectClauses c sts s)) = frame s"
    using ih by (simp_all add: frameOK_def)
  have 1: "frame (snd (Parse c st s)) = frame s" if "size st < Suc n" for st s
  proof (cases st)
    case (BlockStmt l)
    then show ?thesis using that frame_block [of c l s] by (simp add: L)
  next
    case (LabeledStmt l st')
    then show ?thesis using that by (simp add: P)
  next
    case (IfStmt init cond body els)
    then show ?thesis using that by (simp only: IfStmt) (rule frame_IfStmt [OF kt]; simp add: P L)
  next
    case (SwitchStmt init tag body)
    then show ?thesis using that by (simp only: SwitchStmt) (rule frame_SwitchStmt [OF kt]; simp add: P S)
  next
    case (TypeSwitchStmt init assign body)
    then show ?thesis
      using that by (simp only: TypeSwitchStmt) (rule frame_TypeSwitchStmt [OF kt]; simp add: P T)
  next
    case (SelectStmt body)
    then show ?thesis using that by (simp add: C)
  next
    case (ForStmt init cond post body)
    then show ?thesis using that by (simp only: ForStmt) (rule frame_ForStmt [OF kt]; simp add: P L)
  next
    case (RangeStmt k v tok x body)
    then show ?thesis using that by (simp only: RangeStmt) (rule frame_RangeStmt [OF kt]; simp add: L)
  qed (simp_all add: frame_parseDeclStmt frame_parseExprStmt frame_parseSendStmt frame_parseIncDecStmt
        frame_parseAssignStmt frame_parseGoStmt frame_parseReturnStmt frame_parseDeferStmt kt
        parseBranchStmt_def)
  have 2: "frame (snd (parseStmts c sts s)) = frame s" if "size_list size sts < Suc n" for sts s
  proof (cases sts)
    case Nil
    then show ?thesis by simp
  next
    case (Cons st rest)
    then show ?thesis
      using that by (simp only: Cons) (rule frame_parseStmts_Cons; simp add: P L)
  qed
  have 3: "frame (snd (switchClauses c tv sts s)) = frame s" if "size_list size sts < Suc n" for tv sts s
  proof (cases sts)
    case Nil
    then show ?thesis by simp
  next
    case (Cons st rest)
    then show ?thesis
      using that by (simp only: Cons) (rule frame_switchClauses_Cons [OF kt]; simp add: L S)
  qed
  have 4: "frame (snd (typeSwitchClauses c rid tv sts s)) = frame s"
    if "size_list size sts < Suc n" for rid tv sts s
  proof (cases sts)
    case Nil
    then show ?thesis by simp
  next
    case (Cons st rest)
    then show ?thesis
      using that by (simp only: Cons) (rule frame_typeSwitchClauses_Cons [OF kt]; simp add: L T)
  qed
  have 5: "frame (snd (selectClauses c sts s)) = frame s" if "size_list size sts < Suc n" for sts s
  proof (cases sts)
    case Nil
    then show ?thesis by simp
  next
    case (Cons st rest)
    then show ?thesis
      using that by (simp only: Cons) (rule frame_selectClauses_Cons [OF kt]; simp add: L C)
  qed
  show ?thesis
    unfolding frameOK_def using 1 2 3 4 5 by blast
qed

lemma frameOK_all: "keepsTables c \<Longrightarrow> frameOK c n"
  by (induction n) (simp_all add: frameOK_def [of c 0] frame_step)

lemma frame_Parse: "keepsTables c \<Longrightarrow> frame (snd (Parse c st s)) = frame s"
  using frameOK_all [of c "Suc (size st)"] by (simp add: frameOK_def)

lemma frame_parseStmts: "keepsTables c \<Longrightarrow> frame (snd (parseStmts c sts s)) = frame s"
  using frameOK_all [of c "Suc (size_list size sts)"] by (simp add: frameOK_def)


lemma frame_receiverIdent:
  "frame (snd (receiverIdent c name p skip s)) = frame s"
  by (auto simp: receiverIdent_def split: sum.splits prod.splits)

lemma frame_parseReceiver:
  "frame (snd (parseReceiver c r skip s)) = frame s"
proof (cases r)
  case (Ident name p)
  then show ?thesis by (simp add: parseReceiver_def frame_receiverIdent)
next
  case (StarExpr x)
  show ?thesis
  proof (cases x)
    case (Ident name p)
    then show ?thesis
      using frame_receiverIdent [of c name p skip s]
      by (auto simp: parseReceiver_def StarExpr split: prod.splits sum.splits)
  qed (simp_all add: parseReceiver_def StarExpr)
qed (simp_all add: parseReceiver_def)

lemma frame_parseReceiver':
  "parseReceiver c r skip s = (x, s1) \<Longrightarrow> frame s1 = frame s"
  using frame_parseReceiver [of c r skip s] by simp

lemma frame_headReceiver:
  "frame (snd (headReceiver c fd s)) = frame s"
  by (auto simp: headReceiver_def Let_def split: option.splits prod.splits sum.splits list.splits
        dest!: frame_parseReceiver')

lemma frame_headNames: "frame (snd (headNames c d names acc s)) = frame s"
  by (induction names arbitrary: acc s) (simp_all add: Let_def)

lemma frame_headFields:
  "keepsTables c \<Longrightarrow> frame (snd (headFields c pre fl acc s)) = frame s"
proof (induction fl arbitrary: acc s)
  case Nil
  then show ?case by simp
next
  case (Cons f fs)
  show ?case
    using Cons.prems frame_headNames [of c _ "Names f" acc]
    by (auto simp: Cons.IH [OF Cons.prems] split: prod.splits sum.splits dest!: frame_dests)
       (metis snd_conv)
qed

lemma frame_headAddVariables: "frame (headAddVariables ds s) = frame s"
  by (induction ds arbitrary: s) simp_all

lemma frame_parseFuncHeadVariables:
  assumes kt: "keepsTables c"
  shows "frame (snd (parseFuncHeadVariables c fd s)) = frame s"
proof -
  have F: "frame (snd (case Params fd of None \<Rightarrow> (Inr [], s1)
                 | Some l \<Rightarrow> headFields c pre l [] s1)) = frame s1" for s1 pre
    by (simp add: frame_headFields [OF kt] split: option.splits)
  have G: "frame (snd (case Results fd of None \<Rightarrow> (Inr sDefs, s2)
                 | Some l \<Rightarrow> headFields c pre l sDefs s2)) = frame s2" for s2 pre sDefs
    by (simp add: frame_headFields [OF kt] split: option.splits)
  have "frame (snd (case headReceiver c fd s of
        (Inl e, s1) \<Rightarrow> (Inl e, s1)
      | (Inr u, s1) \<Rightarrow>
          (case (case Params fd of
                   None \<Rightarrow> (Inr [], s1)
                 | Some l \<Rightarrow> headFields c ''sp.TypeParser.Parse Params: '' l [] s1) of
             (Inl e, s2) \<Rightarrow> (Inl e, s2)
           | (Inr sDefs, s2) \<Rightarrow>
               (case (case Results fd of
                        None \<Rightarrow> (Inr sDefs, s2)
                      | Some l \<Rightarrow> headFields c ''sp.TypeParser.Parse Results: '' l sDefs s2) of
                  (Inl e, s3) \<Rightarrow> (Inl e, s3)
                | (Inr sDefs', s3) \<Rightarrow> (Inr (), headAddVariables sDefs' s3))))) = frame s"
  proof (rule frame_bind)
    show "frame (snd (headReceiver c fd s)) = frame s" by (rule frame_headReceiver)
  next
    fix u s1 assume f1: "frame s1 = frame s"
    show "frame (snd (case (case Params fd of
                   None \<Rightarrow> (Inr [], s1)
                 | Some l \<Rightarrow> headFields c ''sp.TypeParser.Parse Params: '' l [] s1) of
             (Inl e, s2) \<Rightarrow> (Inl e, s2)
           | (Inr sDefs, s2) \<Rightarrow>
               (case (case Results fd of
                        None \<Rightarrow> (Inr sDefs, s2)
                      | Some l \<Rightarrow> headFields c ''sp.TypeParser.Parse Results: '' l sDefs s2) of
                  (Inl e, s3) \<Rightarrow> (Inl e, s3)
                | (Inr sDefs', s3) \<Rightarrow> (Inr (), headAddVariables sDefs' s3)))) = frame s"
    proof (rule frame_bind)
      show "frame (snd (case Params fd of
                   None \<Rightarrow> (Inr [], s1)
                 | Some l \<Rightarrow> headFields c ''sp.TypeParser.Parse Params: '' l [] s1)) = frame s"
        using F f1 by simp
    next
      fix sDefs s2 assume f2: "frame s2 = frame s"
      show "frame (snd (case (case Results fd of
                        None \<Rightarrow> (Inr sDefs, s2)
                      | Some l \<Rightarrow> headFields c ''sp.TypeParser.Parse Results: '' l sDefs s2) of
                  (Inl e, s3) \<Rightarrow> (Inl e, s3)
                | (Inr sDefs', s3) \<Rightarrow> (Inr (), headAddVariables sDefs' s3))) = frame s"
        by (rule frame_bind) (simp_all add: G f2 frame_headAddVariables)
    qed
  qed
  then show ?thesis by (simp add: parseFuncHeadVariables_def)
qed

lemma Tables_sPop:
  assumes "frame (snd rs) = frame (sPush s)"
  shows "Tables (snd (sPop rs)) = Tables s" and "fst (sPop rs) = fst rs"
  using sPop_frame [OF assms, of "fst rs"] by simp_all


lemma keepsTables_exConfig: "keepsTables exConfig"
  by (simp add: keepsTables_def exConfig_def)


text \<open>
  C7: after \<^verbatim>\<open>ParseFuncBody\<close> returns, with success or with an error (an error of the
  header binder or of a statement of the body), the stack of symbol tables is the stack
  before the call: it has the same size, and the file-level table and every other table
  of it are unchanged. The collaborators are taken to keep the stack; a panic is not a
  return.
\<close>

theorem C7_scopes_restored:
  assumes kt: "keepsTables c" and ret: "\<not> isPanic (fst (ParseFuncBody c funcDecl s))"
  shows "Tables (snd (ParseFuncBody c funcDecl s)) = Tables s"
proof (cases "parseFuncHeadVariables c funcDecl (sPush s)")
  case (Pair r s1)
  have f1: "frame s1 = frame (sPush s)"
    using frame_parseFuncHeadVariables [OF kt, of funcDecl "sPush s"] Pair by simp
  show ?thesis
  proof (cases r)
    case (Inl e)
    show ?thesis
    proof (cases e)
      case (Err m)
      then show ?thesis
        using Tables_sPop(1) [of "(Inl (Err (''sp.ParseFuncBody: '' @ m)), s1)" s] f1
        by (simp add: ParseFuncBody_def Pair Inl)
    next
      case (Panic m)
      then show ?thesis
        using ret by (simp add: ParseFuncBody_def Pair Inl)
    qed
  next
    case (Inr u)
    let ?B = "(case Body funcDecl of
               None \<Rightarrow> (Inr (), sPush s1)
             | Some l \<Rightarrow> parseStmts c l (sPush s1))"
    have "frame (snd ?B) = frame (sPush s1)"
      by (simp add: frame_parseStmts [OF kt] split: option.splits)
    then have "frame (snd (sPop ?B)) = frame (sPush s)"
      using frame_sPop' [of ?B s1] f1 by simp
    then show ?thesis
      using Tables_sPop(1) [of "sPop ?B" s] by (simp add: ParseFuncBody_def Pair Inr)
  qed
qed


theorem C7_witness:
  "keepsTables exConfig \<and> \<not> isPanic (fst (ParseFuncBody exConfig exFunc exState))
   \<and> Tables (snd (ParseFuncBody exConfig exFunc exState)) = Tables exState"
proof -
  have r: "fst (ParseFuncBody exConfig exFunc exState) = Inr ()"
    by (simp add: ParseFuncBody_def parseFuncHeadVariables_def headReceiver_def exFunc_def
          parseIncDecStmt_def run_simps)
  show ?thesis
    using C7_scopes_restored [OF keepsTables_exConfig, of exFunc exState] r
    by (simp add: keepsTables_exConfig)
qed

text \<open>
  C9, as stated, fails: the method \<open>func (r T) m()\<close> has no body, and no table holds the
  type \<open>T\<close> of its receiver; the header binder returns the error of the lookup, and
  \<^verbatim>\<open>ParseFuncBody\<close> returns it (wrapped), not success.
\<close>

theorem C9_counterexample:
  "Body exMethod = None
   \<and> ParseFuncBody exConfig exMethod exState
     = (Inl (Err ''sp.ParseFuncBody: sp.parseReceiver: Symbol T not found''), exState)
   \<and> \<not> isOk (fst (ParseFuncBody exConfig exMethod exState))"
  by (simp add: ParseFuncBody_def parseFuncHeadVariables_def headReceiver_def parseReceiver_def
        receiverIdent_def Lookup_def Table_Lookup_def exMethod_def run_simps)


text \<open>
  C9, amended: for a function declaration whose body is nil, when the header binder
  returns no error (leaving the state \<open>s1\<close>), \<^verbatim>\<open>ParseFuncBody\<close> returns success; the state
  is the state of the header binder, with the contracts of the header, and the stack is
  the stack before the call: header and body scope are pushed and popped, and no statement
  is parsed. When the header binder returns an error, \<^verbatim>\<open>ParseFuncBody\<close> returns that
  error, prefixed with \<open>sp.ParseFuncBody:\<close>, and the stack is the stack before the call.
\<close>

theorem C9_nil_body:
  assumes kt: "keepsTables c" and nil: "Body funcDecl = None"
  shows "(parseFuncHeadVariables c funcDecl (sPush s) = (Inr (), s1) \<longrightarrow>
            ParseFuncBody c funcDecl s = (Inr (), s1\<lparr>Tables := Tables s\<rparr>))
       \<and> (parseFuncHeadVariables c funcDecl (sPush s) = (Inl (Err m), s1) \<longrightarrow>
            ParseFuncBody c funcDecl s
              = (Inl (Err (''sp.ParseFuncBody: '' @ m)), s1\<lparr>Tables := Tables s\<rparr>))"
proof (intro conjI impI)
  assume hd: "parseFuncHeadVariables c funcDecl (sPush s) = (Inr (), s1)"
  have f1: "frame s1 = frame (sPush s)"
    using frame_parseFuncHeadVariables [OF kt, of funcDecl "sPush s"] hd by simp
  show "ParseFuncBody c funcDecl s = (Inr (), s1\<lparr>Tables := Tables s\<rparr>)"
    using sPop_frame [OF f1, of "Inr ()"] by (simp add: ParseFuncBody_def hd nil)
next
  assume hd: "parseFuncHeadVariables c funcDecl (sPush s) = (Inl (Err m), s1)"
  have f1: "frame s1 = frame (sPush s)"
    using frame_parseFuncHeadVariables [OF kt, of funcDecl "sPush s"] hd by simp
  show "ParseFuncBody c funcDecl s
          = (Inl (Err (''sp.ParseFuncBody: '' @ m)), s1\<lparr>Tables := Tables s\<rparr>)"
    using sPop_frame [OF f1, of "Inl (Err (''sp.ParseFuncBody: '' @ m))"]
    by (simp add: ParseFuncBody_def hd)
qed

theorem C9_witness:
  "keepsTables exConfig \<and> Body (exFunc\<lparr>Body := None\<rparr>) = None \<and> Body exMethod = None
   \<and> ParseFuncBody exConfig (exFunc\<lparr>Body := None\<rparr>) exState
     = (Inr (),
        exState\<lparr>Contracts :=
          [PropagatesTo (Constant ''p'' (Identifier ''int'' ''p'')) (Variable [] ''n'' ''f.go:3'')
             (Some (Identifier ''int'' ''p''))]\<rparr>)
   \<and> ParseFuncBody exConfig exMethod exState
     = (Inl (Err ''sp.ParseFuncBody: sp.parseReceiver: Symbol T not found''), exState)"
proof -
  have h: "parseFuncHeadVariables exConfig (exFunc\<lparr>Body := None\<rparr>) (sPush exState)
      = (Inr (),
         exState\<lparr>Tables := [NewTable, NewTable,
               NewTable\<lparr>Variables := [(''n'', \<lparr>Name = ''n'', Package = [],
                  Def = Some (Identifier ''int'' ''p''), Posn = ''f.go:3''\<rparr>)]\<rparr>],
            Contracts :=
          [PropagatesTo (Constant ''p'' (Identifier ''int'' ''p'')) (Variable [] ''n'' ''f.go:3'')
             (Some (Identifier ''int'' ''p''))]\<rparr>)"
    by (simp add: parseFuncHeadVariables_def headReceiver_def exFunc_def run_simps)
  have g: "parseFuncHeadVariables exConfig exMethod (sPush exState)
      = (Inl (Err ''sp.parseReceiver: Symbol T not found''),
         exState\<lparr>Tables := [NewTable, NewTable, NewTable]\<rparr>)"
    by (simp add: parseFuncHeadVariables_def headReceiver_def parseReceiver_def
        receiverIdent_def Lookup_def Table_Lookup_def exMethod_def run_simps)
  have n: "Body exMethod = None" by (simp add: exMethod_def)
  show ?thesis
    using C9_nil_body [OF keepsTables_exConfig, of "exFunc\<lparr>Body := None\<rparr>" exState, THEN conjunct1, rule_format, OF _ h]
      C9_nil_body [OF keepsTables_exConfig n, of exState, THEN conjunct2, rule_format, OF g]
    by (simp add: keepsTables_exConfig n exState_def)
qed

subsection \<open>Contract table discipline\<close>

text \<open>
  Every statement keeps the contracts already in the table, provided the collaborators
  do: the parser only appends. The lemmas follow the functions of the parser.
\<close>

lemma begins_length:
  assumes "begins P s"
  shows "length P \<le> length (Contracts s)"
proof -
  have "length P = length (take (length P) (Contracts s))"
    using assms by (simp only: begins_def)
  also have "\<dots> \<le> length (Contracts s)" by simp
  finally show ?thesis .
qed

lemma begins_append: "begins P s \<Longrightarrow> Contracts s' = Contracts s @ ks \<Longrightarrow> begins P s'"
  using begins_length [of P s] by (simp add: begins_def)

lemma begins_trans: "begins P s \<Longrightarrow> begins (Contracts s) s' \<Longrightarrow> begins P s'"
proof -
  assume a: "begins P s" and b: "begins (Contracts s) s'"
  have "take (length (Contracts s)) (Contracts s') @ drop (length (Contracts s)) (Contracts s')
          = Contracts s'"
    by (rule append_take_drop_id)
  with b have "Contracts s' = Contracts s @ drop (length (Contracts s)) (Contracts s')"
    by (simp add: begins_def)
  with a show ?thesis by (rule begins_append)
qed

lemma begins_AddContract [simp]: "begins P s \<Longrightarrow> begins P (AddContract k s)"
  by (rule begins_append [of P s _ "[k]"]) (simp_all add: AddContract_def)

lemma begins_Tables [simp]: "begins P (s\<lparr>Tables := x\<rparr>) = begins P s"
  by (simp add: begins_def)

lemma begins_lastConstType [simp]: "begins P (s\<lparr>lastConstType := x\<rparr>) = begins P s"
  by (simp add: begins_def)

lemma begins_Allocated [simp]: "begins P (s\<lparr>Allocated := x\<rparr>) = begins P s"
  by (simp add: begins_def)

lemma begins_VirtualVars [simp]: "begins P (s\<lparr>VirtualVars := x\<rparr>) = begins P s"
  by (simp add: begins_def)

lemma begins_sPush [simp]: "begins P (sPush s) = begins P s"
  by (simp add: sPush_def)

lemma begins_sPop [simp]: "begins P (snd (sPop rs)) = begins P (snd rs)"
  by (simp add: sPop_def split: sum.splits)

lemma begins_NewVirtualVar: "NewVirtualVar s = (y, s1) \<Longrightarrow> begins P s1 = begins P s"
  by (auto simp: NewVirtualVar_def)

lemma begins_NewVirtualVar_snd [simp]: "begins P (snd (NewVirtualVar s)) = begins P s"
  by (simp add: NewVirtualVar_def)

lemma begins_sAddVariable [simp]: "begins P (snd (sAddVariable d s)) = begins P s"
  by (auto simp: sAddVariable_def split: sum.splits)

lemma begins_sAddVariable': "sAddVariable d s = (r, s1) \<Longrightarrow> begins P s1 = begins P s"
  using begins_sAddVariable [of P d s] by simp

lemma begins_sAddDataType: "sAddDataType d s = (r, s1) \<Longrightarrow> begins P s1 = begins P s"
  by (auto simp: sAddDataType_def split: sum.splits)

lemma begins_ExprParser:
  assumes "ExprParser c e s = (r, s1)" and "keepsContracts c" and "begins P s"
  shows "begins P s1"
proof -
  from assms(2) have "begins (Contracts s) (snd (ExprParser c e s))"
    by (simp add: keepsContracts_def)
  with assms(1) have "begins (Contracts s) s1" by simp
  with assms(3) show ?thesis by (rule begins_trans)
qed

lemma begins_TypeParser:
  assumes "TypeParser c e s = (r, s1)" and "keepsContracts c" and "begins P s"
  shows "begins P s1"
proof -
  from assms(2) have "begins (Contracts s) (snd (TypeParser c e s))"
    by (simp add: keepsContracts_def)
  with assms(1) have "begins (Contracts s) s1" by simp
  with assms(3) show ?thesis by (rule begins_trans)
qed

lemmas begins_dests = begins_ExprParser begins_TypeParser
lemmas begins_eqs = begins_sAddVariable' begins_sAddDataType begins_NewVirtualVar

lemma begins_sAddDataType_snd [simp]: "begins P (snd (sAddDataType d s)) = begins P s"
  by (auto simp: sAddDataType_def split: sum.splits)

lemma begins_ExprParser_snd:
  "keepsContracts c \<Longrightarrow> begins P s \<Longrightarrow> begins P (snd (ExprParser c e s))"
  using begins_ExprParser [of c e s "fst (ExprParser c e s)" "snd (ExprParser c e s)" P] by simp

lemma begins_TypeParser_snd:
  "keepsContracts c \<Longrightarrow> begins P s \<Longrightarrow> begins P (snd (TypeParser c e s))"
  using begins_TypeParser [of c e s "fst (TypeParser c e s)" "snd (TypeParser c e s)" P] by simp

lemmas begins_snd = begins_ExprParser_snd begins_TypeParser_snd split_beta Let_def

lemma begins_parseExprStmt:
  "keepsContracts c \<Longrightarrow> begins P s \<Longrightarrow> begins P (snd (parseExprStmt c x s))"
  by (simp add: parseExprStmt_def begins_snd split: sum.splits)

lemma begins_parseSendStmt:
  "keepsContracts c \<Longrightarrow> begins P s \<Longrightarrow> begins P (snd (parseSendStmt c ch v s))"
  by (simp add: parseSendStmt_def begins_snd split: sum.splits)

lemma begins_parseIncDecStmt:
  "keepsContracts c \<Longrightarrow> begins P s \<Longrightarrow> begins P (snd (parseIncDecStmt c x s))"
  by (simp add: parseIncDecStmt_def begins_snd split: sum.splits)

lemma begins_parseGoStmt:
  "keepsContracts c \<Longrightarrow> begins P s \<Longrightarrow> begins P (snd (parseGoStmt c x s))"
  by (simp add: parseGoStmt_def begins_snd split: sum.splits)

lemma begins_parseDeferStmt:
  "keepsContracts c \<Longrightarrow> begins P s \<Longrightarrow> begins P (snd (parseDeferStmt c x s))"
  by (simp add: parseDeferStmt_def begins_snd split: sum.splits)

lemma begins_parseReturnStmt:
  "keepsContracts c \<Longrightarrow> begins P s \<Longrightarrow> begins P (snd (parseReturnStmt c rs s))"
  by (induction rs arbitrary: s) (simp_all add: begins_snd split: sum.splits)

lemma begins_valueSpecTuple:
  "begins P s \<Longrightarrow> begins P (snd (valueSpecTuple c typeDef a names i acc s))"
  by (induction names arbitrary: i acc s typeDef)
     (simp_all add: begins_snd split: option.splits sum.splits)

lemma begins_case_Builtin [simp]:
  "begins P (case d of Builtin n u \<Rightarrow> s\<lparr>lastConstType := x\<rparr> | _ \<Rightarrow> s) = begins P s"
  by (cases d) simp_all

lemma begins_valueSpecValues:
  assumes kc: "keepsContracts c"
  shows "begins P s \<Longrightarrow> begins P (snd (valueSpecValues c names typeDef vals i acc s))"
proof (induction vals arbitrary: i acc s typeDef)
  case Nil
  then show ?case by simp
next
  case (Cons v vs)
  show ?case
    using Cons.prems kc
    by (simp add: begins_snd Cons.IH split: sum.splits option.splits)
qed


lemma begins_valueSpecTrailing:
  "begins P s \<Longrightarrow> begins P (snd (valueSpecTrailing c typeDef names i acc s))"
  by (induction names arbitrary: typeDef i acc s) (simp_all add: begins_snd split: option.splits)

lemma begins_valueSpecElementwise:
  "keepsContracts c \<Longrightarrow> begins P s \<Longrightarrow> begins P (snd (valueSpecElementwise c names typeDef vals s))"
  by (simp add: valueSpecElementwise_def begins_valueSpecTrailing begins_valueSpecValues begins_snd
        split: sum.splits)

lemma begins_ParseValueSpec:
  "keepsContracts c \<Longrightarrow> begins P s \<Longrightarrow> begins P (snd (ParseValueSpec c names ty vals s))"
  by (simp add: ParseValueSpec_def begins_valueSpecElementwise begins_valueSpecTuple begins_snd
        split: sum.splits if_splits)

lemma begins_declAddVariables: "begins P (snd (declAddVariables ds s)) = begins P s"
  by (induction ds arbitrary: s) (simp_all add: begins_snd split: sum.splits)

lemma begins_declTypeSpec:
  "keepsContracts c \<Longrightarrow> begins P s \<Longrightarrow> begins P (snd (declTypeSpec c name ty s))"
  by (simp add: declTypeSpec_def begins_snd split: sum.splits)

lemma begins_declSpecs:
  assumes kc: "keepsContracts c"
  shows "begins P s \<Longrightarrow> begins P (snd (declSpecs c specs s))"
proof (induction specs arbitrary: s)
  case Nil
  then show ?case by simp
next
  case (Cons sp rest)
  show ?case
    using Cons.prems kc
    by (cases sp)
       (simp_all add: begins_snd Cons.IH begins_ParseValueSpec begins_declAddVariables
          begins_declTypeSpec split: sum.splits bool.splits)
qed

lemma begins_parseDeclStmt:
  "keepsContracts c \<Longrightarrow> begins P s \<Longrightarrow> begins P (snd (parseDeclStmt c d s))"
  by (cases d) (simp_all add: begins_declSpecs)

lemma begins_parseSingleRhs:
  "keepsContracts c \<Longrightarrow> begins P s \<Longrightarrow> begins P (snd (parseSingleRhs c rhs i s))"
  by (simp add: parseSingleRhs_def begins_snd split: sum.splits)

lemma begins_runRhsIndexer:
  "keepsContracts c \<Longrightarrow> begins P s \<Longrightarrow> begins P (snd (runRhsIndexer c rhs ix i s))"
  by (cases ix) (simp_all add: begins_parseSingleRhs begins_snd split: sum.splits)

lemma begins_assignRhsShape:
  "keepsContracts c \<Longrightarrow> begins P s \<Longrightarrow> begins P (snd (assignRhsShape c lhs rhs s))"
  by (simp add: assignRhsShape_def begins_snd split: sum.splits expr.splits)

lemma begins_assignToExpr:
  "keepsContracts c \<Longrightarrow> begins P s \<Longrightarrow> begins P (snd (assignToExpr c l tv s))"
  by (simp add: assignToExpr_def begins_snd split: sum.splits)

lemma begins_assignLhs:
  "keepsContracts c \<Longrightarrow> begins P s \<Longrightarrow> begins P (snd (assignLhs c tok ix rhs l i s))"
  by (simp add: assignLhs_def begins_assignToExpr begins_runRhsIndexer begins_snd
        split: sum.splits expr.splits)

lemma begins_assignLoop:
  assumes kc: "keepsContracts c"
  shows "begins P s \<Longrightarrow> begins P (snd (assignLoop c tok ix rhs lhs i s))"
proof (induction lhs arbitrary: i s)
  case Nil
  then show ?case by simp
next
  case (Cons l ls)
  show ?case
    using Cons.prems kc
    by (simp add: Cons.IH begins_assignLhs begins_snd split: sum.splits bool.splits)
qed

lemma begins_parseAssignStmt:
  "keepsContracts c \<Longrightarrow> begins P s \<Longrightarrow> begins P (snd (parseAssignStmt c lhs tok rhs s))"
  by (simp add: parseAssignStmt_def begins_assignLoop begins_assignRhsShape begins_snd
        split: sum.splits)


lemma begins_switchTag:
  "keepsContracts c \<Longrightarrow> begins P s \<Longrightarrow> begins P (snd (switchTag c tag s))"
  by (simp add: switchTag_def begins_snd split: sum.splits)

lemma begins_switchCaseExprs:
  assumes kc: "keepsContracts c"
  shows "begins P s \<Longrightarrow> begins P (snd (switchCaseExprs c tv es s))"
proof (induction es arbitrary: s)
  case Nil
  then show ?case by simp
next
  case (Cons e es)
  show ?case
    using Cons.prems kc by (simp add: Cons.IH begins_snd split: sum.splits)
qed

lemma begins_typeSwitchAssert:
  "keepsContracts c \<Longrightarrow> begins P s \<Longrightarrow> begins P (snd (typeSwitchAssert c e s))"
  by (simp add: typeSwitchAssert_def begins_snd split: sum.splits expr.splits error.splits)

lemma begins_typeSwitchAssign:
  "keepsContracts c \<Longrightarrow> begins P s \<Longrightarrow> begins P (snd (typeSwitchAssign c lhs rhs s))"
  by (simp add: typeSwitchAssign_def begins_typeSwitchAssert begins_snd
        split: sum.splits option.splits expr.splits)

lemma begins_typeSwitchCaseTypes:
  assumes kc: "keepsContracts c"
  shows "begins P s \<Longrightarrow> begins P (snd (typeSwitchCaseTypes c tv es s))"
proof (induction es arbitrary: s)
  case Nil
  then show ?case by simp
next
  case (Cons e es)
  show ?case
    using Cons.prems kc by (simp add: Cons.IH begins_snd split: sum.splits)
qed

lemma begins_typeSwitchBind: "begins P s \<Longrightarrow> begins P (typeSwitchBind c rid t p s)"
  by (simp add: typeSwitchBind_def Let_def split: option.splits dataType.splits)

lemma begins_typeSwitchClauseHead:
  "keepsContracts c \<Longrightarrow> begins P s \<Longrightarrow> begins P (snd (typeSwitchClauseHead c rid tv l p s))"
  by (simp add: typeSwitchClauseHead_def begins_typeSwitchCaseTypes begins_typeSwitchBind begins_snd
        split: sum.splits)

lemma begins_selectRecvBind: "begins P s \<Longrightarrow> begins P (selectRecvBind c name p d x s)"
  by (simp add: selectRecvBind_def Let_def)

lemma begins_selectRecvAssign:
  "keepsContracts c \<Longrightarrow> begins P s \<Longrightarrow> begins P (snd (selectRecvAssign c l x s))"
  by (simp add: selectRecvAssign_def begins_snd split: sum.splits)

lemma begins_selectRecvLhs:
  "keepsContracts c \<Longrightarrow> begins P s \<Longrightarrow> begins P (snd (selectRecvLhs c lhs tok a v s))"
  by (simp add: selectRecvLhs_def begins_selectRecvAssign begins_selectRecvBind begins_snd
        split: sum.splits expr.splits)

lemma begins_selectRecv:
  "keepsContracts c \<Longrightarrow> begins P s \<Longrightarrow> begins P (snd (selectRecv c lhs tok rhs s))"
  by (simp add: selectRecv_def begins_selectRecvLhs begins_snd
        split: sum.splits expr.splits dataType.splits)

lemma begins_selectComm:
  "keepsContracts c \<Longrightarrow> begins P s \<Longrightarrow> begins P (snd (selectComm c comm s))"
  by (simp add: selectComm_def begins_selectRecv begins_parseSendStmt begins_snd
        split: sum.splits stmt.splits)

lemma begins_rangeResolve:
  "begins P s \<Longrightarrow> begins P (snd (rangeResolve c a s))"
  by (simp add: rangeResolve_def begins_snd split: sum.splits)

lemma begins_rangeKey:
  "keepsContracts c \<Longrightarrow> begins P s \<Longrightarrow> begins P (snd (rangeKey c tok k xtv kt s))"
  by (simp add: rangeKey_def begins_snd split: sum.splits expr.splits)

lemma begins_rangeValue:
  "keepsContracts c \<Longrightarrow> begins P s \<Longrightarrow> begins P (snd (rangeValue c tok k xtv kt s))"
  by (simp add: rangeValue_def begins_snd split: sum.splits expr.splits)

lemma begins_rangeHead:
  "keepsContracts c \<Longrightarrow> begins P s \<Longrightarrow> begins P (snd (rangeHead c a k v tok s))"
  by (simp add: rangeHead_def begins_rangeResolve begins_rangeKey begins_rangeValue begins_snd
        split: sum.splits bool.splits)

lemma begins_ignoreErr [simp]: "begins P (snd (ignoreErr rs)) = begins P (snd rs)"
  by (cases rs rule: ignoreErr.cases) simp_all

lemma begins_clauseErr [simp]: "begins P (snd (clauseErr rs)) = begins P (snd rs)"
  by (cases rs rule: clauseErr.cases) simp_all


lemma begins_size:
  assumes kc: "keepsContracts c"
  shows "(\<forall>st s. size st < n \<longrightarrow> begins P s \<longrightarrow> begins P (snd (Parse c st s))) \<and>
     (\<forall>sts s. size_list size sts < n \<longrightarrow> begins P s \<longrightarrow> begins P (snd (parseStmts c sts s))) \<and>
     (\<forall>tv sts s. size_list size sts < n \<longrightarrow> begins P s \<longrightarrow>
         begins P (snd (switchClauses c tv sts s))) \<and>
     (\<forall>rid tv sts s. size_list size sts < n \<longrightarrow> begins P s \<longrightarrow>
         begins P (snd (typeSwitchClauses c rid tv sts s))) \<and>
     (\<forall>sts s. size_list size sts < n \<longrightarrow> begins P s \<longrightarrow> begins P (snd (selectClauses c sts s)))"
proof (induction n)
  case 0
  show ?case by simp
next
  case (Suc n)
  then have P: "\<And>st s. size st < n \<Longrightarrow> begins P s \<Longrightarrow> begins P (snd (Parse c st s))"
    and L: "\<And>sts s. size_list size sts < n \<Longrightarrow> begins P s \<Longrightarrow> begins P (snd (parseStmts c sts s))"
    and S: "\<And>tv sts s. size_list size sts < n \<Longrightarrow> begins P s \<Longrightarrow>
              begins P (snd (switchClauses c tv sts s))"
    and T: "\<And>rid tv sts s. size_list size sts < n \<Longrightarrow> begins P s \<Longrightarrow>
              begins P (snd (typeSwitchClauses c rid tv sts s))"
    and C: "\<And>sts s. size_list size sts < n \<Longrightarrow> begins P s \<Longrightarrow>
              begins P (snd (selectClauses c sts s))"
    by simp_all
  note hd = begins_parseDeclStmt begins_parseExprStmt begins_parseSendStmt begins_parseIncDecStmt
    begins_parseAssignStmt begins_parseGoStmt begins_parseReturnStmt begins_parseDeferStmt
    begins_switchTag begins_switchCaseExprs begins_typeSwitchAssign begins_typeSwitchAssert
    begins_typeSwitchClauseHead begins_selectComm begins_rangeHead
  have 1: "begins P (snd (Parse c st s))" if "size st < Suc n" and "begins P s" for st s
    using that kc
    by (cases st)
       (simp_all add: P L S T C hd begins_snd parseBranchStmt_def
          split: sum.splits bool.splits option.splits stmt.splits)
  have 2: "begins P (snd (parseStmts c sts s))" if "size_list size sts < Suc n" and "begins P s"
    for sts s
    using that kc by (cases sts) (simp_all add: P L begins_snd split: sum.splits)
  have 3: "begins P (snd (switchClauses c tv sts s))" if "size_list size sts < Suc n" and "begins P s"
    for tv sts s
  proof (cases sts)
    case Nil
    then show ?thesis using that by simp
  next
    case (Cons st rest)
    show ?thesis
      using that kc Cons
      by (cases st) (simp_all add: L S hd begins_snd split: sum.splits bool.splits)
  qed
  have 4: "begins P (snd (typeSwitchClauses c rid tv sts s))"
    if "size_list size sts < Suc n" and "begins P s" for rid tv sts s
  proof (cases sts)
    case Nil
    then show ?thesis using that by simp
  next
    case (Cons st rest)
    show ?thesis
      using that kc Cons
      by (cases st) (simp_all add: L T hd begins_snd split: sum.splits bool.splits)
  qed
  have 5: "begins P (snd (selectClauses c sts s))" if "size_list size sts < Suc n" and "begins P s"
    for sts s
  proof (cases sts)
    case Nil
    then show ?thesis using that by simp
  next
    case (Cons st rest)
    show ?thesis
      using that kc Cons
      by (cases st) (simp_all add: L C hd begins_snd split: sum.splits bool.splits)
  qed
  show ?case using 1 2 3 4 5 by blast
qed

lemma begins_Parse:
  "keepsContracts c \<Longrightarrow> begins P s \<Longrightarrow> begins P (snd (Parse c st s))"
  using begins_size [of c "Suc (size st)" P] by simp

lemma begins_parseStmts:
  "keepsContracts c \<Longrightarrow> begins P s \<Longrightarrow> begins P (snd (parseStmts c sts s))"
  using begins_size [of c "Suc (size_list size sts)" P] by simp

subsection \<open>Range statements\<close>

lemma keepsContracts_exConfigT: "keepsContracts exConfigT"
  by (simp add: keepsContracts_def exConfigT_def exConfig_def begins_def)

lemma rangeResolve_snd:
  "tv0 a = Inr xtv \<Longrightarrow> snd (rangeResolve c a s) = AddContract (IsRangeable xtv) s"
  by (simp add: rangeResolve_def Let_def split: sum.splits prod.splits)

lemma begins_emitted: "begins (Contracts s @ [k]) (AddContract k s)"
  by (simp add: begins_def AddContract_def)

lemma begins_RangeStmt:
  assumes kc: "keepsContracts c"
    and x: "ExprParser c x s0 = (Inr a, s1)" and tv: "tv0 a = Inr xtv"
  shows "begins (Contracts s1 @ [IsRangeable xtv])
           (snd (Parse c (RangeStmt keyExpr valueExpr tok x body) s0))"
proof -
  let ?P = "Contracts s1 @ [IsRangeable xtv]"
  let ?s2 = "AddContract (IsRangeable xtv) (sPush s1)"
  have b2: "begins ?P ?s2"
    using begins_emitted [of "sPush s1" "IsRangeable xtv"] by (simp add: sPush_def)
  have rr: "snd (rangeResolve c a (sPush s1)) = ?s2"
    using tv by (rule rangeResolve_snd)
  have h: "begins ?P (snd (rangeHead c a keyExpr valueExpr tok (sPush s1)))"
    using b2 kc
    by (simp add: rangeHead_def rr begins_rangeKey begins_rangeValue split_beta
          split: sum.splits bool.splits)
  show ?thesis
    using h kc by (simp add: x begins_parseStmts split_beta split: sum.splits bool.splits)
qed

text \<open>
  C6: every range statement whose iteration expression is parsed to an attribute with a
  type variable \<open>xtv\<close> emits \<^verbatim>\<open>IsRangeable\<close> on \<open>xtv\<close>: the contract follows the
  contracts of the iteration expression in the table, whatever key, value, token and body
  are and whatever the outcome is, the collaborators only appending to the table. The type
  \<open>d\<close> of the iteration expression is resolved by stripping one level of pointer, and no
  more, and then asking the symbols accessor for the first non-identifier type of the
  result; its error is returned. When the resolved type is the builtin \<open>string\<close> or an
  identifier \<open>string\<close>, the key type is \<open>int\<close> and the value type is \<open>rune\<close>: with \<open>:=\<close>
  and identifiers \<open>k\<close>, \<open>v\<close> the symbols are bound with these types in the scope of the
  statement, and the two \<^verbatim>\<open>PropagatesTo\<close> contracts carry them as expected types.
\<close>

theorem C6_range_string:
  assumes "keepsContracts c"
    and "ExprParser c x s0 = (Inr a, s1)" and "tv0 a = Inr xtv"
    and "s2 = AddContract (IsRangeable xtv) (sPush s1)"
  shows
    "begins (Contracts s1 @ [IsRangeable xtv])
       (snd (Parse c (RangeStmt keyExpr valueExpr tok x body) s0))
     \<and> snd (rangeResolve c a (sPush s1)) = s2
     \<and> (dt0 a = Inr d \<and> target = (case d of Pointer p \<Rightarrow> p | _ \<Rightarrow> d) \<longrightarrow>
         rangeResolve c a (sPush s1) =
           (case FindFirstNonidDataType c target s2 of
              Inl e \<Rightarrow> (Inl e, s2)
            | Inr t \<Rightarrow>
                (case rangeKeyValue t of
                   Inl e \<Rightarrow> (Inl e, s2)
                 | Inr (kt, vt) \<Rightarrow> (Inr (xtv, kt, vt), s2)))
         \<and> (FindFirstNonidDataType c target s2 = Inr t
              \<and> (t = Builtin ''string'' u \<or> t = Identifier ''string'' pkg) \<longrightarrow>
            (let symK = \<lparr>Name = k, Package = PackageName c, Def = Some (Builtin ''int'' False),
                         Posn = SymbolPos c kp\<rparr>;
                 symV = \<lparr>Name = v, Package = PackageName c, Def = Some (Builtin ''rune'' False),
                         Posn = SymbolPos c vp\<rparr>;
                 ks = [IsRangeable xtv,
                       PropagatesTo (MakeRangeKey xtv) (VariableFromSymbolDef symK)
                         (Some (Builtin ''int'' False)),
                       PropagatesTo (MakeRangeValue xtv) (VariableFromSymbolDef symV)
                         (Some (Builtin ''rune'' False))]
             in rangeResolve c a (sPush s1) =
                  (Inr (xtv, Some (Builtin ''int'' False), Some (Builtin ''rune'' False)), s2)
                \<and> (k \<noteq> ''_'' \<and> v \<noteq> ''_'' \<and> k \<noteq> v \<longrightarrow>
                     rangeHead c a (Ident k kp) (Ident v vp) DEFINE (sPush s1) =
                       (Inr True,
                        s1\<lparr>Tables := Tables s1 @ [NewTable\<lparr>Variables := [(k, symK), (v, symV)]\<rparr>],
                           Contracts := Contracts s1 @ ks\<rparr>)
                     \<and> Parse c (RangeStmt (Ident k kp) (Ident v vp) DEFINE x []) s0 =
                       (Inr (), s1\<lparr>Contracts := Contracts s1 @ ks\<rparr>)))))"
proof -
  have e: "begins (Contracts s1 @ [IsRangeable xtv])
       (snd (Parse c (RangeStmt keyExpr valueExpr tok x body) s0))"
    using assms(1-3) by (rule begins_RangeStmt)
  have rs: "snd (rangeResolve c a (sPush s1)) = s2"
    using assms(3,4) by (simp add: rangeResolve_snd)
  have rr: "rangeResolve c a (sPush s1) =
         (case FindFirstNonidDataType c target s2 of
            Inl e \<Rightarrow> (Inl e, s2)
          | Inr t \<Rightarrow>
              (case rangeKeyValue t of
                 Inl e \<Rightarrow> (Inl e, s2)
               | Inr (kt, vt) \<Rightarrow> (Inr (xtv, kt, vt), s2)))"
    if dt: "dt0 a = Inr d" and tg: "target = (case d of Pointer p \<Rightarrow> p | _ \<Rightarrow> d)"
  proof -
    have sp: "stripPointer d = target"
      using tg by (cases d) simp_all
    show ?thesis
      using assms(3) dt unfolding assms(4) by (simp add: rangeResolve_def sp Let_def)
  qed
  have str: "(let symK = \<lparr>Name = k, Package = PackageName c, Def = Some (Builtin ''int'' False),
                     Posn = SymbolPos c kp\<rparr>;
             symV = \<lparr>Name = v, Package = PackageName c, Def = Some (Builtin ''rune'' False),
                     Posn = SymbolPos c vp\<rparr>;
             ks = [IsRangeable xtv,
                   PropagatesTo (MakeRangeKey xtv) (VariableFromSymbolDef symK)
                     (Some (Builtin ''int'' False)),
                   PropagatesTo (MakeRangeValue xtv) (VariableFromSymbolDef symV)
                     (Some (Builtin ''rune'' False))]
         in rangeResolve c a (sPush s1) =
              (Inr (xtv, Some (Builtin ''int'' False), Some (Builtin ''rune'' False)), s2)
            \<and> (k \<noteq> ''_'' \<and> v \<noteq> ''_'' \<and> k \<noteq> v \<longrightarrow>
                 rangeHead c a (Ident k kp) (Ident v vp) DEFINE (sPush s1) =
                   (Inr True,
                    s1\<lparr>Tables := Tables s1 @ [NewTable\<lparr>Variables := [(k, symK), (v, symV)]\<rparr>],
                       Contracts := Contracts s1 @ ks\<rparr>)
                 \<and> Parse c (RangeStmt (Ident k kp) (Ident v vp) DEFINE x []) s0 =
                   (Inr (), s1\<lparr>Contracts := Contracts s1 @ ks\<rparr>)))"
    if dt: "dt0 a = Inr d" and tg: "target = (case d of Pointer p \<Rightarrow> p | _ \<Rightarrow> d)"
      and f: "FindFirstNonidDataType c target s2 = Inr t"
      and t: "t = Builtin ''string'' u \<or> t = Identifier ''string'' pkg"
  proof -
    have r: "rangeResolve c a (sPush s1) =
              (Inr (xtv, Some (Builtin ''int'' False), Some (Builtin ''rune'' False)), s2)"
      using t by (auto simp: rr [OF dt tg] f)
    have h: "rangeHead c a (Ident k kp) (Ident v vp) DEFINE (sPush s1) =
           (Inr True,
            s1\<lparr>Tables := Tables s1 @ [NewTable\<lparr>Variables :=
                  [(k, \<lparr>Name = k, Package = PackageName c, Def = Some (Builtin ''int'' False),
                     Posn = SymbolPos c kp\<rparr>),
                   (v, \<lparr>Name = v, Package = PackageName c, Def = Some (Builtin ''rune'' False),
                     Posn = SymbolPos c vp\<rparr>)]\<rparr>],
               Contracts := Contracts s1 @ [IsRangeable xtv,
                   PropagatesTo (MakeRangeKey xtv) (VariableFromSymbolDef
                      \<lparr>Name = k, Package = PackageName c, Def = Some (Builtin ''int'' False),
                     Posn = SymbolPos c kp\<rparr>)
                     (Some (Builtin ''int'' False)),
                   PropagatesTo (MakeRangeValue xtv) (VariableFromSymbolDef
                      \<lparr>Name = v, Package = PackageName c, Def = Some (Builtin ''rune'' False),
                     Posn = SymbolPos c vp\<rparr>)
                     (Some (Builtin ''rune'' False))]\<rparr>)"
      if "k \<noteq> ''_''" "v \<noteq> ''_''" "k \<noteq> v"
      using that r assms(4)
      by (simp add: rangeHead_def rangeKey_def rangeValue_def Let_def sAddVariable_def AddVariable_def
          Table_AddVariable_def AddContract_def sPush_def Push_def NewTable_def)
    have p: "Parse c (RangeStmt (Ident k kp) (Ident v vp) DEFINE x []) s0 =
           (Inr (), s1\<lparr>Contracts := Contracts s1 @ [IsRangeable xtv,
                   PropagatesTo (MakeRangeKey xtv) (VariableFromSymbolDef
                      \<lparr>Name = k, Package = PackageName c, Def = Some (Builtin ''int'' False),
                     Posn = SymbolPos c kp\<rparr>)
                     (Some (Builtin ''int'' False)),
                   PropagatesTo (MakeRangeValue xtv) (VariableFromSymbolDef
                      \<lparr>Name = v, Package = PackageName c, Def = Some (Builtin ''rune'' False),
                     Posn = SymbolPos c vp\<rparr>)
                     (Some (Builtin ''rune'' False))]\<rparr>)"
      if "k \<noteq> ''_''" "v \<noteq> ''_''" "k \<noteq> v"
      using assms(2) h [OF that] by (simp add: sPop_pushed)
    show ?thesis
      using r h p by (simp add: Let_def)
  qed
  show ?thesis
    using e rs rr str by blast
qed

theorem C6_witness:
  "keepsContracts exConfigT
   \<and> ExprParser exConfigT (Ident ''ps'' 5) exStateT
     = (Inr \<lparr>DataTypeList = [Pointer (Identifier ''MyStr'' ''p'')],
              TypeVarList = [Variable [] ''ps'' ''f.go:6'']\<rparr>, exStateT)
   \<and> FindFirstNonidDataType exConfigT (Identifier ''MyStr'' ''p'')
        (AddContract (IsRangeable (Variable [] ''ps'' ''f.go:6'')) (sPush exStateT))
     = Inr (Builtin ''string'' False)
   \<and> begins [IsRangeable (Variable [] ''ps'' ''f.go:6'')]
        (snd (Parse exConfigT
               (RangeStmt (Ident ''i'' 7) NilExpr ASSIGN (Ident ''ps'' 5) [IncDecStmt (Ident ''i'' 8)])
               exStateT))
   \<and> Parse exConfigT (RangeStmt (Ident ''i'' 7) (Ident ''r'' 9) DEFINE (Ident ''ps'' 5) []) exStateT
     = (Inr (),
        exStateT\<lparr>Contracts :=
          [IsRangeable (Variable [] ''ps'' ''f.go:6''),
           PropagatesTo (RangeKey (Variable [] ''ps'' ''f.go:6'')) (Variable ''p'' ''i'' ''f.go:7'')
             (Some (Builtin ''int'' False)),
           PropagatesTo (RangeValue (Variable [] ''ps'' ''f.go:6'')) (Variable ''p'' ''r'' ''f.go:9'')
             (Some (Builtin ''rune'' False))]\<rparr>)"
proof -
  let ?a = "\<lparr>DataTypeList = [Pointer (Identifier ''MyStr'' ''p'')],
              TypeVarList = [Variable [] ''ps'' ''f.go:6'']\<rparr>"
  let ?xtv = "Variable [] ''ps'' ''f.go:6''"
  have e: "ExprParser exConfigT (Ident ''ps'' 5) exStateT = (Inr ?a, exStateT)"
    by (simp add: exConfigT_def exConfig_def)
  have tv: "tv0 ?a = Inr ?xtv" and dt: "dt0 ?a = Inr (Pointer (Identifier ''MyStr'' ''p''))"
    by (simp_all add: tv0_def dt0_def idx_def)
  have f: "FindFirstNonidDataType exConfigT (Identifier ''MyStr'' ''p'')
        (AddContract (IsRangeable ?xtv) (sPush exStateT)) = Inr (Builtin ''string'' False)"
    by (simp add: exConfigT_def exConfig_def exStateT_def AddContract_def sPush_def Push_def
          Lookup_def Table_Lookup_def NewTable_def)
  note th = C6_range_string [OF keepsContracts_exConfigT e tv refl,
      where d = "Pointer (Identifier ''MyStr'' ''p'')" and target = "Identifier ''MyStr'' ''p''"
        and t = "Builtin ''string'' False" and u = False and pkg = "[]" and k = "''i''" and v = "''r''"
        and kp = 7 and vp = 9]
  have 1: "begins [IsRangeable ?xtv]
        (snd (Parse exConfigT
               (RangeStmt (Ident ''i'' 7) NilExpr ASSIGN (Ident ''ps'' 5) [IncDecStmt (Ident ''i'' 8)])
               exStateT))"
    using th [of "Ident ''i'' 7" NilExpr ASSIGN "[IncDecStmt (Ident ''i'' 8)]", THEN conjunct1]
    by (simp add: exStateT_def)
  have 2: "Parse exConfigT (RangeStmt (Ident ''i'' 7) (Ident ''r'' 9) DEFINE (Ident ''ps'' 5) []) exStateT
     = (Inr (),
        exStateT\<lparr>Contracts :=
          [IsRangeable (Variable [] ''ps'' ''f.go:6''),
           PropagatesTo (RangeKey (Variable [] ''ps'' ''f.go:6'')) (Variable ''p'' ''i'' ''f.go:7'')
             (Some (Builtin ''int'' False)),
           PropagatesTo (RangeValue (Variable [] ''ps'' ''f.go:6'')) (Variable ''p'' ''r'' ''f.go:9'')
             (Some (Builtin ''rune'' False))]\<rparr>)"
    using th [of NilExpr NilExpr DEFINE "[]", THEN conjunct2, THEN conjunct2] f dt
    by (simp del: Parse.simps
          add: Let_def MakeRangeKey_def MakeRangeValue_def
            VariableFromSymbolDef_def SymbolPos_def showPos.simps)
       (simp add: exConfigT_def exConfig_def exStateT_def)
  show ?thesis
    using keepsContracts_exConfigT e f 1 2 by simp
qed

text \<open>
  C10: when the resolved type of the iteration expression is a builtin or an identifier
  with a name other than \<open>string\<close>, the key type is still \<open>int\<close>, the value type is still
  \<open>rune\<close>, and the resolution returns no error: the range statement without key, value
  and body is parsed with success.
\<close>

theorem C10_range_not_string:
  assumes "ExprParser c x s0 = (Inr a, s1)" and "tv0 a = Inr xtv" and "dt0 a = Inr d"
    and "FindFirstNonidDataType c (stripPointer d) (AddContract (IsRangeable xtv) (sPush s1)) = Inr t"
    and "t = Builtin n u \<or> t = Identifier n pkg" and "n \<noteq> ''string''"
  shows "rangeResolve c a (sPush s1) =
           (Inr (xtv, Some (Builtin ''int'' False), Some (Builtin ''rune'' False)),
            AddContract (IsRangeable xtv) (sPush s1))
         \<and> Parse c (RangeStmt NilExpr NilExpr tok x []) s0 = (Inr (), AddContract (IsRangeable xtv) s1)"
proof -
  have r: "rangeResolve c a (sPush s1) =
           (Inr (xtv, Some (Builtin ''int'' False), Some (Builtin ''rune'' False)),
            AddContract (IsRangeable xtv) (sPush s1))"
    using assms by (auto simp: rangeResolve_def Let_def)
  have p: "AddContract (IsRangeable xtv) (sPush s1) = sPush (AddContract (IsRangeable xtv) s1)"
    by (simp add: AddContract_def sPush_def)
  show ?thesis
    using assms(1) r by (simp add: rangeHead_def p)
qed

theorem C10_witness:
  "rangeResolve exConfig
       \<lparr>DataTypeList = [Builtin ''int'' False], TypeVarList = [Variable [] ''n'' ''f.go:3'']\<rparr>
       (sPush exState) =
     (Inr (Variable [] ''n'' ''f.go:3'', Some (Builtin ''int'' False), Some (Builtin ''rune'' False)),
      AddContract (IsRangeable (Variable [] ''n'' ''f.go:3'')) (sPush exState))
   \<and> Parse exConfig (RangeStmt NilExpr NilExpr DEFINE (Ident ''n'' 5) []) exState
       = (Inr (), AddContract (IsRangeable (Variable [] ''n'' ''f.go:3'')) exState)"
  using C10_range_not_string [of exConfig "Ident ''n'' 5" exState
     "\<lparr>DataTypeList = [Builtin ''int'' False], TypeVarList = [Variable [] ''n'' ''f.go:3'']\<rparr>" exState
     "Variable [] ''n'' ''f.go:3''" "Builtin ''int'' False" "Builtin ''int'' False" "''int''" False
     "[]" DEFINE]
  by (simp add: tv0_def dt0_def idx_def exConfig_def)

subsection \<open>The state after \<^verbatim>\<open>AddVariable\<close>\<close>





subsection \<open>Value specs: names without a value\<close>





subsection \<open>Assignment: identifiers on the left-hand side\<close>




subsection \<open>Assignment: sides of unequal length\<close>

text \<open>
  C3, as stated, fails: for \<open>v, ok := <-ch\<close>, two left-hand sides and a single right-hand
  side that is a receive, \<^verbatim>\<open>parseAssignStmt\<close> does not return an error: it panics; so it
  does for \<open>a, b = x\<close>.
\<close>

theorem C3_counterexample:
  "length [Ident ''v'' 1, Ident ''ok'' 2] \<noteq> length [UnaryExpr ARROW (Ident ''ch'' 9)]
   \<and> parseAssignStmt exConfig [Ident ''v'' 1, Ident ''ok'' 2] DEFINE [UnaryExpr ARROW (Ident ''ch'' 9)]
        exState
     = (Inl (Panic ''Expecting *ast.CallExpr or *ast.IndexExpr''), exState)
   \<and> \<not> isErr (fst (parseAssignStmt exConfig [Ident ''v'' 1, Ident ''ok'' 2] DEFINE
                     [UnaryExpr ARROW (Ident ''ch'' 9)] exState))
   \<and> parseAssignStmt exConfig [Ident ''a'' 1, Ident ''b'' 2] ASSIGN [Ident ''x'' 3] exState
     = (Inl (Panic ''Expecting *ast.CallExpr or *ast.IndexExpr''), exState)"
  by (simp add: run_simps)

lemma assignRhsShape_single:
  assumes "length lhs \<noteq> length [r]"
  shows "assignRhsShape c lhs [r] s =
     (case r of
        CallExpr f args \<Rightarrow>
          (case ExprParser c r s of
             (Inl e, s1) \<Rightarrow> (Inl e, s1)
           | (Inr a, s1) \<Rightarrow>
               (if length lhs = length (DataTypeList a)
                   \<or> (isCgoCall r \<and> length lhs = length (DataTypeList a) + 1)
                then (Inr (CallIndexer a (isCgoCall r)), s1)
                else if isCgoCall r
                then (Inl (Err ''CGO: Number of expressions on the left-hand side differs from number of results of invocation on the right-hand side''), s1)
                else (Inl (Err ''Number of expressions on the left-hand side differs from number of results of invocation on the right-hand side''), s1)))
      | IndexExpr x k \<Rightarrow>
          (if length lhs \<noteq> 2
           then (Inl (Err ''Expecting two expression on the RHS when accessing an index expression''), s)
           else (Inr IndexExprIndexer, s))
      | TypeAssertExpr x t \<Rightarrow>
          (if length lhs \<noteq> 2
           then (Inl (Err ''Expecting two expression on the RHS when type-asserting an expression''), s)
           else
            (case ExprParser c x s of
               (Inl e, s1) \<Rightarrow> (Inl e, s1)
             | (Inr xDefAttr, s1) \<Rightarrow>
                 (if length (DataTypeList xDefAttr) \<noteq> 1
                  then (Inl (Err ''Index expression is not a single expression''), s1)
                  else
                   (case TypeParser c t s1 of
                      (Inl e, s2) \<Rightarrow> (Inl e, s2)
                    | (Inr typeDef, s2) \<Rightarrow> (Inr (TypeAssertIndexer xDefAttr typeDef), s2)))))
      | _ \<Rightarrow> (Inl (Panic ''Expecting *ast.CallExpr or *ast.IndexExpr''), s))"
  using assms
  by (cases r) (auto simp: assignRhsShape_def split: prod.splits sum.splits)

text \<open>
  C3, amended: for an assignment with \<open>|Lhs| \<noteq> |Rhs|\<close>, \<^verbatim>\<open>parseAssignStmt\<close> returns an
  error when \<open>|Rhs| \<noteq> 1\<close>, and panics when the single right-hand side is neither a call,
  nor an index expression, nor a type assertion. For a call with \<open>k\<close> results it returns
  an error unless \<open>k = |Lhs|\<close>, or the call is a C-interop call and \<open>k + 1 = |Lhs|\<close>, the
  extra slot then being \<open>Builtin{error}\<close> with type variable \<open>CGO\<close>; for an index
  expression it returns an error unless \<open>|Lhs| = 2\<close>, the second slot being
  \<open>Builtin{bool}\<close>; for a type assertion \<open>x.(T)\<close> it returns an error unless \<open>|Lhs| = 2\<close>,
  slot 0 being \<open>T\<close> with \<^verbatim>\<open>IsCompatibleWith(xTV, Constant(T), T)\<close> emitted and slot 1
  \<open>Builtin{bool}\<close>. So a parse that succeeds has one of these three shapes.
\<close>

theorem C3_unequal_sides:
  assumes ne: "length lhs \<noteq> length rhs"
  shows
    "(length rhs \<noteq> 1 \<longrightarrow> isErr (fst (parseAssignStmt c lhs tok rhs s)))
     \<and> (\<forall>r. rhs = [r] \<and> (\<forall>f args. r \<noteq> CallExpr f args) \<and> (\<forall>x k. r \<noteq> IndexExpr x k)
              \<and> (\<forall>x t. r \<noteq> TypeAssertExpr x t)
           \<longrightarrow> isPanic (fst (parseAssignStmt c lhs tok rhs s)))
     \<and> (\<forall>f args a s1. rhs = [CallExpr f args] \<and> ExprParser c (CallExpr f args) s = (Inr a, s1)
           \<longrightarrow> (if length lhs = length (DataTypeList a)
                    \<or> (isCgoCall (CallExpr f args) \<and> length lhs = length (DataTypeList a) + 1)
                then assignRhsShape c lhs rhs s =
                       (Inr (CallIndexer a (isCgoCall (CallExpr f args))), s1)
                else isErr (fst (parseAssignStmt c lhs tok rhs s))))
     \<and> (\<forall>x k. rhs = [IndexExpr x k]
           \<longrightarrow> (if length lhs = 2 then assignRhsShape c lhs rhs s = (Inr IndexExprIndexer, s)
                else isErr (fst (parseAssignStmt c lhs tok rhs s))))
     \<and> (\<forall>x t. rhs = [TypeAssertExpr x t]
           \<longrightarrow> (if length lhs = 2
                then (\<forall>xa s1 T s2. ExprParser c x s = (Inr xa, s1) \<and> length (DataTypeList xa) = 1
                         \<and> TypeParser c t s1 = (Inr T, s2)
                       \<longrightarrow> assignRhsShape c lhs rhs s = (Inr (TypeAssertIndexer xa T), s2))
                else isErr (fst (parseAssignStmt c lhs tok rhs s))))
     \<and> (\<forall>a s'. runRhsIndexer c rhs (CallIndexer a True) (length (DataTypeList a)) s' =
                 (Inr (Builtin ''error'' False, CGO), s'))
     \<and> (\<forall>s'. runRhsIndexer c rhs IndexExprIndexer 1 s' =
                 (Inr (Builtin ''bool'' False, MakeConstant (PackageName c) (Builtin ''bool'' False)), s'))
     \<and> (\<forall>xa xtv T s'. tv0 xa = Inr xtv \<longrightarrow>
           runRhsIndexer c rhs (TypeAssertIndexer xa T) 0 s' =
             (Inr (T, MakeConstant (PackageName c) T),
              AddContract (IsCompatibleWith xtv (MakeConstant (PackageName c) T) (Some T) False) s')
           \<and> runRhsIndexer c rhs (TypeAssertIndexer xa T) 1 s' =
             (Inr (Builtin ''bool'' False, MakeConstant (PackageName c) (Builtin ''bool'' False)), s'))
     \<and> (isOk (fst (parseAssignStmt c lhs tok rhs s)) \<longrightarrow>
           (\<exists>r. rhs = [r]
              \<and> ((\<exists>f args a s1. r = CallExpr f args \<and> ExprParser c r s = (Inr a, s1)
                     \<and> (length lhs = length (DataTypeList a)
                          \<or> (isCgoCall r \<and> length lhs = length (DataTypeList a) + 1)))
                 \<or> (\<exists>x k. r = IndexExpr x k \<and> length lhs = 2)
                 \<or> (\<exists>x t. r = TypeAssertExpr x t \<and> length lhs = 2))))"
proof -
  have 1: "length rhs \<noteq> 1 \<Longrightarrow> isErr (fst (parseAssignStmt c lhs tok rhs s))"
    using ne by (simp add: parseAssignStmt_def assignRhsShape_def)
  have 2: "isPanic (fst (parseAssignStmt c lhs tok rhs s))"
    if "rhs = [r]" "\<forall>f args. r \<noteq> CallExpr f args" "\<forall>x k. r \<noteq> IndexExpr x k"
       "\<forall>x t. r \<noteq> TypeAssertExpr x t" for r
    using that ne assignRhsShape_single [of lhs r c s]
    by (cases r) (simp_all add: parseAssignStmt_def)
  have 3: "(if length lhs = length (DataTypeList a)
                    \<or> (isCgoCall (CallExpr f args) \<and> length lhs = length (DataTypeList a) + 1)
                then assignRhsShape c lhs rhs s =
                       (Inr (CallIndexer a (isCgoCall (CallExpr f args))), s1)
                else isErr (fst (parseAssignStmt c lhs tok rhs s)))"
    if "rhs = [CallExpr f args]" "ExprParser c (CallExpr f args) s = (Inr a, s1)" for f args a s1
    using that ne assignRhsShape_single [of lhs "CallExpr f args" c s]
    by (auto simp: parseAssignStmt_def)
  have 4: "(if length lhs = 2 then assignRhsShape c lhs rhs s = (Inr IndexExprIndexer, s)
                else isErr (fst (parseAssignStmt c lhs tok rhs s)))"
    if "rhs = [IndexExpr x k]" for x k
    using that ne assignRhsShape_single [of lhs "IndexExpr x k" c s]
    by (auto simp: parseAssignStmt_def)
  have 5: "(if length lhs = 2
                then (\<forall>xa s1 T s2. ExprParser c x s = (Inr xa, s1) \<and> length (DataTypeList xa) = 1
                         \<and> TypeParser c t s1 = (Inr T, s2)
                       \<longrightarrow> assignRhsShape c lhs rhs s = (Inr (TypeAssertIndexer xa T), s2))
                else isErr (fst (parseAssignStmt c lhs tok rhs s)))"
    if "rhs = [TypeAssertExpr x t]" for x t
    using that ne assignRhsShape_single [of lhs "TypeAssertExpr x t" c s]
    by (auto simp: parseAssignStmt_def)
  have 6: "runRhsIndexer c rhs (CallIndexer a True) (length (DataTypeList a)) s' =
                 (Inr (Builtin ''error'' False, CGO), s')" for a s'
    by simp
  have 7: "runRhsIndexer c rhs IndexExprIndexer 1 s' =
                 (Inr (Builtin ''bool'' False, MakeConstant (PackageName c) (Builtin ''bool'' False)), s')"
    for s'
    by simp
  have 8: "runRhsIndexer c rhs (TypeAssertIndexer xa T) 0 s' =
             (Inr (T, MakeConstant (PackageName c) T),
              AddContract (IsCompatibleWith xtv (MakeConstant (PackageName c) T) (Some T) False) s')
           \<and> runRhsIndexer c rhs (TypeAssertIndexer xa T) 1 s' =
             (Inr (Builtin ''bool'' False, MakeConstant (PackageName c) (Builtin ''bool'' False)), s')"
    if "tv0 xa = Inr xtv" for xa xtv T s'
    using that by simp
  have 9: "\<exists>r. rhs = [r]
              \<and> ((\<exists>f args a s1. r = CallExpr f args \<and> ExprParser c r s = (Inr a, s1)
                     \<and> (length lhs = length (DataTypeList a)
                          \<or> (isCgoCall r \<and> length lhs = length (DataTypeList a) + 1)))
                 \<or> (\<exists>x k. r = IndexExpr x k \<and> length lhs = 2)
                 \<or> (\<exists>x t. r = TypeAssertExpr x t \<and> length lhs = 2))"
    if ok: "isOk (fst (parseAssignStmt c lhs tok rhs s))"
  proof -
    have l1: "length rhs = 1" using 1 ok by (cases "fst (parseAssignStmt c lhs tok rhs s)") auto
    then obtain r where r: "rhs = [r]" by (cases rhs) auto
    have shok: "isOk (fst (assignRhsShape c lhs rhs s))"
      using ok
      by (cases "assignRhsShape c lhs rhs s"; cases "fst (assignRhsShape c lhs rhs s)")
         (auto simp: parseAssignStmt_def)
    show ?thesis
    proof (cases r)
      case (CallExpr f args)
      obtain q s1 where e: "ExprParser c r s = (q, s1)" by (cases "ExprParser c r s")
      show ?thesis
        using shok ne r CallExpr e assignRhsShape_single [of lhs r c s]
        by (cases q) (auto split: if_splits)
    next
      case (IndexExpr x k)
      then show ?thesis
        using shok ne r assignRhsShape_single [of lhs r c s] by (auto split: if_splits)
    next
      case (TypeAssertExpr x t)
      then show ?thesis
        using shok ne r assignRhsShape_single [of lhs r c s] by (auto split: if_splits)
    qed (use shok ne r assignRhsShape_single [of lhs r c s] in simp_all)
  qed
  show ?thesis
    using 1 2 3 4 5 6 7 8 9 by (intro conjI allI impI) blast+
qed

theorem C3_witness:
  "length [Ident ''a'' 1, Ident ''b'' 2] \<noteq> length [CallExpr (Ident ''f'' 3) []]
   \<and> assignRhsShape exConfig [Ident ''a'' 1, Ident ''b'' 2] [CallExpr (Ident ''f'' 3) []] exState
     = (Inr (CallIndexer
          \<lparr>DataTypeList = [Builtin ''int'' False, Builtin ''error'' False],
             TypeVarList = [ReturnType (VirtualVar 0) 0, ReturnType (VirtualVar 0) 1]\<rparr> False), exState)
   \<and> isErr (fst (parseAssignStmt exConfig [Ident ''a'' 1, Ident ''b'' 2, Ident ''c'' 3] DEFINE
                  [CallExpr (Ident ''f'' 3) []] exState))
   \<and> isErr (fst (parseAssignStmt exConfig [Ident ''a'' 1] DEFINE
                  [CallExpr (Ident ''f'' 3) [], OtherExpr ''1''] exState))
   \<and> isPanic (fst (parseAssignStmt exConfig [Ident ''a'' 1, Ident ''b'' 2] ASSIGN [Ident ''x'' 3]
                  exState))"
proof -
  let ?a = "\<lparr>DataTypeList = [Builtin ''int'' False, Builtin ''error'' False],
             TypeVarList = [ReturnType (VirtualVar 0) 0, ReturnType (VirtualVar 0) 1]\<rparr>"
  have e: "ExprParser exConfig (CallExpr (Ident ''f'' 3) []) exState = (Inr ?a, exState)"
    by (simp add: exConfig_def)
  have 1: "assignRhsShape exConfig [Ident ''a'' 1, Ident ''b'' 2] [CallExpr (Ident ''f'' 3) []] exState
     = (Inr (CallIndexer ?a False), exState)"
    using C3_unequal_sides [of "[Ident ''a'' 1, Ident ''b'' 2]" "[CallExpr (Ident ''f'' 3) []]"
        exConfig DEFINE exState] e
    by simp
  have 2: "isErr (fst (parseAssignStmt exConfig [Ident ''a'' 1, Ident ''b'' 2, Ident ''c'' 3] DEFINE
                  [CallExpr (Ident ''f'' 3) []] exState))"
    using C3_unequal_sides [of "[Ident ''a'' 1, Ident ''b'' 2, Ident ''c'' 3]"
        "[CallExpr (Ident ''f'' 3) []]" exConfig DEFINE exState] e
    by simp
  have 3: "isErr (fst (parseAssignStmt exConfig [Ident ''a'' 1] DEFINE
                  [CallExpr (Ident ''f'' 3) [], OtherExpr ''1''] exState))"
    using C3_unequal_sides [of "[Ident ''a'' 1]" "[CallExpr (Ident ''f'' 3) [], OtherExpr ''1'']"
        exConfig DEFINE exState]
    by simp
  have 4: "isPanic (fst (parseAssignStmt exConfig [Ident ''a'' 1, Ident ''b'' 2] ASSIGN [Ident ''x'' 3]
                  exState))"
    using C3_unequal_sides [of "[Ident ''a'' 1, Ident ''b'' 2]" "[Ident ''x'' 3]"
        exConfig ASSIGN exState]
    by simp
  from 1 2 3 4 show ?thesis by simp
qed

subsection \<open>Select: receive clauses\<close>




end
